(* ===== verification/Prelude.thy ===== *)
theory Prelude
  imports Main "HOL-Library.Sublist" "HOL-Library.List_Lexorder" "HOL-Library.Char_ord"
    "HOL-Library.Multiset"
begin

text \<open>
  Shared vocabulary of the development: the Python built-ins the repository's
  sources call on strings, integers, lists and dicts, written as executable HOL
  functions, with the lemmas the component theories use about them.
  Strings are \<open>char list\<close>s read as ASCII text: \<open>str.lower\<close>, \<open>str.isspace\<close>
  and the regular-expression classes \<open>\d\<close>, \<open>\s\<close> are modelled on the ASCII range.
  A Python dict is an association list in insertion order (Python 3.7+ dicts
  keep it), so that iteration over \<open>d.items()\<close> is \<open>map\<close> over the list.
\<close>

named_theorems py_simps "evaluation facts of the Python built-ins"

section \<open>Characters\<close>

definition is_digit :: "char \<Rightarrow> bool" where
  "is_digit c \<longleftrightarrow> (let n = (of_char c :: nat) in 48 \<le> n \<and> n \<le> 57)"

text \<open>\<open>str.isspace\<close> and the class \<open>\s\<close> of \<open>re\<close> on ASCII: tab, line feed, vertical
  tab, form feed, carriage return, the separators 0x1c to 0x1f, and space.\<close>

definition is_space :: "char \<Rightarrow> bool" where
  "is_space c \<longleftrightarrow> (let n = (of_char c :: nat) in (9 \<le> n \<and> n \<le> 13) \<or> (28 \<le> n \<and> n \<le> 32))"

definition lower_char :: "char \<Rightarrow> char" where
  "lower_char c = (let n = (of_char c :: nat) in if 65 \<le> n \<and> n \<le> 90 then char_of (n + 32) else c)"

text \<open>\<open>s.lower()\<close>.\<close>

definition py_lower :: "string \<Rightarrow> string" where
  "py_lower s = map lower_char s"

section \<open>Substring test: \<open>needle in haystack\<close>\<close>

fun py_in :: "string \<Rightarrow> string \<Rightarrow> bool" where
  "py_in needle [] \<longleftrightarrow> needle = []"
| "py_in needle (c # cs) \<longleftrightarrow> prefix needle (c # cs) \<or> py_in needle cs"

section \<open>Decimal integers: \<open>str(n)\<close>, \<open>int(s)\<close>, \<open>f"{n:,}"\<close>\<close>

definition digit_char :: "nat \<Rightarrow> char" where
  "digit_char d = char_of (48 + d)"

definition digit_val :: "char \<Rightarrow> nat" where
  "digit_val c = of_char c - 48"

fun show_nat :: "nat \<Rightarrow> string" where
  "show_nat n = (if n < 10 then [digit_char n] else show_nat (n div 10) @ [digit_char (n mod 10)])"

declare show_nat.simps [simp del]

text \<open>\<open>int(ds)\<close> for a string of ASCII digits.\<close>

definition parse_nat :: "string \<Rightarrow> nat" where
  "parse_nat ds = foldl (\<lambda>acc c. 10 * acc + digit_val c) 0 ds"

text \<open>\<open>n\<close> written with at least \<open>w\<close> digits, leading zeros added: the format
  \<open>%0wd\<close>, and the three-digit groups after a thousands separator.\<close>

definition pad_nat :: "nat \<Rightarrow> nat \<Rightarrow> string" where
  "pad_nat w n = replicate (w - length (show_nat n)) (CHR ''0'') @ show_nat n"

text \<open>\<open>f"{n:,}"\<close> for a non-negative integer: digit groups of three from the right,
  separated by commas.\<close>

fun fmt_comma :: "nat \<Rightarrow> string" where
  "fmt_comma n = (if n < 1000 then show_nat n else fmt_comma (n div 1000) @ '','' @ pad_nat 3 (n mod 1000))"

declare fmt_comma.simps [simp del]

section \<open>\<open>str.strip\<close>, \<open>str.split(sep)\<close>, \<open>sep.join\<close>\<close>

definition py_strip :: "string \<Rightarrow> string" where
  "py_strip s = rev (dropWhile is_space (rev (dropWhile is_space s)))"

fun py_split :: "char \<Rightarrow> string \<Rightarrow> string list" where
  "py_split sep [] = [[]]"
| "py_split sep (c # cs) =
     (if c = sep then [] # py_split sep cs
      else (case py_split sep cs of w # ws \<Rightarrow> (c # w) # ws | [] \<Rightarrow> [[c]]))"

fun py_join :: "char \<Rightarrow> string list \<Rightarrow> string" where
  "py_join sep [] = []"
| "py_join sep [w] = w"
| "py_join sep (w # ws) = w @ sep # py_join sep ws"

section \<open>Stable descending sort\<close>

text \<open>Sorting by a key, largest first, keeping the input order among equal keys:
  the order of Python's \<open>sorted(xs, key=f, reverse=True)\<close>. It is the ascending
  stable sort of the reversed list, reversed.\<close>

definition sort_desc :: "('a \<Rightarrow> 'k::linorder) \<Rightarrow> 'a list \<Rightarrow> 'a list" where
  "sort_desc f xs = rev (sort_key f (rev xs))"

section \<open>Dicts in insertion order\<close>

text \<open>\<open>d[k] = v\<close>: an existing key keeps its place, a new key goes last.\<close>

fun py_dict_set :: "('k \<times> 'v) list \<Rightarrow> 'k \<Rightarrow> 'v \<Rightarrow> ('k \<times> 'v) list" where
  "py_dict_set [] k v = [(k, v)]"
| "py_dict_set ((k', v') # d) k v =
     (if k' = k then (k, v) # d else (k', v') # py_dict_set d k v)"

text \<open>\<open>d.get(k, default)\<close>.\<close>

definition py_dict_get :: "('k \<times> 'v) list \<Rightarrow> 'k \<Rightarrow> 'v \<Rightarrow> 'v" where
  "py_dict_get d k dflt = (case map_of d k of None \<Rightarrow> dflt | Some v \<Rightarrow> v)"

section \<open>Exceptions\<close>

text \<open>The Python exceptions the modelled code can raise; a call that may raise returns
  \<open>py_error + 'a\<close>, with \<open>Inl\<close> the exception.\<close>

datatype py_error = ValueError | ZeroDivisionError

text \<open>A \<open>for\<close> loop that builds a list and stops at the first element whose
  conversion raises.\<close>

fun map_result :: "('a \<Rightarrow> 'e + 'b) \<Rightarrow> 'a list \<Rightarrow> 'e + 'b list" where
  "map_result f [] = Inr []"
| "map_result f (x # xs) =
     (case f x of
        Inl e \<Rightarrow> Inl e
      | Inr y \<Rightarrow> (case map_result f xs of Inl e \<Rightarrow> Inl e | Inr ys \<Rightarrow> Inr (y # ys)))"

text \<open>Exception propagation between statements: the second runs only when the
  first returned.\<close>

definition py_bind :: "'e + 'a \<Rightarrow> ('a \<Rightarrow> 'e + 'b) \<Rightarrow> 'e + 'b" where
  "py_bind x f = (case x of Inl e \<Rightarrow> Inl e | Inr a \<Rightarrow> f a)"

text \<open>The accumulating dictionary loop the sources write three times:
  \<open>if k in d: d[k] += v else: d[k] = v\<close> for the key and value of each element.
  \<open>group_sum\<close> is what it computes: the keys in order of first occurrence, each with
  the sum of the values of its elements.\<close>

definition dict_add :: "('a \<Rightarrow> 'k) \<Rightarrow> ('a \<Rightarrow> 'v::plus) \<Rightarrow> ('k \<times> 'v) list \<Rightarrow> 'a \<Rightarrow> ('k \<times> 'v) list" where
  "dict_add key val d x =
     (case map_of d (key x) of Some v \<Rightarrow> py_dict_set d (key x) (v + val x) | None \<Rightarrow> py_dict_set d (key x) (val x))"

definition remdups_first :: "'a list \<Rightarrow> 'a list" where
  "remdups_first xs = rev (remdups (rev xs))"

definition group_sum :: "('a \<Rightarrow> 'k) \<Rightarrow> ('a \<Rightarrow> 'v::comm_monoid_add) \<Rightarrow> 'a list \<Rightarrow> ('k \<times> 'v) list" where
  "group_sum key val xs =
     map (\<lambda>k. (k, sum_list (map val (filter (\<lambda>x. key x = k) xs)))) (remdups_first (map key xs))"

section \<open>Lemmas\<close>

subsection \<open>Characters\<close>

lemma digit_val_digit_char [simp]: "d < 10 \<Longrightarrow> digit_val (digit_char d) = d"
  by (simp add: digit_val_def digit_char_def)

lemma is_digit_digit_char [simp]: "d < 10 \<Longrightarrow> is_digit (digit_char d)"
  by (simp add: is_digit_def digit_char_def Let_def)

lemma digit_char_not_space [simp]: "d < 10 \<Longrightarrow> \<not> is_space (digit_char d)"
  by (simp add: is_space_def digit_char_def Let_def)

lemma is_digit_not_space: "is_digit c \<Longrightarrow> \<not> is_space c"
  by (auto simp add: is_digit_def is_space_def Let_def)

lemma digit_val_less: "is_digit c \<Longrightarrow> digit_val c < 10"
  by (auto simp add: is_digit_def digit_val_def Let_def)

subsection \<open>Substrings\<close>

text \<open>\<open>py_in\<close> is the library's contiguous-sublist relation.\<close>

lemma py_in_iff_sublist: "py_in needle s \<longleftrightarrow> sublist needle s"
  by (induction s) (auto simp: sublist_Cons_right)

lemma py_in_append_left [intro]: "py_in needle s \<Longrightarrow> py_in needle (pre @ s)"
  using sublist_order.order_trans [of needle s "pre @ s"] by (simp add: py_in_iff_sublist)

lemma py_in_append_right [intro]: "py_in needle s \<Longrightarrow> py_in needle (s @ post)"
  using sublist_order.order_trans [of needle s "s @ post"] by (simp add: py_in_iff_sublist)

lemma py_in_self [simp]: "py_in s s"
  by (simp add: py_in_iff_sublist)

lemma py_in_mid [intro]: "py_in needle (pre @ needle @ post)"
  by (simp add: py_in_iff_sublist)

lemma py_lower_append [simp]: "py_lower (xs @ ys) = py_lower xs @ py_lower ys"
  by (simp add: py_lower_def)

lemma length_py_lower [simp]: "length (py_lower s) = length s"
  by (simp add: py_lower_def)

subsection \<open>Decimal numbers\<close>

lemma parse_nat_foldl:
  "foldl (\<lambda>acc c. 10 * acc + digit_val c) a ys
     = a * 10 ^ length ys + foldl (\<lambda>acc c. 10 * acc + digit_val c) 0 ys"
proof (induction ys arbitrary: a)
  case Nil
  show ?case by simp
next
  case (Cons y ys)
  let ?F = "\<lambda>acc c. 10 * acc + digit_val c"
  have "foldl ?F a (y # ys) = (10 * a + digit_val y) * 10 ^ length ys + foldl ?F 0 ys"
    using Cons.IH [of "10 * a + digit_val y"] by simp
  moreover have "foldl ?F 0 (y # ys) = digit_val y * 10 ^ length ys + foldl ?F 0 ys"
    using Cons.IH [of "digit_val y"] by simp
  ultimately show ?case by (simp add: algebra_simps)
qed

lemma parse_nat_append: "parse_nat (xs @ ys) = parse_nat xs * 10 ^ length ys + parse_nat ys"
  unfolding parse_nat_def foldl_append by (rule parse_nat_foldl)

lemma parse_nat_Nil [simp]: "parse_nat [] = 0"
  by (simp add: parse_nat_def)

lemma parse_nat_single [simp]: "parse_nat [c] = digit_val c"
  by (simp add: parse_nat_def)

lemma show_nat_eq: "show_nat n = (if n < 10 then [digit_char n] else show_nat (n div 10) @ [digit_char (n mod 10)])"
  by (rule show_nat.simps)

lemma parse_show_nat: "parse_nat (show_nat n) = n"
proof (induction n rule: show_nat.induct)
  case (1 n)
  show ?case
  proof (cases "n < 10")
    case True
    then show ?thesis by (simp add: show_nat_eq [of n])
  next
    case False
    with "1.IH" show ?thesis by (simp add: show_nat_eq [of n] parse_nat_append)
  qed
qed

lemma show_nat_digits: "c \<in> set (show_nat n) \<Longrightarrow> is_digit c"
proof (induction n rule: show_nat.induct)
  case (1 n)
  then show ?case by (cases "n < 10") (auto simp: show_nat_eq [of n])
qed

lemma show_nat_not_Nil [simp]: "show_nat n \<noteq> []"
  by (simp add: show_nat_eq [of n])

lemma length_show_nat_le: "n < 10 ^ k \<Longrightarrow> 0 < k \<Longrightarrow> length (show_nat n) \<le> k"
proof (induction n arbitrary: k rule: show_nat.induct)
  case (1 n)
  show ?case
  proof (cases "n < 10")
    case True
    with "1.prems" show ?thesis by (simp add: show_nat_eq [of n])
  next
    case False
    obtain k' where k: "k = Suc k'"
      using "1.prems" by (cases k) auto
    have "0 < k'"
    proof (rule ccontr)
      assume "\<not> 0 < k'"
      with "1.prems" k False show False by simp
    qed
    moreover have "n div 10 < 10 ^ k'"
      using "1.prems" k by (simp add: div_less_iff_less_mult mult.commute)
    ultimately have "length (show_nat (n div 10)) \<le> k'"
      using "1.IH" False by blast
    with False k show ?thesis by (simp add: show_nat_eq [of n])
  qed
qed

lemma parse_nat_replicate_zero: "parse_nat (replicate j (CHR ''0'')) = 0"
  by (induction j) (simp_all add: parse_nat_def digit_val_def)

lemma parse_nat_zeros [simp]: "parse_nat (replicate j (CHR ''0'') @ s) = parse_nat s"
  by (simp add: parse_nat_append parse_nat_replicate_zero)

lemma length_pad_nat: "m < 10 ^ w \<Longrightarrow> 0 < w \<Longrightarrow> length (pad_nat w m) = w"
  using length_show_nat_le [of m w] by (simp add: pad_nat_def)

lemma length_pad3: "m < 1000 \<Longrightarrow> length (pad_nat 3 m) = 3"
  by (simp add: length_pad_nat)

lemma parse_pad_nat: "parse_nat (pad_nat w m) = m"
  by (simp add: pad_nat_def parse_show_nat)

lemma pad_nat_digits: "c \<in> set (pad_nat w m) \<Longrightarrow> is_digit c"
  by (auto simp: pad_nat_def is_digit_def dest: show_nat_digits)

lemma comma_not_digit: "c \<in> set (show_nat n) \<Longrightarrow> c \<noteq> CHR '',''"
  using show_nat_digits [of c n] by (auto simp: is_digit_def)

lemma filter_show_nat [simp]: "filter (\<lambda>c. c \<noteq> CHR '','') (show_nat n) = show_nat n"
  using comma_not_digit [of _ n] by (simp add: filter_id_conv)

lemma filter_pad_nat [simp]: "filter (\<lambda>c. c \<noteq> CHR '','') (pad_nat w m) = pad_nat w m"
  by (simp add: pad_nat_def)

lemma fmt_comma_eq: "fmt_comma n = (if n < 1000 then show_nat n else fmt_comma (n div 1000) @ '','' @ pad_nat 3 (n mod 1000))"
  by (rule fmt_comma.simps)

text \<open>The thousands-separated rendering \<open>f"{n:,}"\<close> used for prices and totals in
  the quote loses nothing: deleting the commas and reading the digits back with
  \<open>int\<close> gives the amount.\<close>

theorem parse_fmt_comma: "parse_nat (filter (\<lambda>c. c \<noteq> CHR '','') (fmt_comma n)) = n"
proof (induction n rule: fmt_comma.induct)
  case (1 n)
  show ?case
  proof (cases "n < 1000")
    case True
    then show ?thesis by (simp add: fmt_comma_eq [of n] parse_show_nat)
  next
    case False
    then have "parse_nat (filter (\<lambda>c. c \<noteq> CHR '','') (fmt_comma n))
        = parse_nat (filter (\<lambda>c. c \<noteq> CHR '','') (fmt_comma (n div 1000)) @ pad_nat 3 (n mod 1000))"
      by (simp add: fmt_comma_eq [of n])
    also have "\<dots> = (n div 1000) * 1000 + n mod 1000"
      using "1.IH" False by (simp add: parse_nat_append length_pad3 parse_pad_nat)
    finally show ?thesis by simp
  qed
qed

subsection \<open>Split and join\<close>

lemma py_split_not_Nil [simp]: "py_split sep s \<noteq> []"
  by (induction s) (auto split: list.split)

lemma py_join_Cons: "ws \<noteq> [] \<Longrightarrow> py_join sep (w # ws) = w @ sep # py_join sep ws"
  by (cases ws) auto

lemma py_join_Cons_Cons: "py_join sep ((c # w) # ws) = c # py_join sep (w # ws)"
  by (cases ws) auto

theorem py_join_split: "py_join sep (py_split sep s) = s"
proof (induction s)
  case Nil
  show ?case by simp
next
  case (Cons c cs)
  show ?case
  proof (cases "c = sep")
    case True
    with Cons.IH show ?thesis by (simp add: py_join_Cons)
  next
    case False
    then obtain w ws where split: "py_split sep cs = w # ws"
      by (cases "py_split sep cs") auto
    with False Cons.IH show ?thesis by (simp add: py_join_Cons_Cons)
  qed
qed

lemma py_split_no_sep: "w \<in> set (py_split sep s) \<Longrightarrow> sep \<notin> set w"
proof (induction s arbitrary: w)
  case Nil
  then show ?case by simp
next
  case (Cons c cs)
  then show ?case by (auto split: if_splits list.splits)
qed

subsection \<open>Descending sort\<close>

lemma mset_sort_desc [simp]: "mset (sort_desc f xs) = mset xs"
  by (simp add: sort_desc_def)

lemma set_sort_desc [simp]: "set (sort_desc f xs) = set xs"
  by (simp add: sort_desc_def)

lemma length_sort_desc [simp]: "length (sort_desc f xs) = length xs"
  by (simp add: sort_desc_def)

lemma sorted_sort_desc: "sorted (rev (map f (sort_desc f xs)))"
  by (simp add: sort_desc_def rev_map)

lemma sort_desc_stable: "filter (\<lambda>y. f y = k) (sort_desc f xs) = filter (\<lambda>y. f y = k) xs"
  by (simp add: sort_desc_def rev_filter [symmetric] sort_key_stable)

lemma sort_desc_Nil [simp]: "sort_desc f [] = []"
  by (simp add: sort_desc_def)

lemma length_takeWhile_less_iff: "length (takeWhile P xs) < length xs \<longleftrightarrow> (\<exists>x\<in>set xs. \<not> P x)"
  by (induction xs) auto

lemma sort_desc_eq_Nil_iff [simp]: "sort_desc f xs = [] \<longleftrightarrow> xs = []"
  by (metis length_0_conv length_sort_desc)

lemma take_sort_desc_top:
  assumes "x \<in> set xs" "x \<notin> set (take n (sort_desc f xs))" "y \<in> set (take n (sort_desc f xs))"
  shows "f x \<le> f y"
proof -
  let ?s = "sort_desc f xs"
  have "sorted_wrt (\<lambda>a b. b \<le> a) (map f ?s)"
    using sorted_sort_desc [of f xs] by (simp add: sorted_wrt_rev)
  then have "sorted_wrt (\<lambda>a b. b \<le> a) (map f (take n ?s) @ map f (drop n ?s))"
    by (simp add: map_append [symmetric] del: map_append)
  then have all: "\<forall>a\<in>set (take n ?s). \<forall>b\<in>set (drop n ?s). f b \<le> f a"
    by (simp add: sorted_wrt_append)
  have "x \<in> set (take n ?s) \<union> set (drop n ?s)"
    using assms(1) by (metis append_take_drop_id set_append set_sort_desc)
  then have "x \<in> set (drop n ?s)"
    using assms(2) by blast
  with all assms(3) show ?thesis by blast
qed

subsection \<open>Dicts\<close>

lemma map_of_py_dict_set [simp]: "map_of (py_dict_set d k v) = (map_of d)(k \<mapsto> v)"
  by (induction d) (auto simp: fun_eq_iff)

lemma keys_py_dict_set:
  "map fst (py_dict_set d k v) = (if k \<in> set (map fst d) then map fst d else map fst d @ [k])"
  by (induction d) force+

lemma distinct_py_dict_set [intro]: "distinct (map fst d) \<Longrightarrow> distinct (map fst (py_dict_set d k v))"
  by (simp add: keys_py_dict_set)

lemma py_dict_get_set [simp]: "py_dict_get (py_dict_set d k v) k' dflt = (if k' = k then v else py_dict_get d k' dflt)"
  by (simp add: py_dict_get_def)

subsection \<open>Loops that may raise\<close>

lemma map_result_Inr_iff:
  "map_result f xs = Inr ys \<longleftrightarrow> list_all2 (\<lambda>x y. f x = Inr y) xs ys"
proof (induction xs arbitrary: ys)
  case Nil
  then show ?case by auto
next
  case (Cons x xs)
  show ?case
  proof (cases ys)
    case Nil
    then show ?thesis by (auto split: sum.splits)
  next
    case (Cons y ys')
    then show ?thesis
      using Cons.IH [of ys'] by (auto split: sum.splits simp flip: Cons.IH)
  qed
qed

lemma map_result_Inl_iff:
  "(\<exists>e. map_result f xs = Inl e) \<longleftrightarrow> (\<exists>x\<in>set xs. \<exists>e. f x = Inl e)"
  by (induction xs) (auto split: sum.splits)

lemma map_result_length: "map_result f xs = Inr ys \<Longrightarrow> length ys = length xs"
  by (simp add: map_result_Inr_iff list_all2_lengthD)

lemma map_result_Inr_mem: "map_result f xs = Inr ys \<Longrightarrow> x \<in> set xs \<Longrightarrow> \<exists>y\<in>set ys. f x = Inr y"
  by (induction xs arbitrary: ys) (auto split: sum.splits)

lemma map_result_Inr_image: "map_result f xs = Inr ys \<Longrightarrow> y \<in> set ys \<Longrightarrow> \<exists>x\<in>set xs. f x = Inr y"
  by (induction xs arbitrary: ys) (auto split: sum.splits)

lemma map_result_Inr_all:
  "list_all (\<lambda>x. \<exists>y. f x = Inr y \<and> P y) xs \<Longrightarrow> \<exists>ys. map_result f xs = Inr ys \<and> list_all P ys"
proof (induction xs)
  case Nil
  then show ?case by simp
next
  case (Cons x xs)
  then obtain y ys where "f x = Inr y" "P y" "map_result f xs = Inr ys" "list_all P ys" by auto
  then show ?case by simp
qed

subsection \<open>Accumulating dictionaries\<close>

lemma remdups_first_snoc:
  "remdups_first (xs @ [x]) = (if x \<in> set xs then remdups_first xs else remdups_first xs @ [x])"
  by (simp add: remdups_first_def)

lemma set_remdups_first [simp]: "set (remdups_first xs) = set xs"
  by (simp add: remdups_first_def)

lemma distinct_remdups_first [simp]: "distinct (remdups_first xs)"
  by (simp add: remdups_first_def)

lemma map_of_map_keys:
  "map_of (map (\<lambda>k. (k, f k)) ks) x = (if x \<in> set ks then Some (f x) else None)"
  by (induction ks) auto

lemma py_dict_set_map_in:
  "distinct ks \<Longrightarrow> x \<in> set ks \<Longrightarrow> py_dict_set (map (\<lambda>k. (k, f k)) ks) x v = map (\<lambda>k. (k, if k = x then v else f k)) ks"
  by (induction ks) auto

lemma py_dict_set_map_notin:
  "x \<notin> set ks \<Longrightarrow> py_dict_set (map (\<lambda>k. (k, f k)) ks) x v = map (\<lambda>k. (k, f k)) ks @ [(x, v)]"
  by (induction ks) auto

lemma dict_add_group_sum:
  "dict_add key val (group_sum key val ys) x = group_sum key val (ys @ [x])"
proof (cases "key x \<in> key ` set ys")
  case True
  then have "key x \<in> set (remdups_first (map key ys))" by simp
  with True show ?thesis
    by (auto simp: dict_add_def group_sum_def map_of_map_keys py_dict_set_map_in remdups_first_snoc
        add.commute intro!: map_cong)
next
  case False
  then have nk: "\<forall>y\<in>set ys. key y \<noteq> key x" by (metis image_eqI)
  then have "filter (\<lambda>y. key y = key x) ys = []" by (auto simp: filter_empty_conv)
  with False nk show ?thesis
    by (auto simp: dict_add_def group_sum_def map_of_map_keys py_dict_set_map_notin remdups_first_snoc
        intro!: map_cong)
qed

lemma foldl_dict_add: "foldl (dict_add key val) (group_sum key val ys) xs = group_sum key val (ys @ xs)"
proof (induction xs arbitrary: ys)
  case Nil
  then show ?case by simp
next
  case (Cons x xs)
  then show ?case using dict_add_group_sum [of key val ys x] by (metis append.assoc append_Cons append_Nil foldl_Cons)
qed

lemma group_sum_Nil [simp]: "group_sum key val [] = []"
  by (simp add: group_sum_def remdups_first_def)

lemma group_sum_eq_Nil_iff [simp]: "group_sum key val xs = [] \<longleftrightarrow> xs = []"
  by (simp add: group_sum_def remdups_first_def)

lemma foldl_dict_add_Nil: "foldl (dict_add key val) [] xs = group_sum key val xs"
  using foldl_dict_add [of key val "[]" xs] by simp

lemma dict_add_one:
  "py_dict_set d (key x) (py_dict_get d (key x) 0 + 1) = dict_add key (\<lambda>x. 1 :: nat) d x"
  by (simp add: dict_add_def py_dict_get_def split: option.split)

lemma sum_list_map_one: "sum_list (map (\<lambda>x. 1 :: nat) xs) = length xs"
  by (induction xs) auto

lemma count_list_map_key: "count_list (map key xs) k = length (filter (\<lambda>x. key x = k) xs)"
  by (induction xs) auto

lemma group_sum_one:
  "group_sum key (\<lambda>x. 1 :: nat) xs = map (\<lambda>k. (k, count_list (map key xs) k)) (remdups_first (map key xs))"
  unfolding group_sum_def count_list_map_key by (simp only: sum_list_map_one)

lemma py_bind_Inr [simp]: "py_bind (Inr a) f = f a"
  by (simp add: py_bind_def)

lemma py_bind_Inl [simp]: "py_bind (Inl e) f = Inl e"
  by (simp add: py_bind_def)

lemma sum_py_dict_set_Some:
  "map_of d k = Some v \<Longrightarrow> sum_list (map snd (py_dict_set d k (v + a))) = sum_list (map snd d) + (a :: 'v::comm_monoid_add)"
  by (induction d) (auto simp: ac_simps split: if_splits)

lemma sum_py_dict_set_None:
  "map_of d k = None \<Longrightarrow> sum_list (map snd (py_dict_set d k a)) = sum_list (map snd d) + (a :: 'v::comm_monoid_add)"
  by (induction d) (auto simp: ac_simps split: if_splits)

lemma sum_dict_add:
  "sum_list (map snd (dict_add key val d x)) = sum_list (map snd d) + (val x :: 'v::comm_monoid_add)"
  by (simp add: dict_add_def sum_py_dict_set_Some sum_py_dict_set_None split: option.split)

lemma sum_group_sum: "sum_list (map snd (group_sum key val xs)) = sum_list (map val xs)"
proof (induction xs rule: rev_induct)
  case Nil
  then show ?case by simp
next
  case (snoc x xs)
  then show ?case using dict_add_group_sum [of key val xs x, symmetric] sum_dict_add [of key val _ x]
    by (simp add: add.commute)
qed

lemma keys_group_sum [simp]: "map fst (group_sum key val xs) = remdups_first (map key xs)"
  by (simp add: group_sum_def comp_def)

lemma foldl_py_count:
  "foldl (\<lambda>d x. py_dict_set d (key x) (py_dict_get d (key x) 0 + 1)) [] xs = group_sum key (\<lambda>x. 1 :: nat) xs"
proof -
  have "(\<lambda>d x. py_dict_set d (key x) (py_dict_get d (key x) 0 + 1)) = dict_add key (\<lambda>x. 1 :: nat)"
    by (intro ext) (rule dict_add_one)
  then show ?thesis by (simp add: foldl_dict_add_Nil)
qed

lemma sum_count_list:
  "distinct ks \<Longrightarrow> set xs \<subseteq> set ks \<Longrightarrow> sum_list (map (count_list xs) ks) = length xs"
proof (induction xs)
  case Nil
  then show ?case by (simp add: sum_list_map_one [of ks, symmetric] del: sum_list_map_one)
next
  case (Cons x xs)
  have "sum_list (map (count_list (x # xs)) ks)
      = sum_list (map (\<lambda>k. (if x = k then 1 else 0) + count_list xs k) ks)"
    by (intro arg_cong [where f = sum_list] map_cong) auto
  also have "\<dots> = sum_list (map (\<lambda>k. if x = k then 1 else 0) ks) + sum_list (map (count_list xs) ks)"
    by (simp add: sum_list_addf)
  also have "sum_list (map (\<lambda>k. if x = k then 1 else 0) ks) = (1 :: nat)"
    using Cons.prems by (simp add: sum_list_distinct_conv_sum_set)
  finally show ?case using Cons by simp
qed

subsection \<open>Evaluation\<close>

text \<open>The facts that evaluate the built-ins on literals by \<open>simp\<close>. The recursive
  equations of \<open>show_nat\<close> and \<open>fmt_comma\<close> unfold only on numerals, where the
  simplifier decides each guard first; they are not simp rules in general.\<close>

lemma replicate_numeral [py_simps]: "replicate (numeral n) x = x # replicate (pred_numeral n) x"
  by (simp add: numeral_eq_Suc)

declare show_nat.simps [py_simps] fmt_comma.simps [py_simps] pad_nat_def [py_simps]
  digit_char_def [py_simps] char_of_def [py_simps] bit_nat_def [py_simps]
  py_lower_def [py_simps] lower_char_def [py_simps] is_digit_def [py_simps]
  is_space_def [py_simps] parse_nat_def [py_simps] digit_val_def [py_simps]
  py_strip_def [py_simps] sort_desc_def [py_simps] py_dict_get_def [py_simps]

end
