(* ===== verification/MessageProcessor.thy ===== *)
theory MessageProcessor
  imports Prelude
begin

text \<open>
  The intent and pricing engine, class \<open>MessageProcessor\<close> of
  \<open>src/utils/message_processor.py\<close>. The object is a record of its three
  attributes (keyword lists and the menu dict, in insertion order);
  \<open>process_message\<close> classifies a message by the first matching keyword group
  (greeting, order, status, fallback), and \<open>_process_order\<close> extracts the menu
  items the message names, with the quantity read by the regular expression
  \<open>(\d+)\s*item\<close>, and renders the priced quote. The lemmas characterise the
  regular-expression search (soundness, completeness, the number it reads), the
  item extraction, the rendering loop against a reference rendering, and every
  branch of the classification.
\<close>

section \<open>State and constants\<close>

record message_processor =
  greeting_keywords :: "string list"
  order_keywords :: "string list"
  menu_items :: "(string \<times> nat) list"

text \<open>\<open>MessageProcessor.__init__\<close>.\<close>

definition new_message_processor :: message_processor where
  "new_message_processor =
     \<lparr>greeting_keywords = [''halo'', ''hai'', ''hello'', ''hi'', ''selamat''],
      order_keywords = [''pesan'', ''order'', ''mau'', ''ingin'', ''beli''],
      menu_items = [(''nasi goreng'', 25000), (''ayam bakar'', 35000), (''mie goreng'', 20000),
                    (''es teh'', 5000), (''es jeruk'', 6000)]\<rparr>"

definition nl :: string where
  "nl = [CHR 0x0A]"

definition squote :: "string \<Rightarrow> string" where
  "squote s = CHR 0x27 # s @ [CHR 0x27]"

definition status_reply :: string where
  "status_reply = ''Terima kasih telah menghubungi kami. Untuk mengecek status pesanan, silakan berikan nomor pesanan Anda.''"

definition default_reply :: string where
  "default_reply = ''Terima kasih telah menghubungi kami. Silakan pesan dengan menyebutkan menu yang Anda inginkan.''"

definition not_understood_reply :: string where
  "not_understood_reply = ''Maaf, saya tidak mengerti pesanan Anda. Silakan sebutkan menu yang ingin dipesan. Menu kami: nasi goreng (Rp 25,000), ayam bakar (Rp 35,000), mie goreng (Rp 20,000), es teh (Rp 5,000), es jeruk (Rp 6,000).''"

definition confirm_prompt :: string where
  "confirm_prompt = ''Silakan konfirmasi dengan mengetik '' @ squote ''ya'' @ '' untuk memesan atau '' @ squote ''tidak'' @ '' untuk membatalkan.''"

text \<open>\<open>_generate_greeting_response\<close>: the sender is not used.\<close>

definition generate_greeting_response :: "string \<Rightarrow> string" where
  "generate_greeting_response sender = ''Halo! Terima kasih telah menghubungi kami. Ada yang bisa saya bantu untuk dipesan?''"

section \<open>The quantity pattern \<open>(\d+)\s*item\<close>\<close>

text \<open>
  \<open>re.search(r'(\d+)\s*' + re.escape(item), message)\<close>. At a fixed start the
  backtracking engine tries the longest run of digits first and gives digits back
  one at a time; after the digits, \<open>\s*\<close> again tries the longest run of blanks
  first; then the escaped item must follow literally. \<open>qty_match_at item s\<close> is
  the number of digits of the first success at the start of \<open>s\<close>, so that
  \<open>group(1)\<close> is that many leading characters. The search tries the starts from
  left to right.
\<close>

definition qty_match_at :: "string \<Rightarrow> string \<Rightarrow> nat option" where
  "qty_match_at item s =
     find (\<lambda>k. list_ex (\<lambda>j. prefix item (drop j (drop k s)))
                  (rev [0..<Suc (length (takeWhile is_space (drop k s)))]))
          (rev [1..<Suc (length (takeWhile is_digit s))])"

fun qty_search :: "string \<Rightarrow> string \<Rightarrow> string option" where
  "qty_search item [] = None"
| "qty_search item (c # cs) =
     (case qty_match_at item (c # cs) of
        Some k \<Rightarrow> Some (take k (c # cs))
      | None \<Rightarrow> qty_search item cs)"

text \<open>\<open>quantity = int(match.group(1)) if match else 1\<close>.\<close>

definition item_quantity :: "string \<Rightarrow> string \<Rightarrow> nat" where
  "item_quantity message item = (case qty_search item message of Some ds \<Rightarrow> parse_nat ds | None \<Rightarrow> 1)"

section \<open>\<open>_process_order\<close>\<close>

text \<open>The extraction loop over \<open>self.menu_items.items()\<close>.\<close>

fun find_items :: "(string \<times> nat) list \<Rightarrow> string \<Rightarrow> (string \<times> nat \<times> nat) list" where
  "find_items [] message = []"
| "find_items ((item, price) # menu) message =
     (if py_in item message
      then (item, item_quantity message item, price) # find_items menu message
      else find_items menu message)"

text \<open>The rendering loop: \<open>response\<close> and \<open>acc_total\<close> (the source's \<open>total\<close>) are
  the two accumulators.\<close>

fun render_items :: "string \<Rightarrow> nat \<Rightarrow> (string \<times> nat \<times> nat) list \<Rightarrow> string \<times> nat" where
  "render_items response acc_total [] = (response, acc_total)"
| "render_items response acc_total ((item, quantity, price) # xs) =
     (let item_total = quantity * price in
      render_items
        (response @ ''- '' @ show_nat quantity @ '' '' @ item @ '' @ Rp '' @ fmt_comma price
                  @ '' = Rp '' @ fmt_comma item_total @ nl)
        (acc_total + item_total) xs)"

definition process_order :: "message_processor \<Rightarrow> string \<Rightarrow> string \<Rightarrow> string" where
  "process_order mp message sender =
     (let found_items = find_items (menu_items mp) message in
      if found_items \<noteq> [] then
        (case render_items (''Terima kasih atas pesanan Anda:'' @ nl) 0 found_items of
           (response, acc_total) \<Rightarrow> response @ nl @ ''Total: Rp '' @ fmt_comma acc_total @ nl @ confirm_prompt)
      else not_understood_reply)"

section \<open>\<open>process_message\<close>\<close>

definition process_message :: "message_processor \<Rightarrow> string \<Rightarrow> string \<Rightarrow> string" where
  "process_message mp message sender =
     (let message_lower = py_lower message in
      if list_ex (\<lambda>word. py_in word message_lower) (greeting_keywords mp)
      then generate_greeting_response sender
      else if list_ex (\<lambda>word. py_in word message_lower) (order_keywords mp)
      then process_order mp message_lower sender
      else if py_in ''status'' message_lower \<or> py_in ''kapan'' message_lower
      then status_reply
      else default_reply)"

section \<open>Reference rendering\<close>

text \<open>The quote as one expression: a line per item and the sum of the line totals. The
  rendering loop is proved equal to it below.\<close>

definition item_line :: "string \<times> nat \<times> nat \<Rightarrow> string" where
  "item_line x = (case x of (item, quantity, price) \<Rightarrow>
     ''- '' @ show_nat quantity @ '' '' @ item @ '' @ Rp '' @ fmt_comma price
       @ '' = Rp '' @ fmt_comma (quantity * price) @ nl)"

definition order_total :: "(string \<times> nat \<times> nat) list \<Rightarrow> nat" where
  "order_total xs = sum_list (map (\<lambda>(item, quantity, price). quantity * price) xs)"

definition quote_text :: "(string \<times> nat \<times> nat) list \<Rightarrow> string" where
  "quote_text xs = ''Terima kasih atas pesanan Anda:'' @ nl @ concat (map item_line xs)
     @ nl @ ''Total: Rp '' @ fmt_comma (order_total xs) @ nl @ confirm_prompt"

lemmas mp_eval = new_message_processor_def process_message_def process_order_def
  qty_match_at_def item_quantity_def nl_def squote_def confirm_prompt_def
  quote_text_def item_line_def order_total_def

section \<open>The quantity search\<close>

lemma find_Some_mem: "find P xs = Some x \<Longrightarrow> x \<in> set xs \<and> P x"
  by (induction xs) (auto split: if_splits)

lemma take_le_takeWhile: "k \<le> length (takeWhile P xs) \<Longrightarrow> c \<in> set (take k xs) \<Longrightarrow> P c"
  by (induction xs arbitrary: k) (auto simp: take_Cons split: nat.splits if_splits)

lemma takeWhile_all_append: "\<forall>c\<in>set xs. P c \<Longrightarrow> \<not> P y \<Longrightarrow> takeWhile P (xs @ y # ys) = xs"
  by (simp add: takeWhile_append2)

lemma length_takeWhile_all_append: "\<forall>c\<in>set xs. P c \<Longrightarrow> length xs \<le> length (takeWhile P (xs @ ys))"
  by (simp add: takeWhile_append2)

lemma qty_match_at_Some:
  assumes "qty_match_at item s = Some k"
  shows "1 \<le> k \<and> k \<le> length (takeWhile is_digit s)
     \<and> (\<exists>j \<le> length (takeWhile is_space (drop k s)). prefix item (drop j (drop k s)))"
proof -
  from find_Some_mem [OF assms [unfolded qty_match_at_def]] have
    k: "k \<in> set (rev [1..<Suc (length (takeWhile is_digit s))])" and
    ex: "list_ex (\<lambda>j. prefix item (drop j (drop k s)))
           (rev [0..<Suc (length (takeWhile is_space (drop k s)))])"
    by blast+
  from k have "1 \<le> k" "k < Suc (length (takeWhile is_digit s))"
    unfolding set_rev set_upt by simp_all
  then have "1 \<le> k \<and> k \<le> length (takeWhile is_digit s)"
    by linarith
  moreover from ex obtain j where
    j: "j \<in> set (rev [0..<Suc (length (takeWhile is_space (drop k s)))])"
    and p: "prefix item (drop j (drop k s))"
    unfolding list_ex_iff by blast
  from j have "j < Suc (length (takeWhile is_space (drop k s)))"
    unfolding set_rev set_upt by simp
  then have "j \<le> length (takeWhile is_space (drop k s))"
    by linarith
  with p have "\<exists>j \<le> length (takeWhile is_space (drop k s)). prefix item (drop j (drop k s))"
    by blast
  ultimately show ?thesis by blast
qed

lemma qty_match_at_at:
  assumes "1 \<le> k" "k \<le> length (takeWhile is_digit s)"
    and "j \<le> length (takeWhile is_space (drop k s))" "prefix item (drop j (drop k s))"
  shows "qty_match_at item s \<noteq> None"
proof -
  have "k \<in> set (rev [1..<Suc (length (takeWhile is_digit s))])"
    using assms(1,2) unfolding set_rev set_upt by simp
  moreover have "list_ex (\<lambda>j. prefix item (drop j (drop k s)))
                  (rev [0..<Suc (length (takeWhile is_space (drop k s)))])"
    using assms(3,4) unfolding list_ex_iff set_rev set_upt by auto
  ultimately show ?thesis
    unfolding qty_match_at_def find_None_iff by blast
qed

lemma not_digit_head:
  assumes "\<forall>c\<in>set w. is_space c" "\<not> is_digit i"
  shows "takeWhile is_digit (w @ i # is @ rest) = []"
proof (cases w)
  case Nil
  with assms(2) show ?thesis by simp
next
  case (Cons c w')
  with assms(1) have "is_space c" by simp
  then have "\<not> is_digit c"
    using is_digit_not_space by auto
  with Cons show ?thesis by simp
qed

lemma qty_match_at_exact:
  assumes "\<forall>c\<in>set ds. is_digit c" "\<forall>c\<in>set w. is_space c"
    and "\<not> is_digit i" "\<not> is_space i" "ds \<noteq> []"
  shows "qty_match_at (i # is) (ds @ w @ i # is @ rest) = Some (length ds)"
proof -
  let ?s = "ds @ w @ i # is @ rest"
  have digits: "takeWhile is_digit ?s = ds"
    using assms(1) not_digit_head [OF assms(2,3)] by (simp add: takeWhile_append2)
  have blanks: "takeWhile is_space (drop (length ds) ?s) = w"
    using assms(2,4) by (simp add: takeWhile_append2)
  have L: "rev [1..<Suc (length ds)] = length ds # rev [1..<length ds]"
    using assms(5) by (cases ds) auto
  have "prefix (i # is) (drop (length w) (drop (length ds) ?s))"
    by simp
  moreover have "length w \<in> set (rev [0..<Suc (length w)])"
    unfolding set_rev set_upt by simp
  ultimately have "list_ex (\<lambda>j. prefix (i # is) (drop j (drop (length ds) ?s)))
      (rev [0..<Suc (length w)])"
    unfolding list_ex_iff by blast
  then have P: "list_ex (\<lambda>j. prefix (i # is) (drop j (drop (length ds) ?s)))
      (rev [0..<Suc (length (takeWhile is_space (drop (length ds) ?s)))])"
    by (simp only: blanks)
  show ?thesis
    unfolding qty_match_at_def digits L
    by (simp only: find.simps eqTrueI [OF P] if_True)
qed

lemma qty_search_exact:
  assumes "\<forall>c\<in>set ds. is_digit c" "\<forall>c\<in>set w. is_space c"
    and "\<not> is_digit i" "\<not> is_space i" "ds \<noteq> []"
  shows "qty_search (i # is) (ds @ w @ i # is @ rest) = Some ds"
proof -
  obtain d ds' where ds: "ds = d # ds'"
    using assms(5) by (cases ds) auto
  show ?thesis
    using qty_match_at_exact [OF assms] by (simp add: ds)
qed

lemma qty_match_at_digit: "qty_match_at item s = Some k \<Longrightarrow> \<exists>c\<in>set s. is_digit c"
  using qty_match_at_Some [of item s k]
  by (cases s) (auto split: if_splits)

lemma qty_search_digit: "qty_search item s = Some ds \<Longrightarrow> \<exists>c\<in>set s. is_digit c"
proof (induction s)
  case Nil
  then show ?case by simp
next
  case (Cons c cs)
  show ?case
  proof (cases "qty_match_at item (c # cs)")
    case None
    with Cons show ?thesis by auto
  next
    case (Some k)
    then show ?thesis by (rule qty_match_at_digit)
  qed
qed

section \<open>Quantities and extraction\<close>

lemma find_items_mem:
  "(i, q, p) \<in> set (find_items menu m) \<Longrightarrow> (i, p) \<in> set menu \<and> py_in i m \<and> q = item_quantity m i"
  by (induction menu m rule: find_items.induct) (auto split: if_splits)

lemma find_items_Nil_iff: "find_items menu m = [] \<longleftrightarrow> (\<forall>(i, p)\<in>set menu. \<not> py_in i m)"
  by (induction menu m rule: find_items.induct) auto

section \<open>Rendering and classification\<close>

lemma render_items_eq:
  "render_items r t xs = (r @ concat (map item_line xs), t + order_total xs)"
  by (induction r t xs rule: render_items.induct) (simp_all add: item_line_def order_total_def Let_def)

lemma process_order_found:
  "find_items (menu_items mp) m \<noteq> [] \<Longrightarrow> process_order mp m s = quote_text (find_items (menu_items mp) m)"
  by (simp add: process_order_def render_items_eq quote_text_def Let_def)

lemma process_order_not_found:
  "find_items (menu_items mp) m = [] \<Longrightarrow> process_order mp m s = not_understood_reply"
  by (simp add: process_order_def)

lemma process_message_order:
  "\<not> list_ex (\<lambda>w. py_in w (py_lower m)) (greeting_keywords mp) \<Longrightarrow>
   list_ex (\<lambda>w. py_in w (py_lower m)) (order_keywords mp) \<Longrightarrow>
     process_message mp m s = process_order mp (py_lower m) s"
  by (simp add: process_message_def)

lemma process_message_status:
  "\<not> list_ex (\<lambda>w. py_in w (py_lower m)) (greeting_keywords mp) \<Longrightarrow>
   \<not> list_ex (\<lambda>w. py_in w (py_lower m)) (order_keywords mp) \<Longrightarrow>
   py_in ''status'' (py_lower m) \<or> py_in ''kapan'' (py_lower m) \<Longrightarrow>
     process_message mp m s = status_reply"
  by (simp add: process_message_def)

lemma process_message_default:
  "\<not> list_ex (\<lambda>w. py_in w (py_lower m)) (greeting_keywords mp) \<Longrightarrow>
   \<not> list_ex (\<lambda>w. py_in w (py_lower m)) (order_keywords mp) \<Longrightarrow>
   \<not> py_in ''status'' (py_lower m) \<Longrightarrow> \<not> py_in ''kapan'' (py_lower m) \<Longrightarrow>
     process_message mp m s = default_reply"
  by (simp add: process_message_def)

lemma quote_text_not_status: "quote_text xs \<noteq> status_reply"
  by (simp add: quote_text_def status_reply_def)

section \<open>Properties of the engine\<close>

text \<open>C1. Greeting has top priority: whenever the lower-cased message contains one of
  the greeting keywords as a substring, the reply is the fixed greeting, whatever
  order, status or menu words the message also contains.\<close>

theorem process_message_greeting:
  assumes "list_ex (\<lambda>w. py_in w (py_lower m)) (greeting_keywords mp)"
  shows "process_message mp m s = generate_greeting_response s"
  using assms by (simp add: process_message_def)

theorem process_message_greeting_witness:
  "list_ex (\<lambda>w. py_in w (py_lower ''Halo, saya ingin memesan nasi goreng''))
     (greeting_keywords new_message_processor)
   \<and> process_message new_message_processor ''Halo, saya ingin memesan nasi goreng'' ''+628123456789''
     = generate_greeting_response ''+628123456789''"
proof -
  have h: "list_ex (\<lambda>w. py_in w (py_lower ''Halo, saya ingin memesan nasi goreng''))
     (greeting_keywords new_message_processor)"
    by (simp add: mp_eval py_simps)
  show ?thesis using h process_message_greeting [OF h] by blast
qed

text \<open>C2. An order message (no greeting keyword, an order keyword, at least one menu
  item named) is answered with the quote: one line per recognised item in menu order,
  "quantity item @ Rp price = Rp quantity*price", then the sum of the line totals and
  the confirmation prompt. The accumulating loop of the source computes exactly this.\<close>

theorem process_message_quote:
  assumes "\<not> list_ex (\<lambda>w. py_in w (py_lower m)) (greeting_keywords mp)"
    and "list_ex (\<lambda>w. py_in w (py_lower m)) (order_keywords mp)"
    and "find_items (menu_items mp) (py_lower m) \<noteq> []"
  shows "process_message mp m s = quote_text (find_items (menu_items mp) (py_lower m))"
  using assms by (simp add: process_message_order process_order_found)

theorem process_message_quote_witness:
  "\<not> list_ex (\<lambda>w. py_in w (py_lower ''saya mau pesan 2 nasi goreng dan 1 es teh''))
       (greeting_keywords new_message_processor)
   \<and> list_ex (\<lambda>w. py_in w (py_lower ''saya mau pesan 2 nasi goreng dan 1 es teh''))
       (order_keywords new_message_processor)
   \<and> find_items (menu_items new_message_processor) (py_lower ''saya mau pesan 2 nasi goreng dan 1 es teh'') \<noteq> []
   \<and> process_message new_message_processor ''saya mau pesan 2 nasi goreng dan 1 es teh'' ''+628123456789''
     = quote_text (find_items (menu_items new_message_processor)
                     (py_lower ''saya mau pesan 2 nasi goreng dan 1 es teh''))"
proof -
  have h1: "\<not> list_ex (\<lambda>w. py_in w (py_lower ''saya mau pesan 2 nasi goreng dan 1 es teh''))
       (greeting_keywords new_message_processor)"
    by (simp add: mp_eval py_simps)
  have h2: "list_ex (\<lambda>w. py_in w (py_lower ''saya mau pesan 2 nasi goreng dan 1 es teh''))
       (order_keywords new_message_processor)"
    by (simp add: mp_eval py_simps)
  have h3: "find_items (menu_items new_message_processor)
      (py_lower ''saya mau pesan 2 nasi goreng dan 1 es teh'') \<noteq> []"
    by (simp add: mp_eval py_simps)
  show ?thesis using h1 h2 h3 process_message_quote [OF h1 h2 h3] by blast
qed

text \<open>The specification's example: "saya mau pesan 2 nasi goreng dan 1 es teh" is
  quoted as 2 nasi goreng at 25000 and 1 es teh at 5000 (no number precedes it, so
  the default quantity 1), total 55000.\<close>

theorem spec_order_example:
  "find_items (menu_items new_message_processor) (py_lower ''saya mau pesan 2 nasi goreng dan 1 es teh'')
     = [(''nasi goreng'', 2, 25000), (''es teh'', 1, 5000)]
   \<and> order_total [(''nasi goreng'', 2, 25000), (''es teh'', 1, 5000)] = 55000
   \<and> process_message new_message_processor ''saya mau pesan 2 nasi goreng dan 1 es teh'' ''+628123456789''
     = quote_text [(''nasi goreng'', 2, 25000), (''es teh'', 1, 5000)]"
proof -
  let ?m = "''saya mau pesan 2 nasi goreng dan 1 es teh''"
  have items: "find_items (menu_items new_message_processor) (py_lower ?m)
     = [(''nasi goreng'', 2, 25000), (''es teh'', 1, 5000)]"
    by (simp add: mp_eval py_simps)
  have g: "\<not> list_ex (\<lambda>w. py_in w (py_lower ?m)) (greeting_keywords new_message_processor)"
    by (simp add: mp_eval py_simps)
  have o: "list_ex (\<lambda>w. py_in w (py_lower ?m)) (order_keywords new_message_processor)"
    by (simp add: mp_eval py_simps)
  have "process_message new_message_processor ?m ''+628123456789''
      = quote_text [(''nasi goreng'', 2, 25000), (''es teh'', 1, 5000)]"
    using process_message_order [OF g o] process_order_found items by simp
  moreover have "order_total [(''nasi goreng'', 2, 25000), (''es teh'', 1, 5000)] = 55000"
    by (simp add: order_total_def)
  ultimately show ?thesis using items by blast
qed

text \<open>C4. Soundness of the quantity search: when \<open>re.search(r'(\d+)\s*item', message)\<close>
  returns a group, the message really contains that group, a non-empty run of digits,
  followed by blanks only and then the item.\<close>

theorem qty_search_sound:
  assumes "qty_search item s = Some ds"
  shows "\<exists>pre w rest. s = pre @ ds @ w @ item @ rest \<and> ds \<noteq> []
           \<and> list_all is_digit ds \<and> list_all is_space w"
  using assms unfolding list_all_iff
proof (induction s)
  case Nil
  then show ?case by simp
next
  case (Cons c cs)
  show ?case
  proof (cases "qty_match_at item (c # cs)")
    case None
    with Cons.prems have "qty_search item cs = Some ds" by simp
    from Cons.IH [OF this] obtain pre w rest where
      "cs = pre @ ds @ w @ item @ rest" "ds \<noteq> []"
      "\<forall>c\<in>set ds. is_digit c" "\<forall>c\<in>set w. is_space c"
      by blast
    then show ?thesis by (metis append_Cons)
  next
    case (Some k)
    let ?s = "c # cs"
    from Some Cons.prems have ds: "ds = take k ?s" by simp
    from qty_match_at_Some [OF Some] obtain j where
      k: "1 \<le> k" "k \<le> length (takeWhile is_digit ?s)"
      and j: "j \<le> length (takeWhile is_space (drop k ?s))"
      and p: "prefix item (drop j (drop k ?s))"
      by blast
    from p obtain rest where rest: "drop j (drop k ?s) = item @ rest"
      by (rule prefixE)
    have "?s = take k ?s @ take j (drop k ?s) @ drop j (drop k ?s)"
      by (simp only: append_take_drop_id)
    also have "\<dots> = ds @ take j (drop k ?s) @ item @ rest"
      by (simp only: ds rest)
    finally have split: "?s = [] @ ds @ take j (drop k ?s) @ item @ rest" by simp
    have "length (takeWhile is_digit ?s) \<le> length ?s"
      by (rule length_takeWhile_le)
    with k have "ds \<noteq> []" by (simp add: ds)
    moreover have "\<forall>c\<in>set ds. is_digit c"
      using take_le_takeWhile [OF k(2)] ds by blast
    moreover have "\<forall>c\<in>set (take j (drop k ?s)). is_space c"
      using take_le_takeWhile [OF j] by blast
    ultimately show ?thesis using split by blast
  qed
qed

theorem qty_search_sound_witness:
  "qty_search ''es teh'' ''mau 12 es teh'' = Some ''12''
   \<and> (\<exists>pre w rest. ''mau 12 es teh'' = pre @ ''12'' @ w @ ''es teh'' @ rest \<and> ''12'' \<noteq> []
        \<and> list_all is_digit ''12'' \<and> list_all is_space w)"
proof -
  have h: "qty_search ''es teh'' ''mau 12 es teh'' = Some ''12''"
    by (simp add: mp_eval py_simps)
  show ?thesis using h qty_search_sound [OF h] by blast
qed

text \<open>C5. Completeness of the quantity search: if the message contains, anywhere, a
  non-empty run of digits followed by blanks and the item, the search finds a quantity
  (the pattern matches, so the default quantity 1 is not used).\<close>

theorem qty_search_complete:
  assumes "ds \<noteq> []" "list_all is_digit ds" "list_all is_space w"
  shows "qty_search item (pre @ ds @ w @ item @ rest) \<noteq> None"
proof (induction pre)
  case Nil
  let ?s = "ds @ w @ item @ rest"
  have "length ds \<le> length (takeWhile is_digit ?s)"
    using assms(2) by (simp add: list_all_iff length_takeWhile_all_append)
  moreover have "length w \<le> length (takeWhile is_space (drop (length ds) ?s))"
    using assms(3) by (simp add: list_all_iff length_takeWhile_all_append)
  moreover have "prefix item (drop (length w) (drop (length ds) ?s))"
    by simp
  moreover have "1 \<le> length ds"
    using assms(1) by (simp add: Suc_le_eq)
  ultimately have "qty_match_at item ?s \<noteq> None"
    by (rule qty_match_at_at [rotated])
  then obtain d ds' where "ds = d # ds'"
    using assms(1) by (cases ds) auto
  with \<open>qty_match_at item ?s \<noteq> None\<close> show ?case
    by (auto split: option.split)
next
  case (Cons c pre)
  then show ?case by (auto split: option.split)
qed

theorem qty_search_complete_witness:
  "''3'' \<noteq> [] \<and> list_all is_digit ''3'' \<and> list_all is_space ''  ''
   \<and> qty_search ''es teh'' (''mau '' @ ''3'' @ ''  '' @ ''es teh'' @ '' dingin'') \<noteq> None"
proof -
  have h1: "''3'' \<noteq> []" by simp
  have h2: "list_all is_digit ''3''" by (simp add: py_simps)
  have h3: "list_all is_space ''  ''" by (simp add: py_simps)
  show ?thesis
    using h1 h2 h3 qty_search_complete [OF h1 h2 h3, of "''es teh''" "''mau ''" "'' dingin''"] by blast
qed

text \<open>C6. The quantity read back is the number written: a message containing
  \<open>str(q)\<close>, blanks and then an item that starts with neither a digit nor a blank (every
  menu item does) gives the quantity \<open>q\<close> for that item. Leftmost, greedy matching
  reads the whole number, not a suffix of it.\<close>

theorem item_quantity_written:
  assumes "list_all is_space w" "\<not> is_digit i" "\<not> is_space i"
  shows "item_quantity (show_nat q @ w @ i # is @ rest) (i # is) = q"
proof -
  have "\<forall>c\<in>set (show_nat q). is_digit c"
    using show_nat_digits by blast
  moreover have "\<forall>c\<in>set w. is_space c"
    using assms(1) by (simp add: list_all_iff)
  ultimately have "qty_search (i # is) (show_nat q @ w @ i # is @ rest) = Some (show_nat q)"
    using qty_search_exact assms(2,3) show_nat_not_Nil by blast
  then
  show ?thesis by (simp add: item_quantity_def parse_show_nat)
qed

theorem item_quantity_written_witness:
  "list_all is_space '' '' \<and> \<not> is_digit (CHR ''e'') \<and> \<not> is_space (CHR ''e'')
   \<and> item_quantity (show_nat 12 @ '' '' @ CHR ''e'' # ''s teh'' @ '' dan 1 nasi goreng'') ''es teh'' = 12"
proof -
  have h1: "list_all is_space '' ''" by (simp add: py_simps)
  have h2: "\<not> is_digit (CHR ''e'')" by (simp add: py_simps)
  have h3: "\<not> is_space (CHR ''e'')" by (simp add: py_simps)
  show ?thesis
    using h1 h2 h3 item_quantity_written [OF h1 h2 h3, of 12 "''s teh''" "'' dan 1 nasi goreng''"]
    by simp
qed

text \<open>C7. Default quantity: in a message without any digit every recognised item has
  quantity 1 (the specification's "mau pesan ayam bakar", quoted at 35000).\<close>

theorem item_quantity_no_digit:
  assumes "\<not> list_ex is_digit message"
  shows "item_quantity message item = 1"
proof (cases "qty_search item message")
  case None
  then show ?thesis by (simp add: item_quantity_def)
next
  case (Some ds)
  with qty_search_digit assms have False by (auto simp: list_ex_iff)
  then show ?thesis ..
qed

theorem item_quantity_no_digit_witness:
  "\<not> list_ex is_digit ''mau pesan ayam bakar''
   \<and> item_quantity ''mau pesan ayam bakar'' ''ayam bakar'' = 1
   \<and> process_message new_message_processor ''mau pesan ayam bakar'' ''+628987654321''
     = quote_text [(''ayam bakar'', 1, 35000)]
   \<and> order_total [(''ayam bakar'', 1, 35000)] = 35000"
proof -
  have h: "\<not> list_ex is_digit ''mau pesan ayam bakar''" by (simp add: py_simps)
  have q: "item_quantity ''mau pesan ayam bakar'' ''ayam bakar'' = 1"
    by (rule item_quantity_no_digit [OF h])
  have g: "\<not> list_ex (\<lambda>w. py_in w (py_lower ''mau pesan ayam bakar'')) (greeting_keywords new_message_processor)"
    by (simp add: mp_eval py_simps)
  have o: "list_ex (\<lambda>w. py_in w (py_lower ''mau pesan ayam bakar'')) (order_keywords new_message_processor)"
    by (simp add: mp_eval py_simps)
  have items: "find_items (menu_items new_message_processor) (py_lower ''mau pesan ayam bakar'')
      = [(''ayam bakar'', 1, 35000)]"
    by (simp add: new_message_processor_def py_simps q)
  show ?thesis
    using h q process_message_order [OF g o] process_order_found items
    by (simp add: order_total_def)
qed

text \<open>Item extraction: the found items are exactly the menu entries whose name
  occurs in the message, in menu order, each with its menu price and the quantity the
  pattern reads for it.\<close>

theorem find_items_spec:
  "find_items menu m = map (\<lambda>(i, p). (i, item_quantity m i, p)) (filter (\<lambda>(i, p). py_in i m) menu)"
  by (induction menu m rule: find_items.induct) auto

text \<open>C9. An order message that names no menu item (no greeting keyword, an order
  keyword, no menu name as a substring) gets the fixed "please specify" reply that
  lists the five menu items with their prices.\<close>

theorem process_message_please_specify:
  assumes "\<not> list_ex (\<lambda>w. py_in w (py_lower m)) (greeting_keywords mp)"
    and "list_ex (\<lambda>w. py_in w (py_lower m)) (order_keywords mp)"
    and "\<not> list_ex (\<lambda>(i, p). py_in i (py_lower m)) (menu_items mp)"
  shows "process_message mp m s = not_understood_reply"
proof -
  from assms(3) have "find_items (menu_items mp) (py_lower m) = []"
    by (auto simp: find_items_Nil_iff list_ex_iff)
  with assms(1,2) show ?thesis
    by (simp add: process_message_order process_order_not_found)
qed

theorem process_message_please_specify_witness:
  "\<not> list_ex (\<lambda>w. py_in w (py_lower ''saya mau pesan pizza'')) (greeting_keywords new_message_processor)
   \<and> list_ex (\<lambda>w. py_in w (py_lower ''saya mau pesan pizza'')) (order_keywords new_message_processor)
   \<and> \<not> list_ex (\<lambda>(i, p). py_in i (py_lower ''saya mau pesan pizza'')) (menu_items new_message_processor)
   \<and> process_message new_message_processor ''saya mau pesan pizza'' ''+628556677889'' = not_understood_reply"
proof -
  have h1: "\<not> list_ex (\<lambda>w. py_in w (py_lower ''saya mau pesan pizza'')) (greeting_keywords new_message_processor)"
    by (simp add: mp_eval py_simps)
  have h2: "list_ex (\<lambda>w. py_in w (py_lower ''saya mau pesan pizza'')) (order_keywords new_message_processor)"
    by (simp add: mp_eval py_simps)
  have h3: "\<not> list_ex (\<lambda>(i, p). py_in i (py_lower ''saya mau pesan pizza'')) (menu_items new_message_processor)"
    by (simp add: mp_eval py_simps)
  show ?thesis using h1 h2 h3 process_message_please_specify [OF h1 h2 h3] by blast
qed

text \<open>C10. The status branch is unreachable for any message containing "pesan":
  "pesan" is an order keyword and a substring of "pesanan" (order), so a status
  inquiry such as the dashboard's sample "Pesanan saya kapan sampai?" is routed to
  order extraction and, naming no menu item, answered with the "did not understand
  your order" reply instead of the request for an order number.\<close>

theorem pesan_never_status:
  assumes "py_in ''pesan'' (py_lower m)"
  shows "process_message new_message_processor m s \<noteq> status_reply"
proof (cases "list_ex (\<lambda>w. py_in w (py_lower m)) (greeting_keywords new_message_processor)")
  case True
  then show ?thesis
    by (simp add: process_message_def generate_greeting_response_def status_reply_def)
next
  case False
  moreover have "list_ex (\<lambda>w. py_in w (py_lower m)) (order_keywords new_message_processor)"
    using assms by (simp add: new_message_processor_def)
  ultimately have eq: "process_message new_message_processor m s
      = process_order new_message_processor (py_lower m) s"
    by (rule process_message_order)
  show ?thesis
  proof (cases "find_items (menu_items new_message_processor) (py_lower m) = []")
    case True
    then show ?thesis
      using eq by (simp add: process_order_not_found not_understood_reply_def status_reply_def)
  next
    case False
    then show ?thesis
      using eq by (simp add: process_order_found quote_text_not_status)
  qed
qed

theorem pesan_never_status_witness:
  "py_in ''pesan'' (py_lower ''Pesanan saya kapan sampai?'')
   \<and> process_message new_message_processor ''Pesanan saya kapan sampai?'' ''+628112233445'' \<noteq> status_reply
   \<and> process_message new_message_processor ''Pesanan saya kapan sampai?'' ''+628112233445''
     = not_understood_reply"
proof -
  have h: "py_in ''pesan'' (py_lower ''Pesanan saya kapan sampai?'')"
    by (simp add: py_simps)
  have r: "process_message new_message_processor ''Pesanan saya kapan sampai?'' ''+628112233445''
     = not_understood_reply"
    by (simp add: mp_eval py_simps)
  show ?thesis using h r pesan_never_status [OF h] by blast
qed

text \<open>The engine has no error outcome and never returns an empty reply, so
  the gateway always has text to send back.\<close>

theorem process_message_not_Nil: "process_message mp m s \<noteq> []"
  by (auto simp: process_message_def process_order_def render_items_eq Let_def
      status_reply_def default_reply_def not_understood_reply_def generate_greeting_response_def
      split: prod.split)

end
