(* ===== verification/Automation.thy ===== *)
theory Automation
  imports Prelude
begin

text \<open>
  The rule-based auto-responder of \<open>src/utils/automation.py\<close> (class
  \<open>AutomationRules\<close>). Each rule has a pattern \<open>(a1|a2|...|an)\<close>, an alternation
  of literal words without metacharacters, and a fixed response; \<open>process_message\<close>
  lower-cases the message and returns the response of the first rule, in the
  dictionary's insertion order, whose pattern \<open>re.search\<close> finds, and a default
  text otherwise. The theory holds the regular-expression search of an alternation
  of literals (leftmost start, then the first alternative in pattern order), its
  characterisation and its equivalence with substring tests, and the responder.
\<close>

section \<open>\<open>re.search\<close> on an alternation of literals\<close>

text \<open>
  \<open>re_search_at alts i s\<close> searches \<open>s\<close>, the suffix of the message starting at
  index \<open>i\<close>. At each start the engine tries the alternatives in order; the first
  that matches literally gives the match, reported as its start and the alternative.
  After the last character only an empty alternative could match.
\<close>

fun re_search_at :: "string list \<Rightarrow> nat \<Rightarrow> string \<Rightarrow> (nat \<times> string) option" where
  "re_search_at alts i [] =
     (case find (\<lambda>a. prefix a []) alts of Some a \<Rightarrow> Some (i, a) | None \<Rightarrow> None)"
| "re_search_at alts i (c # cs) =
     (case find (\<lambda>a. prefix a (c # cs)) alts of
        Some a \<Rightarrow> Some (i, a)
      | None \<Rightarrow> re_search_at alts (Suc i) cs)"

definition re_search :: "string list \<Rightarrow> string \<Rightarrow> (nat \<times> string) option" where
  "re_search alts s = re_search_at alts 0 s"

section \<open>The rules\<close>

record automation_rules =
  rules :: "(string \<times> string list \<times> string) list"

text \<open>The emoji at the end of the thanks response, U+1F60A, as its UTF-8 bytes.\<close>

definition smiley :: string where
  "smiley = map char_of [240::nat, 159, 152, 138]"

definition greeting_response :: string where
  "greeting_response = ''Halo! Terima kasih telah menghubungi kami. Ada yang bisa saya bantu?''"

definition order_response :: string where
  "order_response = ''Silakan sebutkan menu yang ingin dipesan. Kami memiliki nasi goreng, ayam bakar, mie goreng, es teh, dan es jeruk.''"

definition thanks_response :: string where
  "thanks_response = ''Sama-sama! Terima kasih telah berbelanja di toko kami. '' @ smiley"

definition delivery_response :: string where
  "delivery_response = ''Pesanan biasanya sampai dalam 30-45 menit. Terima kasih atas kesabarannya!''"

text \<open>\<open>AutomationRules.__init__\<close>: the dictionary \<open>self.rules\<close> in insertion order,
  each pattern as its list of alternatives (the order pattern lists \<open>pesan\<close> twice).\<close>

definition new_automation_rules :: automation_rules where
  "new_automation_rules = \<lparr>rules = [
     (''greeting'', [''halo'', ''hai'', ''hello'', ''hi'', ''selamat''], greeting_response),
     (''order'', [''pesan'', ''order'', ''mau'', ''ingin'', ''beli'', ''pesan''], order_response),
     (''thanks'', [''terima kasih'', ''makasih'', ''thanks'', ''thank you''], thanks_response),
     (''delivery'', [''kapan sampai'', ''estimasi'', ''berapa lama'', ''delivery''], delivery_response)]\<rparr>"

definition automation_default_reply :: string where
  "automation_default_reply =
     ''Terima kasih telah menghubungi kami. Silakan ketik '' @ CHR 0x27 # ''menu'' @ CHR 0x27
     # '' untuk melihat daftar menu atau '' @ CHR 0x27 # ''help'' @ CHR 0x27 # '' untuk bantuan.''"

text \<open>\<open>AutomationRules.process_message\<close>: the loop over the rules returns at the first
  rule whose pattern is found; a match object is always true.\<close>

definition automation_process_message :: "automation_rules \<Rightarrow> string \<Rightarrow> string" where
  "automation_process_message ar message =
     (let message_lower = py_lower message in
      case find (\<lambda>(rule_name, pattern, response). re_search pattern message_lower \<noteq> None) (rules ar) of
        Some (rule_name, pattern, response) \<Rightarrow> response
      | None \<Rightarrow> automation_default_reply)"

section \<open>The search\<close>

lemma re_search_at_shift:
  "re_search_at alts i s = map_option (\<lambda>(k, a). (i + k, a)) (re_search_at alts 0 s)"
proof (induction s arbitrary: i)
  case Nil
  then show ?case by (simp split: option.split)
next
  case (Cons c cs)
  have "re_search_at alts (Suc i) cs = map_option (\<lambda>(k, a). (Suc i + k, a)) (re_search_at alts 0 cs)"
    "re_search_at alts (Suc 0) cs = map_option (\<lambda>(k, a). (Suc 0 + k, a)) (re_search_at alts 0 cs)"
    by (rule Cons.IH)+
  then show ?case by (cases "re_search_at alts 0 cs") (auto split: option.split)
qed

lemma re_search_Cons:
  "re_search alts (c # cs) =
     (case find (\<lambda>a. prefix a (c # cs)) alts of
        Some a \<Rightarrow> Some (0, a)
      | None \<Rightarrow> map_option (\<lambda>(k, a). (Suc k, a)) (re_search alts cs))"
  unfolding re_search_def by (simp add: re_search_at_shift [of alts "Suc 0"] split: option.split)

lemma re_search_Nil:
  "re_search alts [] = (case find (\<lambda>a. prefix a []) alts of Some a \<Rightarrow> Some (0, a) | None \<Rightarrow> None)"
  by (simp add: re_search_def)

lemma re_search_Nil_None: "re_search alts [] = None \<longleftrightarrow> find (\<lambda>a. prefix a []) alts = None"
  by (simp add: re_search_Nil split: option.split)

lemma re_search_Cons_None:
  "re_search alts (c # cs) = None \<longleftrightarrow> find (\<lambda>a. prefix a (c # cs)) alts = None \<and> re_search alts cs = None"
  by (simp add: re_search_Cons split: option.split)

lemma less_Suc_cases: "(\<forall>k<Suc j. P k) \<longleftrightarrow> P 0 \<and> (\<forall>k<j. P (Suc k))"
  by (auto simp: less_Suc_eq_0_disj)

lemma re_search_None: "re_search alts s = None \<longleftrightarrow> \<not> list_ex (\<lambda>a. py_in a s) alts"
proof (induction s)
  case Nil
  then show ?case by (auto simp: re_search_Nil_None find_None_iff list_ex_iff)
next
  case (Cons c cs)
  then show ?case by (auto simp: re_search_Cons_None find_None_iff list_ex_iff)
qed

lemma re_search_found: "re_search alts s \<noteq> None \<longleftrightarrow> list_ex (\<lambda>a. py_in a s) alts"
  by (simp add: re_search_None)

section \<open>Properties\<close>

text \<open>\<open>re.search\<close> of an alternation of literals returns the leftmost start at
  which some alternative occurs, with the first alternative (in pattern order) that
  occurs there; it returns nothing when no alternative occurs anywhere. For the greeting
  pattern and the text \<open>pesanan terakhir\<close> the match is \<open>hi\<close> inside \<open>terakhir\<close>.\<close>

theorem re_search_spec:
  "re_search alts s = Some (j, a) \<longleftrightarrow>
     j \<le> length s \<and> find (\<lambda>b. prefix b (drop j s)) alts = Some a
     \<and> (\<forall>k<j. find (\<lambda>b. prefix b (drop k s)) alts = None)"
proof (induction s arbitrary: j)
  case Nil
  then show ?case by (auto simp: re_search_Nil split: option.split)
next
  case (Cons c cs)
  show ?case
  proof (cases j)
    case 0
    then show ?thesis by (auto simp: re_search_Cons split: option.split)
  next
    case (Suc j')
    then show ?thesis
      using Cons.IH [of j'] by (auto simp: re_search_Cons less_Suc_cases split: option.split)
  qed
qed

theorem re_search_spec_witness:
  "13 \<le> length ''pesanan terakhir''
   \<and> find (\<lambda>b. prefix b (drop 13 ''pesanan terakhir'')) [''halo'', ''hai'', ''hello'', ''hi'', ''selamat''] = Some ''hi''
   \<and> list_all (\<lambda>k. find (\<lambda>b. prefix b (drop k ''pesanan terakhir'')) [''halo'', ''hai'', ''hello'', ''hi'', ''selamat''] = None) [0..<13]
   \<and> re_search [''halo'', ''hai'', ''hello'', ''hi'', ''selamat''] ''pesanan terakhir'' = Some (13, ''hi'')"
proof -
  have h1: "13 \<le> length ''pesanan terakhir''" by simp
  have h2: "find (\<lambda>b. prefix b (drop 13 ''pesanan terakhir'')) [''halo'', ''hai'', ''hello'', ''hi'', ''selamat''] = Some ''hi''"
    by (simp add: numeral_eq_Suc)
  have h3: "list_all (\<lambda>k. find (\<lambda>b. prefix b (drop k ''pesanan terakhir'')) [''halo'', ''hai'', ''hello'', ''hi'', ''selamat''] = None) [0..<13]"
    by (simp add: numeral_eq_Suc upt_rec)
  have "\<forall>k<13. find (\<lambda>b. prefix b (drop k ''pesanan terakhir'')) [''halo'', ''hai'', ''hello'', ''hi'', ''selamat''] = None"
    using h3 by (simp add: list_all_iff)
  then show ?thesis using h1 h2 h3 re_search_spec [of "[''halo'', ''hai'', ''hello'', ''hi'', ''selamat'']" "''pesanan terakhir''" 13 "''hi''"]
    by blast
qed

text \<open>C21. \<open>AutomationRules.process_message\<close> returns the response of the first rule,
  in the rules' order, one of whose alternatives occurs as a substring of the lower-cased
  message, and the default text when there is none: the regular-expression search
  refines to substring tests.\<close>

theorem automation_first_match:
  "automation_process_message ar m =
     (case find (\<lambda>(rule_name, pattern, response). list_ex (\<lambda>a. py_in a (py_lower m)) pattern) (rules ar) of
        Some (rule_name, pattern, response) \<Rightarrow> response
      | None \<Rightarrow> automation_default_reply)"
  unfolding automation_process_message_def Let_def re_search_found by (rule refl)

text \<open>C22. With the rules as initialised, a message that contains \<open>pesan\<close> (so also
  \<open>pesanan\<close>) and no greeting word gets the order prompt, even when it asks when the
  order arrives: the delivery rule comes after the order rule. The dashboard's sample
  message \<open>Pesanan saya kapan sampai?\<close> is such a message.\<close>

theorem automation_delivery_shadowed:
  assumes "\<not> list_ex (\<lambda>a. py_in a (py_lower m)) [''halo'', ''hai'', ''hello'', ''hi'', ''selamat'']"
    and "py_in ''pesan'' (py_lower m)"
  shows "automation_process_message new_automation_rules m = order_response"
  using assms by (simp add: automation_process_message_def new_automation_rules_def re_search_None)

theorem automation_delivery_shadowed_witness:
  "\<not> list_ex (\<lambda>a. py_in a (py_lower ''Pesanan saya kapan sampai?'')) [''halo'', ''hai'', ''hello'', ''hi'', ''selamat'']
   \<and> py_in ''pesan'' (py_lower ''Pesanan saya kapan sampai?'')
   \<and> py_in ''kapan sampai'' (py_lower ''Pesanan saya kapan sampai?'')
   \<and> automation_process_message new_automation_rules ''Pesanan saya kapan sampai?'' = order_response"
proof -
  have h1: "\<not> list_ex (\<lambda>a. py_in a (py_lower ''Pesanan saya kapan sampai?'')) [''halo'', ''hai'', ''hello'', ''hi'', ''selamat'']"
    by (simp add: py_simps)
  have h2: "py_in ''pesan'' (py_lower ''Pesanan saya kapan sampai?'')"
    by (simp add: py_simps)
  have h3: "py_in ''kapan sampai'' (py_lower ''Pesanan saya kapan sampai?'')"
    by (simp add: py_simps)
  show ?thesis using h1 h2 h3 automation_delivery_shadowed [OF h1 h2] by blast
qed

end
