(* ===== verification/Gateway.thy ===== *)
theory Gateway
  imports Prelude
begin

text \<open>
  The messaging gateway of \<open>src/utils/whatsapp_integration.py\<close> (class
  \<open>WhatsAppIntegration\<close>). Its state is the object's attributes; the Twilio REST
  client and the Flask server are external, so the model keeps what the class keeps of
  them (the client's credentials, the server's address) and records each message the
  Twilio API accepted in \<open>sent\<close>. A call to the Twilio API is an outcome chosen by the
  environment: an argument \<open>api\<close> that returns the message SID or raises. Methods
  that raise return \<open>Inl\<close> together with the state as the raise leaves it, since
  \<open>set_credentials\<close> assigns its attributes before the client constructor may raise.
  The theory holds the state record, one definition per method, the step relation of
  the object (any method, any outcome of the API) and the invariant its reachable
  states satisfy.
\<close>

section \<open>State\<close>

text \<open>\<open>twilio.rest.Client(account_sid, auth_token)\<close>: the client keeps the two credentials.\<close>

datatype twilio_client = TwilioClient string string

datatype gw_error =
    TwilioException string
  | TwilioRestException string
  | PyException string

record whatsapp_integration =
  account_sid :: "string option"
  auth_token :: "string option"
  whatsapp_number :: "string option"
  client :: "twilio_client option"
  flask_app :: "(string \<times> nat \<times> string) option"
  webhook_url :: "string option"
  message_callback :: "(string \<Rightarrow> string \<Rightarrow> string) option"
  sent :: "(string \<times> string \<times> string) list"

text \<open>\<open>WhatsAppIntegration.__init__\<close>: every attribute \<open>None\<close>, nothing sent yet.\<close>

definition new_whatsapp_integration :: whatsapp_integration where
  "new_whatsapp_integration =
     \<lparr>account_sid = None, auth_token = None, whatsapp_number = None, client = None,
      flask_app = None, webhook_url = None, message_callback = None, sent = []\<rparr>"

text \<open>Python truth of an optional string: \<open>None\<close> and \<open>''\<close> are false.\<close>

fun py_truthy :: "string option \<Rightarrow> bool" where
  "py_truthy None = False"
| "py_truthy (Some s) = (s \<noteq> [])"

text \<open>\<open>f'{x}'\<close> of an optional string.\<close>

fun py_str_opt :: "string option \<Rightarrow> string" where
  "py_str_opt None = ''None''"
| "py_str_opt (Some s) = s"

text \<open>\<open>str.replace(old, new)\<close>: every non-overlapping occurrence, left to right; an
  empty \<open>old\<close> inserts \<open>new\<close> around every character.\<close>

function py_replace :: "string \<Rightarrow> string \<Rightarrow> string \<Rightarrow> string" where
  "py_replace old new [] = (if old = [] then new else [])"
| "py_replace old new (c # cs) =
     (if old = [] then new @ c # py_replace old new cs
      else if prefix old (c # cs) then new @ py_replace old new (drop (length old) (c # cs))
      else c # py_replace old new cs)"
  by pat_completeness auto
termination
  by (relation "measure (\<lambda>(old, new, s). length s)") auto

section \<open>Methods\<close>

text \<open>The client constructor raises when a credential is empty (the environment
  variables it falls back to are taken to be unset).\<close>

definition twilio_client_new :: "string \<Rightarrow> string \<Rightarrow> gw_error + twilio_client" where
  "twilio_client_new sid token =
     (if sid = [] \<or> token = []
      then Inl (TwilioException ''Credentials are required to create a TwilioClient'')
      else Inr (TwilioClient sid token))"

text \<open>\<open>set_credentials\<close>: the four attributes are assigned first; if the client
  constructor raises, the exception propagates and the old client stays.\<close>

definition set_credentials ::
  "string \<Rightarrow> string \<Rightarrow> string \<Rightarrow> string option \<Rightarrow> whatsapp_integration
   \<Rightarrow> (gw_error + unit) \<times> whatsapp_integration" where
  "set_credentials sid token number url w =
     (let w' = w\<lparr>account_sid := Some sid, auth_token := Some token, whatsapp_number := Some number,
                 webhook_url := url\<rparr> in
      case twilio_client_new sid token of
        Inl e \<Rightarrow> (Inl e, w')
      | Inr c \<Rightarrow> (Inr (), w'\<lparr>client := Some c\<rparr>))"

definition whatsapp_address :: "string \<Rightarrow> string" where
  "whatsapp_address to = (if prefix ''whatsapp:'' to then to else ''whatsapp:'' @ to)"

definition not_initialized_msg :: string where
  "not_initialized_msg = ''Twilio client not initialized. Please set credentials first.''"

text \<open>\<open>send_message\<close>: \<open>api c from_ to body\<close> is the outcome of
  \<open>self.client.messages.create\<close>; its exceptions are logged and raised again.\<close>

definition send_message ::
  "(twilio_client \<Rightarrow> string \<Rightarrow> string \<Rightarrow> string \<Rightarrow> gw_error + string)
   \<Rightarrow> string \<Rightarrow> string \<Rightarrow> whatsapp_integration \<Rightarrow> (gw_error + string) \<times> whatsapp_integration" where
  "send_message api to body w =
     (case client w of
        None \<Rightarrow> (Inl (PyException not_initialized_msg), w)
      | Some c \<Rightarrow>
          (let to' = whatsapp_address to; from = ''whatsapp:'' @ py_str_opt (whatsapp_number w) in
           case api c from to' body of
             Inl e \<Rightarrow> (Inl e, w)
           | Inr sid \<Rightarrow> (Inr sid, w\<lparr>sent := sent w @ [(from, to', body)]\<rparr>)))"

text \<open>\<open>setup_webhook\<close>: only logging besides the assignment, so it returns \<open>True\<close>.\<close>

definition setup_webhook :: "string \<Rightarrow> whatsapp_integration \<Rightarrow> bool \<times> whatsapp_integration" where
  "setup_webhook url w = (True, w\<lparr>webhook_url := Some url\<rparr>)"

text \<open>\<open>start_webhook_server\<close>: refuses without a webhook URL; otherwise creates the
  Flask application serving \<open>webhook_path\<close> (the thread it starts is not modelled).\<close>

definition start_webhook_server ::
  "string \<Rightarrow> nat \<Rightarrow> string \<Rightarrow> whatsapp_integration \<Rightarrow> bool \<times> whatsapp_integration" where
  "start_webhook_server host port webhook_path w =
     (if \<not> py_truthy (webhook_url w) then (False, w)
      else (True, w\<lparr>flask_app := Some (host, port, webhook_path)\<rparr>))"

definition set_message_callback ::
  "(string \<Rightarrow> string \<Rightarrow> string) \<Rightarrow> whatsapp_integration \<Rightarrow> whatsapp_integration" where
  "set_message_callback callback_function w = w\<lparr>message_callback := Some callback_function\<rparr>"

text \<open>\<open>_handle_webhook\<close>: \<open>req_values\<close> are the request's form values in order
  (\<open>.get\<close> returns the first). The answer is the HTTP status; an exception of
  \<open>send_message\<close> is caught and answered with 500.\<close>

definition sender_of :: "string \<Rightarrow> string" where
  "sender_of s = (if prefix ''whatsapp:'' s then py_replace ''whatsapp:'' [] s else s)"

definition handle_webhook ::
  "(twilio_client \<Rightarrow> string \<Rightarrow> string \<Rightarrow> string \<Rightarrow> gw_error + string)
   \<Rightarrow> (string \<times> string) list \<Rightarrow> whatsapp_integration \<Rightarrow> nat \<times> whatsapp_integration" where
  "handle_webhook api req_values w =
     (let incoming_msg = py_strip (py_dict_get req_values ''Body'' []);
          sender = sender_of (py_dict_get req_values ''From'' []) in
      case message_callback w of
        None \<Rightarrow> (200, w)
      | Some callback \<Rightarrow>
          (let response = callback incoming_msg sender in
           if response = [] then (200, w)
           else (case send_message api sender response w of
                   (Inl e, w') \<Rightarrow> (500, w')
                 | (Inr message_sid, w') \<Rightarrow> (200, w'))))"

text \<open>\<open>validate_credentials\<close>: \<open>fetch c sid\<close> is the outcome of
  \<open>self.client.api.accounts(sid).fetch()\<close>. With no client the attribute access
  raises \<open>AttributeError\<close>, caught by the generic handler.\<close>

definition validate_credentials ::
  "(twilio_client \<Rightarrow> string \<Rightarrow> gw_error + unit) \<Rightarrow> whatsapp_integration \<Rightarrow> bool \<times> string" where
  "validate_credentials fetch w =
     (if \<not> (py_truthy (account_sid w) \<and> py_truthy (auth_token w) \<and> py_truthy (whatsapp_number w))
      then (False, ''Credentials belum lengkap'')
      else (case client w of
              None \<Rightarrow> (False, ''Error validasi: '' @ CHR 0x27 # ''NoneType'' @ CHR 0x27
                               # '' object has no attribute '' @ CHR 0x27 # ''api'' @ [CHR 0x27])
            | Some c \<Rightarrow>
                (case fetch c (py_str_opt (account_sid w)) of
                   Inr u \<Rightarrow> (True, ''Credentials valid'')
                 | Inl (TwilioRestException m) \<Rightarrow> (False, ''Credentials tidak valid: '' @ m)
                 | Inl (TwilioException m) \<Rightarrow> (False, ''Error validasi: '' @ m)
                 | Inl (PyException m) \<Rightarrow> (False, ''Error validasi: '' @ m))))"

section \<open>The object as a state machine\<close>

text \<open>One step is one method call with any arguments and any outcome of the Twilio
  API; \<open>gw_reachable\<close> are the states of an object after any sequence of calls.\<close>

inductive gw_step :: "whatsapp_integration \<Rightarrow> whatsapp_integration \<Rightarrow> bool" where
  set_credentials: "gw_step w (snd (set_credentials sid token number url w))"
| setup_webhook: "gw_step w (snd (setup_webhook url w))"
| start_webhook_server: "gw_step w (snd (start_webhook_server host port webhook_path w))"
| set_message_callback: "gw_step w (set_message_callback cb w)"
| send_message: "gw_step w (snd (send_message api to body w))"
| handle_webhook: "gw_step w (snd (handle_webhook api req_values w))"

definition gw_reachable :: "whatsapp_integration \<Rightarrow> bool" where
  "gw_reachable w \<longleftrightarrow> gw_step\<^sup>*\<^sup>* new_whatsapp_integration w"

fun client_ok :: "twilio_client option \<Rightarrow> bool" where
  "client_ok None = True"
| "client_ok (Some (TwilioClient sid token)) = (sid \<noteq> [] \<and> token \<noteq> [])"

text \<open>The invariant: a client exists only for non-empty credentials and only once a
  bot number is set, and every message went from and to a \<open>whatsapp:\<close> address.\<close>

definition gw_inv :: "whatsapp_integration \<Rightarrow> bool" where
  "gw_inv w \<longleftrightarrow>
     client_ok (client w) \<and> (client w = None \<or> whatsapp_number w \<noteq> None)
     \<and> list_all (\<lambda>(from, to, body). prefix ''whatsapp:'' from \<and> prefix ''whatsapp:'' to) (sent w)"

text \<open>A configured gateway whose callback echoes the message, used by the examples.\<close>

definition demo_gateway :: whatsapp_integration where
  "demo_gateway = set_message_callback (\<lambda>m s. ''echo: '' @ m)
     (snd (set_credentials ''AC1'' ''tok'' ''+14155238886'' None new_whatsapp_integration))"

section \<open>Invariant and method lemmas\<close>

inductive_cases gw_step_cases: "gw_step w w'"

lemma py_replace_no_occ: "old \<noteq> [] \<Longrightarrow> \<not> py_in old s \<Longrightarrow> py_replace old new s = s"
  by (induction old new s rule: py_replace.induct) auto

lemma py_replace_prefix: "old \<noteq> [] \<Longrightarrow> py_replace old new (old @ s) = new @ py_replace old new s"
  by (cases old) simp_all

lemma prefix_whatsapp_address: "prefix ''whatsapp:'' (whatsapp_address to)"
  by (simp add: whatsapp_address_def)

lemma whatsapp_address_idem: "whatsapp_address (whatsapp_address to) = whatsapp_address to"
  by (simp add: whatsapp_address_def)

lemma sender_of_whatsapp: "\<not> py_in ''whatsapp:'' n \<Longrightarrow> sender_of (''whatsapp:'' @ n) = n"
  unfolding sender_of_def using py_replace_prefix [of "''whatsapp:''" "[]" n] py_replace_no_occ [of "''whatsapp:''" n "[]"]
  by simp

lemma whatsapp_address_plain: "\<not> py_in ''whatsapp:'' n \<Longrightarrow> whatsapp_address n = ''whatsapp:'' @ n"
  unfolding whatsapp_address_def by (auto simp: py_in_iff_sublist dest: prefix_imp_sublist)

lemma gw_inv_new: "gw_inv new_whatsapp_integration"
  by (simp add: gw_inv_def new_whatsapp_integration_def)

lemma client_ok_new: "twilio_client_new sid token = Inr c \<Longrightarrow> client_ok (Some c)"
  by (auto simp: twilio_client_new_def split: if_splits)

lemma gw_inv_set_credentials: "gw_inv w \<Longrightarrow> gw_inv (snd (set_credentials sid token number url w))"
  by (auto simp: gw_inv_def set_credentials_def Let_def client_ok_new split: sum.split)

lemma gw_inv_setup_webhook: "gw_inv w \<Longrightarrow> gw_inv (snd (setup_webhook url w))"
  by (simp add: gw_inv_def setup_webhook_def)

lemma gw_inv_start_webhook_server: "gw_inv w \<Longrightarrow> gw_inv (snd (start_webhook_server host port p w))"
  by (simp add: gw_inv_def start_webhook_server_def)

lemma gw_inv_set_message_callback: "gw_inv w \<Longrightarrow> gw_inv (set_message_callback cb w)"
  by (simp add: gw_inv_def set_message_callback_def)

lemma gw_inv_send_message: "gw_inv w \<Longrightarrow> gw_inv (snd (send_message api to body w))"
  by (auto simp: gw_inv_def send_message_def Let_def prefix_whatsapp_address split: option.split sum.split)

lemma snd_case_outcome:
  "snd (case p of (Inl e, w') \<Rightarrow> (a :: nat, w') | (Inr s, w') \<Rightarrow> (b, w')) = snd p"
  by (cases p) (simp split: sum.split)

lemma handle_webhook_state:
  "snd (handle_webhook api req_values w) = w
   \<or> (\<exists>to body. snd (handle_webhook api req_values w) = snd (send_message api to body w))"
  by (auto simp: handle_webhook_def Let_def snd_case_outcome split: option.split)

lemma gw_inv_handle_webhook: "gw_inv w \<Longrightarrow> gw_inv (snd (handle_webhook api req_values w))"
  using handle_webhook_state [of api req_values w] gw_inv_send_message by metis

lemma gw_step_inv: "gw_step w w' \<Longrightarrow> gw_inv w \<Longrightarrow> gw_inv w'"
  by (erule gw_step_cases)
    (auto intro: gw_inv_set_credentials gw_inv_setup_webhook gw_inv_start_webhook_server
       gw_inv_set_message_callback gw_inv_send_message gw_inv_handle_webhook)



lemma send_message_ok:
  assumes "client w = Some c" "api c (''whatsapp:'' @ py_str_opt (whatsapp_number w)) (whatsapp_address to) body = Inr sid"
  shows "send_message api to body w
           = (Inr sid, w\<lparr>sent := sent w @ [(''whatsapp:'' @ py_str_opt (whatsapp_number w), whatsapp_address to, body)]\<rparr>)"
  using assms by (simp add: send_message_def)

section \<open>Properties\<close>

text \<open>C23. Every state of a \<open>WhatsAppIntegration\<close> object reachable by any sequence of
  method calls, with any outcome of the Twilio API, satisfies the invariant: a client
  exists only for non-empty credentials and only when a bot number is set, and every
  message sent went from and to a \<open>whatsapp:\<close> address.\<close>

theorem gw_reachable_inv: "gw_reachable w \<Longrightarrow> gw_inv w"
  unfolding gw_reachable_def
  by (induction rule: rtranclp_induct) (auto intro: gw_inv_new gw_step_inv)

theorem gw_reachable_inv_witness:
  "gw_reachable (snd (set_credentials ''AC1'' ''tok'' ''+14155238886'' None new_whatsapp_integration))
   \<and> gw_inv (snd (set_credentials ''AC1'' ''tok'' ''+14155238886'' None new_whatsapp_integration))"
proof -
  have h: "gw_reachable (snd (set_credentials ''AC1'' ''tok'' ''+14155238886'' None new_whatsapp_integration))"
    unfolding gw_reachable_def by (rule r_into_rtranclp) (rule gw_step.set_credentials)
  show ?thesis using h gw_reachable_inv [OF h] by blast
qed

text \<open>C24. A webhook request from \<open>whatsapp:n\<close> with a message callback set and a client
  configured passes the stripped body and the bare number \<open>n\<close> to the callback and,
  when the reply is non-empty and Twilio accepts it, sends exactly that reply from the bot's
  number back to \<open>whatsapp:n\<close> and answers 200.\<close>

theorem handle_webhook_reply:
  assumes "message_callback w = Some cb" "client w = Some c"
    and "py_dict_get req ''From'' [] = ''whatsapp:'' @ n" "\<not> py_in ''whatsapp:'' n"
    and "cb (py_strip (py_dict_get req ''Body'' [])) n \<noteq> []"
    and "api c (''whatsapp:'' @ py_str_opt (whatsapp_number w)) (''whatsapp:'' @ n)
           (cb (py_strip (py_dict_get req ''Body'' [])) n) = Inr sid"
  shows "handle_webhook api req w
           = (200, w\<lparr>sent := sent w @ [(''whatsapp:'' @ py_str_opt (whatsapp_number w), ''whatsapp:'' @ n,
                                          cb (py_strip (py_dict_get req ''Body'' [])) n)]\<rparr>)"
  using assms send_message_ok [of w c api n] sender_of_whatsapp [OF assms(4)] whatsapp_address_plain [OF assms(4)]
  by (simp add: handle_webhook_def Let_def)

theorem handle_webhook_reply_witness:
  "message_callback demo_gateway = Some (\<lambda>m s. ''echo: '' @ m)
   \<and> client demo_gateway = Some (TwilioClient ''AC1'' ''tok'')
   \<and> py_dict_get [(''Body'', '' halo ''), (''From'', ''whatsapp:+628123'')] ''From'' [] = ''whatsapp:'' @ ''+628123''
   \<and> \<not> py_in ''whatsapp:'' ''+628123''
   \<and> (\<lambda>m s. ''echo: '' @ m) (py_strip (py_dict_get [(''Body'', '' halo ''), (''From'', ''whatsapp:+628123'')] ''Body'' [])) ''+628123'' \<noteq> []
   \<and> (\<lambda>c f t b. Inr ''SM1'') (TwilioClient ''AC1'' ''tok'') (''whatsapp:'' @ py_str_opt (whatsapp_number demo_gateway))
       (''whatsapp:'' @ ''+628123'')
       ((\<lambda>m s. ''echo: '' @ m) (py_strip (py_dict_get [(''Body'', '' halo ''), (''From'', ''whatsapp:+628123'')] ''Body'' [])) ''+628123'')
       = (Inr ''SM1'' :: gw_error + string)
   \<and> handle_webhook (\<lambda>c f t b. Inr ''SM1'') [(''Body'', '' halo ''), (''From'', ''whatsapp:+628123'')] demo_gateway
       = (200, demo_gateway\<lparr>sent := [(''whatsapp:+14155238886'', ''whatsapp:+628123'', ''echo: halo'')]\<rparr>)"
proof -
  have h1: "message_callback demo_gateway = Some (\<lambda>m s. ''echo: '' @ m)"
    by (simp add: demo_gateway_def set_message_callback_def)
  have h2: "client demo_gateway = Some (TwilioClient ''AC1'' ''tok'')"
    by (simp add: demo_gateway_def set_message_callback_def set_credentials_def twilio_client_new_def)
  have h3: "py_dict_get [(''Body'', '' halo ''), (''From'', ''whatsapp:+628123'')] ''From'' [] = ''whatsapp:'' @ ''+628123''"
    by (simp add: py_dict_get_def)
  have h4: "\<not> py_in ''whatsapp:'' ''+628123''" by simp
  have h5: "(\<lambda>m s. ''echo: '' @ m) (py_strip (py_dict_get [(''Body'', '' halo ''), (''From'', ''whatsapp:+628123'')] ''Body'' [])) ''+628123'' \<noteq> []"
    by simp
  have h6: "(\<lambda>c f t b. Inr ''SM1'') (TwilioClient ''AC1'' ''tok'') (''whatsapp:'' @ py_str_opt (whatsapp_number demo_gateway))
       (''whatsapp:'' @ ''+628123'')
       ((\<lambda>m s. ''echo: '' @ m) (py_strip (py_dict_get [(''Body'', '' halo ''), (''From'', ''whatsapp:+628123'')] ''Body'' [])) ''+628123'')
       = (Inr ''SM1'' :: gw_error + string)"
    by simp
  have n: "whatsapp_number demo_gateway = Some ''+14155238886''" "sent demo_gateway = []"
    by (simp_all add: demo_gateway_def set_message_callback_def set_credentials_def twilio_client_new_def
        new_whatsapp_integration_def)
  have b: "py_strip (py_dict_get [(''Body'', '' halo ''), (''From'', ''whatsapp:+628123'')] ''Body'' []) = ''halo''"
    by (simp add: py_dict_get_def py_simps)
  show ?thesis
    using h1 h2 h3 h4 h5 h6 handle_webhook_reply [OF h1 h2 h3 h4 h5 h6] by (simp add: n b)
qed

text \<open>A webhook request that arrives with a callback set but before any successful
  \<open>set_credentials\<close> makes \<open>send_message\<close> raise; the handler answers 500 and
  nothing is sent.\<close>

theorem handle_webhook_unconfigured:
  assumes "message_callback w = Some cb" "client w = None"
    and "cb (py_strip (py_dict_get req ''Body'' [])) (sender_of (py_dict_get req ''From'' [])) \<noteq> []"
  shows "handle_webhook api req w = (500, w)"
  using assms by (simp add: handle_webhook_def send_message_def Let_def)

theorem handle_webhook_unconfigured_witness:
  "message_callback (set_message_callback (\<lambda>m s. ''echo: '' @ m) new_whatsapp_integration) = Some (\<lambda>m s. ''echo: '' @ m)
   \<and> client (set_message_callback (\<lambda>m s. ''echo: '' @ m) new_whatsapp_integration) = None
   \<and> (\<lambda>m s. ''echo: '' @ m) (py_strip (py_dict_get [(''Body'', ''halo'')] ''Body'' []))
       (sender_of (py_dict_get [(''Body'', ''halo'')] ''From'' [])) \<noteq> []
   \<and> handle_webhook (\<lambda>c f t b. Inr ''SM1'') [(''Body'', ''halo'')] (set_message_callback (\<lambda>m s. ''echo: '' @ m) new_whatsapp_integration)
       = (500, set_message_callback (\<lambda>m s. ''echo: '' @ m) new_whatsapp_integration)"
proof -
  have h1: "message_callback (set_message_callback (\<lambda>m s. ''echo: '' @ m) new_whatsapp_integration) = Some (\<lambda>m s. ''echo: '' @ m)"
    by (simp add: set_message_callback_def)
  have h2: "client (set_message_callback (\<lambda>m s. ''echo: '' @ m) new_whatsapp_integration) = None"
    by (simp add: set_message_callback_def new_whatsapp_integration_def)
  have h3: "(\<lambda>m s. ''echo: '' @ m) (py_strip (py_dict_get [(''Body'', ''halo'')] ''Body'' []))
       (sender_of (py_dict_get [(''Body'', ''halo'')] ''From'' [])) \<noteq> []"
    by simp
  show ?thesis using h1 h2 h3 handle_webhook_unconfigured [OF h1 h2 h3] by blast
qed

text \<open>C26. \<open>set_credentials\<close> with an empty SID or token raises, but only after the
  attributes are assigned: the new (incomplete) credentials are stored while the client of
  the previous configuration stays in place, so \<open>validate_credentials\<close> reports
  incomplete credentials and \<open>send_message\<close> keeps sending with the old account.\<close>

theorem set_credentials_failure_keeps_client:
  assumes "sid = [] \<or> token = []"
  shows "set_credentials sid token number url w
           = (Inl (TwilioException ''Credentials are required to create a TwilioClient''),
              w\<lparr>account_sid := Some sid, auth_token := Some token, whatsapp_number := Some number,
                webhook_url := url\<rparr>)"
  using assms by (auto simp: set_credentials_def twilio_client_new_def)

theorem set_credentials_failure_keeps_client_witness:
  "(''AC1'' = [] \<or> ([] :: string) = [])
   \<and> set_credentials ''AC1'' [] ''+14155238886'' None (snd (set_credentials ''AC1'' ''tok'' ''+14155238886'' None new_whatsapp_integration))
       = (Inl (TwilioException ''Credentials are required to create a TwilioClient''),
          (snd (set_credentials ''AC1'' ''tok'' ''+14155238886'' None new_whatsapp_integration))
            \<lparr>account_sid := Some ''AC1'', auth_token := Some [], whatsapp_number := Some ''+14155238886'', webhook_url := None\<rparr>)
   \<and> client (snd (set_credentials ''AC1'' [] ''+14155238886'' None
        (snd (set_credentials ''AC1'' ''tok'' ''+14155238886'' None new_whatsapp_integration))))
       = Some (TwilioClient ''AC1'' ''tok'')
   \<and> validate_credentials (\<lambda>c s. Inr ()) (snd (set_credentials ''AC1'' [] ''+14155238886'' None
        (snd (set_credentials ''AC1'' ''tok'' ''+14155238886'' None new_whatsapp_integration))))
       = (False, ''Credentials belum lengkap'')"
proof -
  have h: "''AC1'' = [] \<or> ([] :: string) = []" by simp
  note eq = set_credentials_failure_keeps_client [OF h, of "''+14155238886''" None
      "snd (set_credentials ''AC1'' ''tok'' ''+14155238886'' None new_whatsapp_integration)"]
  have c: "client (snd (set_credentials ''AC1'' ''tok'' ''+14155238886'' None new_whatsapp_integration))
      = Some (TwilioClient ''AC1'' ''tok'')"
    by (simp add: set_credentials_def twilio_client_new_def)
  show ?thesis using h eq c by (simp add: validate_credentials_def)
qed

text \<open>C27. \<open>set_credentials\<close> called as \<open>app.py\<close> calls it (without a webhook URL)
  resets the webhook URL to \<open>None\<close>, so \<open>start_webhook_server\<close> afterwards refuses to
  start, whatever \<open>setup_webhook\<close> set before.\<close>

theorem set_credentials_clears_webhook:
  "start_webhook_server host port p (snd (set_credentials sid token number None w))
     = (False, snd (set_credentials sid token number None w))"
  by (simp add: start_webhook_server_def set_credentials_def Let_def split: sum.split)

end
