(* ===== verification/Timestamp.thy ===== *)
theory Timestamp
  imports Prelude "HOL-Library.Monad_Syntax"
begin

text \<open>
  The timestamps of the order store. An order's \<open>created_at\<close> is a naive
  \<open>datetime\<close>; the store keeps it as text written by the \<open>sqlite3\<close> module's default
  datetime adapter (\<open>datetime.isoformat(" ")\<close>) and reads it back with
  \<open>datetime.strptime(text, '%Y-%m-%d %H:%M:%S')\<close>
  (\<open>src/utils/database.py\<close>, \<open>get_all_orders\<close> and \<open>get_order\<close>). The reporting windows
  compare a \<open>created_at\<close> with \<open>datetime.now()\<close> shifted by a \<open>timedelta\<close>, and
  "today" compares calendar dates. This theory holds the \<open>datetime\<close> record, the
  validity check of its constructor, the proleptic Gregorian day number
  (\<open>toordinal\<close>) and the position of a datetime on the microsecond time line, the
  adapter's text and the \<open>strptime\<close> parser, and the round trip between the last two.
\<close>

section \<open>Datetimes\<close>

record datetime =
  year :: nat
  month :: nat
  day :: nat
  hour :: nat
  minute :: nat
  second :: nat
  microsecond :: nat

text \<open>\<open>datetime.date()\<close>: the calendar date, compared by equality in "today".\<close>

definition date_of :: "datetime \<Rightarrow> nat \<times> nat \<times> nat" where
  "date_of dt = (year dt, month dt, day dt)"

definition is_leap :: "nat \<Rightarrow> bool" where
  "is_leap y \<longleftrightarrow> y mod 4 = 0 \<and> (y mod 100 \<noteq> 0 \<or> y mod 400 = 0)"

definition days_in_month :: "nat \<Rightarrow> nat \<Rightarrow> nat" where
  "days_in_month y m =
     (if m = 2 \<and> is_leap y then 29 else [0, 31, 28, 31, 30, 31, 30, 31, 31, 30, 31, 30, 31] ! m)"

text \<open>The range checks of the \<open>datetime\<close> constructor (years 1 to 9999).\<close>

definition valid_datetime :: "datetime \<Rightarrow> bool" where
  "valid_datetime dt \<longleftrightarrow>
     1 \<le> year dt \<and> year dt \<le> 9999 \<and> 1 \<le> month dt \<and> month dt \<le> 12
     \<and> 1 \<le> day dt \<and> day dt \<le> days_in_month (year dt) (month dt)
     \<and> hour dt < 24 \<and> minute dt < 60 \<and> second dt < 60 \<and> microsecond dt < 1000000"

definition days_before_year :: "nat \<Rightarrow> nat" where
  "days_before_year y = (let y' = y - 1 in y' * 365 + y' div 4 - y' div 100 + y' div 400)"

definition days_before_month :: "nat \<Rightarrow> nat \<Rightarrow> nat" where
  "days_before_month y m =
     [0, 0, 31, 59, 90, 120, 151, 181, 212, 243, 273, 304, 334] ! m + (if 2 < m \<and> is_leap y then 1 else 0)"

text \<open>\<open>date.toordinal()\<close>: day 1 is 0001-01-01.\<close>

definition toordinal :: "datetime \<Rightarrow> nat" where
  "toordinal dt = days_before_year (year dt) + days_before_month (year dt) (month dt) + day dt"

definition day_us :: int where
  "day_us = 86400 * 1000000"

text \<open>
  The position of a datetime on the microsecond time line. \<open>now - timedelta(days=n)\<close>
  is the datetime \<open>n * day_us\<close> microseconds earlier, and comparing two datetimes
  compares their positions.
\<close>

definition timestamp_us :: "datetime \<Rightarrow> int" where
  "timestamp_us dt =
     int ((((toordinal dt * 24 + hour dt) * 60 + minute dt) * 60 + second dt) * 1000000 + microsecond dt)"

text \<open>The time of day in microseconds, and a datetime from its six fields.\<close>

definition time_of_day_us :: "datetime \<Rightarrow> nat" where
  "time_of_day_us dt = ((hour dt * 60 + minute dt) * 60 + second dt) * 1000000 + microsecond dt"

definition mk_dt :: "nat \<Rightarrow> nat \<Rightarrow> nat \<Rightarrow> nat \<Rightarrow> nat \<Rightarrow> nat \<Rightarrow> datetime" where
  "mk_dt y mo d h mi s = \<lparr>year = y, month = mo, day = d, hour = h, minute = mi, second = s, microsecond = 0\<rparr>"

section \<open>Text form\<close>

text \<open>\<open>datetime.isoformat(" ")\<close>, the text the \<open>sqlite3\<close> adapter stores: the
  microseconds are written only when they are not zero.\<close>

definition isoformat :: "datetime \<Rightarrow> string" where
  "isoformat dt =
     pad_nat 4 (year dt) @ ''-'' @ pad_nat 2 (month dt) @ ''-'' @ pad_nat 2 (day dt) @ '' ''
     @ pad_nat 2 (hour dt) @ '':'' @ pad_nat 2 (minute dt) @ '':'' @ pad_nat 2 (second dt)
     @ (if microsecond dt = 0 then [] else ''.'' @ pad_nat 6 (microsecond dt))"

text \<open>
  \<open>datetime.strptime(s, '%Y-%m-%d %H:%M:%S')\<close> as a parser in the option monad: the
  fields are read at their full width with leading zeros, the blank of the format
  matches one or more blanks, the whole text must be consumed (a fraction of a second
  left over is "unconverted data", a \<open>ValueError\<close>), and the fields must pass the
  constructor's checks. \<open>strptime\<close> also accepts month, day and time fields written
  with a single digit; the store never writes such text.
\<close>

definition num_field :: "nat \<Rightarrow> string \<Rightarrow> (nat \<times> string) option" where
  "num_field w s = (let ds = take w s in
     if length ds = w \<and> list_all is_digit ds then Some (parse_nat ds, drop w s) else None)"

fun lit_char :: "char \<Rightarrow> string \<Rightarrow> string option" where
  "lit_char c [] = None"
| "lit_char c (x # xs) = (if x = c then Some xs else None)"

definition blanks1 :: "string \<Rightarrow> string option" where
  "blanks1 s = (if s \<noteq> [] \<and> is_space (hd s) then Some (dropWhile is_space s) else None)"

definition strptime :: "string \<Rightarrow> datetime option" where
  "strptime s = do {
     (y, s) \<leftarrow> num_field 4 s; s \<leftarrow> lit_char CHR ''-'' s;
     (mo, s) \<leftarrow> num_field 2 s; s \<leftarrow> lit_char CHR ''-'' s;
     (d, s) \<leftarrow> num_field 2 s; s \<leftarrow> blanks1 s;
     (h, s) \<leftarrow> num_field 2 s; s \<leftarrow> lit_char CHR '':'' s;
     (mi, s) \<leftarrow> num_field 2 s; s \<leftarrow> lit_char CHR '':'' s;
     (se, s) \<leftarrow> num_field 2 s;
     let dt = \<lparr>year = y, month = mo, day = d, hour = h, minute = mi, second = se, microsecond = 0\<rparr>;
     if s = [] \<and> valid_datetime dt then Some dt else None
   }"

section \<open>Text round trip\<close>

lemma num_field_pad:
  assumes "n < 10 ^ w" "0 < w"
  shows "num_field w (pad_nat w n @ rest) = Some (n, rest)"
proof -
  have len: "length (pad_nat w n) = w" using assms by (rule length_pad_nat)
  have "list_all is_digit (pad_nat w n)"
    by (simp add: list_all_iff pad_nat_digits)
  with len show ?thesis
    by (simp add: num_field_def parse_pad_nat)
qed

lemma pad_nat_Cons: "\<exists>c cs. pad_nat w n = c # cs \<and> is_digit c"
proof -
  obtain c cs where sn: "show_nat n = c # cs" by (cases "show_nat n") auto
  then have "is_digit c" using show_nat_digits [of c n] by simp
  with sn show ?thesis
    by (cases "w - length (show_nat n)") (auto simp: pad_nat_def is_digit_def)
qed

lemma blanks1_digit: "blanks1 (CHR '' '' # pad_nat w n @ rest) = Some (pad_nat w n @ rest)"
proof -
  obtain c cs where p: "pad_nat w n = c # cs" "is_digit c"
    using pad_nat_Cons by blast
  then have "\<not> is_space c" by (simp add: is_digit_not_space)
  with p show ?thesis by (simp add: blanks1_def is_space_def)
qed

lemma valid_datetime_widths:
  assumes "valid_datetime dt"
  shows "year dt < 10 ^ 4" "month dt < 10 ^ 2" "day dt < 10 ^ 2" "hour dt < 10 ^ 2"
    "minute dt < 10 ^ 2" "second dt < 10 ^ 2"
  using assms by (auto simp: valid_datetime_def days_in_month_def nth_Cons' split: if_splits)

lemma strptime_Some: "strptime s = Some dt \<Longrightarrow> valid_datetime dt \<and> microsecond dt = 0"
  by (auto simp: strptime_def Let_def bind_eq_Some_conv split: if_splits)

lemma strptime_isoformat:
  assumes "valid_datetime dt" "microsecond dt = 0"
  shows "strptime (isoformat dt) = Some dt"
proof -
  note b = valid_datetime_widths [OF assms(1)]
  have eta: "\<lparr>year = year dt, month = month dt, day = day dt, hour = hour dt, minute = minute dt,
      second = second dt, microsecond = 0\<rparr> = dt"
    using assms(2) by (cases dt) simp
  show ?thesis
    using assms
    by (simp add: isoformat_def strptime_def Let_def eta num_field_pad [OF b(1)] num_field_pad [OF b(2)]
        num_field_pad [OF b(3)] num_field_pad [OF b(4)] num_field_pad [OF b(5)]
        num_field_pad [OF b(6), where rest = "[]", simplified] blanks1_digit)
qed

lemma strptime_isoformat_fraction:
  assumes "valid_datetime dt" "microsecond dt \<noteq> 0"
  shows "strptime (isoformat dt) = None"
proof -
  note b = valid_datetime_widths [OF assms(1)]
  show ?thesis
    using assms
    by (simp add: isoformat_def strptime_def Let_def num_field_pad [OF b(1)] num_field_pad [OF b(2)]
        num_field_pad [OF b(3)] num_field_pad [OF b(4)] num_field_pad [OF b(5)]
        num_field_pad [OF b(6)] blanks1_digit)
qed

section \<open>The time line\<close>

lemmas ts_eval = timestamp_us_def toordinal_def days_before_year_def days_before_month_def
  is_leap_def day_us_def date_of_def mk_dt_def

lemma timestamp_us_split: "timestamp_us dt = int (toordinal dt) * day_us + int (time_of_day_us dt)"
  by (simp add: timestamp_us_def time_of_day_us_def day_us_def algebra_simps)

lemma time_of_day_bound: "valid_datetime dt \<Longrightarrow> int (time_of_day_us dt) < day_us"
proof -
  assume v: "valid_datetime dt"
  then have "hour dt \<le> 23" "minute dt \<le> 59" "second dt \<le> 59" "microsecond dt \<le> 999999"
    by (auto simp: valid_datetime_def)
  then have "time_of_day_us dt \<le> ((23 * 60 + 59) * 60 + 59) * 1000000 + 999999"
    unfolding time_of_day_us_def by (intro add_mono mult_le_mono order.refl) auto
  then show ?thesis by (simp add: day_us_def)
qed

lemma toordinal_date: "date_of a = date_of b \<Longrightarrow> toordinal a = toordinal b"
  by (simp add: date_of_def toordinal_def)

lemma same_date_within_day:
  assumes "valid_datetime now" "date_of dt = date_of now"
  shows "timestamp_us now - day_us < timestamp_us dt"
  using time_of_day_bound [OF assms(1)] toordinal_date [OF assms(2)]
  by (simp add: timestamp_us_split)

lemma day_us_pos: "0 < day_us"
  by (simp add: day_us_def)

end
