(* ===== verification/Order.thy ===== *)
theory Order
  imports Timestamp
begin

text \<open>
  The order record, class \<open>Order\<close> of \<open>src/models/order_model.py\<close>, and the five
  status values the dashboard offers (\<open>src/app.py\<close>). The total is the
  \<open>REAL\<close> column of the table; the shop's amounts are whole rupiah, and sums of whole
  numbers below \<open>2^53\<close> are exact in floating point, so it is an \<open>int\<close> here.
\<close>

record order =
  order_id :: "nat option"
  customer_name :: string
  customer_wa :: string
  customer_address :: string
  items :: string
  total :: int
  status :: string
  created_at :: datetime

text \<open>\<open>Order(id, customer_name, ..., created_at)\<close>: an absent \<open>created_at\<close> becomes
  \<open>datetime.now()\<close>, given here as \<open>now\<close>.\<close>

definition make_order ::
  "datetime \<Rightarrow> nat option \<Rightarrow> string \<Rightarrow> string \<Rightarrow> string \<Rightarrow> string \<Rightarrow> int \<Rightarrow> string
     \<Rightarrow> datetime option \<Rightarrow> order" where
  "make_order now i n wa addr its tot st c =
     \<lparr>order_id = i, customer_name = n, customer_wa = wa, customer_address = addr, items = its,
      total = tot, status = st, created_at = (case c of Some d \<Rightarrow> d | None \<Rightarrow> now)\<rparr>"

text \<open>The constructor's defaults: \<open>Order()\<close>.\<close>

definition default_order :: "datetime \<Rightarrow> order" where
  "default_order now = make_order now None [] [] [] [] 0 ''pending'' None"

definition order_statuses :: "string list" where
  "order_statuses = [''pending'', ''confirmed'', ''processing'', ''completed'', ''cancelled'']"

end
