(* ===== verification/Database.thy ===== *)
theory Database
  imports Order
begin

text \<open>
  The order store, class \<open>DatabaseManager\<close> of \<open>src/utils/database.py\<close>. The SQLite
  table \<open>orders\<close> is a list of rows in rowid order, and the table's
  \<open>AUTOINCREMENT\<close> counter (its entry in \<open>sqlite_sequence\<close>) is a field of the state.
  \<open>created_at\<close> is stored as the text the \<open>sqlite3\<close> adapter writes for a datetime and
  is parsed back by \<open>strptime\<close> on every read, so that every read may raise
  \<open>ValueError\<close>. The methods are functions of the state, the read methods return
  \<open>py_error + _\<close>, and the time \<open>datetime.now()\<close> of the window queries is a
  parameter. The operations that change the store form the datatype \<open>db_op\<close>, whose
  step function is the interface the dashboard drives.
\<close>

section \<open>State\<close>

record row =
  row_id :: nat
  row_customer_name :: string
  row_customer_wa :: string
  row_customer_address :: string
  row_items :: string
  row_total :: int
  row_status :: string
  row_created_at :: string

record db =
  db_rows :: "row list"
  db_seq :: nat

text \<open>\<open>_init_db\<close> on a new database file: \<open>CREATE TABLE IF NOT EXISTS\<close> creates the
  empty table (on an existing file it changes nothing).\<close>

definition empty_db :: db where
  "empty_db = \<lparr>db_rows = [], db_seq = 0\<rparr>"

section \<open>Writes\<close>

text \<open>SQLite's \<open>AUTOINCREMENT\<close>: one more than the larger of the largest rowid in the
  table and the largest rowid the table ever had.\<close>

definition next_rowid :: "db \<Rightarrow> nat" where
  "next_rowid d = Suc (max (db_seq d) (fold max (map row_id (db_rows d)) 0))"

text \<open>\<open>INSERT INTO orders (...) VALUES (...)\<close>, returning \<open>c.lastrowid\<close>.\<close>

definition insert_row ::
  "db \<Rightarrow> string \<Rightarrow> string \<Rightarrow> string \<Rightarrow> string \<Rightarrow> int \<Rightarrow> string \<Rightarrow> string \<Rightarrow> db \<times> nat" where
  "insert_row d n wa addr its tot st c =
     (let i = next_rowid d in
      (d\<lparr>db_rows := db_rows d @ [\<lparr>row_id = i, row_customer_name = n, row_customer_wa = wa,
          row_customer_address = addr, row_items = its, row_total = tot, row_status = st,
          row_created_at = c\<rparr>],
         db_seq := i\<rparr>, i))"

definition add_order :: "order \<Rightarrow> db \<Rightarrow> db \<times> nat" where
  "add_order od d =
     insert_row d (customer_name od) (customer_wa od) (customer_address od) (items od) (total od)
       (status od) (isoformat (created_at od))"

text \<open>\<open>UPDATE orders SET status = ? WHERE id = ?\<close>: no row, no change.\<close>

definition update_order_status :: "nat \<Rightarrow> string \<Rightarrow> db \<Rightarrow> db" where
  "update_order_status i st d =
     d\<lparr>db_rows := map (\<lambda>r. if row_id r = i then r\<lparr>row_status := st\<rparr> else r) (db_rows d)\<rparr>"

definition sample_orders :: "(string \<times> string \<times> string \<times> string \<times> int \<times> string \<times> string) list" where
  "sample_orders =
     [(''Budi Santoso'', ''+628123456789'', ''Jl. Merdeka No. 123'', ''2 Nasi Goreng, 1 Es Teh'', 55000,
       ''completed'', ''2024-01-15 10:30:00''),
      (''Siti Rahayu'', ''+628987654321'', ''Jl. Sudirman No. 45'', ''1 Ayam Bakar, 2 Es Jeruk'', 47000,
       ''processing'', ''2024-01-15 11:15:00''),
      (''Ahmad Wijaya'', ''+628112233445'', ''Jl. Gatot Subroto No. 67'', ''3 Mie Goreng, 1 Es Teh'', 65000,
       ''confirmed'', ''2024-01-15 12:00:00''),
      (''Dewi Lestari'', ''+628556677889'', ''Jl. Thamrin No. 89'', ''1 Nasi Goreng, 1 Ayam Bakar'', 60000,
       ''pending'', ''2024-01-15 09:45:00'')]"

text \<open>\<open>init_sample_data\<close>: \<open>DROP TABLE\<close> discards the rows and the table's entry in
  \<open>sqlite_sequence\<close>, \<open>CREATE TABLE\<close> starts empty, and \<open>executemany\<close> inserts the
  samples in order.\<close>

definition init_sample_data :: "db \<Rightarrow> db" where
  "init_sample_data d =
     fold (\<lambda>(n, wa, addr, its, tot, st, c) d'. fst (insert_row d' n wa addr its tot st c))
       sample_orders empty_db"

datatype db_op = AddOrder order | UpdateOrderStatus nat string | InitSampleData

fun db_step :: "db \<Rightarrow> db_op \<Rightarrow> db" where
  "db_step d (AddOrder od) = fst (add_order od d)"
| "db_step d (UpdateOrderStatus i st) = update_order_status i st d"
| "db_step d InitSampleData = init_sample_data d"

definition db_run :: "db \<Rightarrow> db_op list \<Rightarrow> db" where
  "db_run d ops = foldl db_step d ops"

section \<open>Reads\<close>

text \<open>The \<open>Order(...)\<close> built from a fetched row: the text of \<open>created_at\<close> goes
  through \<open>strptime\<close>, which raises \<open>ValueError\<close> on text it cannot parse.\<close>

definition order_of_row :: "row \<Rightarrow> py_error + order" where
  "order_of_row r =
     (case strptime (row_created_at r) of
        None \<Rightarrow> Inl ValueError
      | Some dt \<Rightarrow> Inr \<lparr>order_id = Some (row_id r), customer_name = row_customer_name r,
          customer_wa = row_customer_wa r, customer_address = row_customer_address r,
          items = row_items r, total = row_total r, status = row_status r, created_at = dt\<rparr>)"

text \<open>\<open>SELECT * FROM orders ORDER BY created_at DESC\<close>: the texts compare byte-wise
  (SQLite's \<open>BINARY\<close> collation, the lexicographic order of \<open>List_Lexorder\<close>); rows
  with equal texts keep their rowid order.\<close>

definition get_all_orders :: "db \<Rightarrow> py_error + order list" where
  "get_all_orders d = map_result order_of_row (sort_desc row_created_at (db_rows d))"

definition get_order :: "nat \<Rightarrow> db \<Rightarrow> py_error + order option" where
  "get_order i d =
     (case find (\<lambda>r. row_id r = i) (db_rows d) of
        None \<Rightarrow> Inr None
      | Some r \<Rightarrow> (case order_of_row r of Inl e \<Rightarrow> Inl e | Inr od \<Rightarrow> Inr (Some od)))"

text \<open>The filters of the window and status queries, over the list of all orders.\<close>

definition today_filter :: "datetime \<Rightarrow> order list \<Rightarrow> order list" where
  "today_filter now os = filter (\<lambda>od. date_of (created_at od) = date_of now) os"

definition days_filter :: "datetime \<Rightarrow> int \<Rightarrow> order list \<Rightarrow> order list" where
  "days_filter now n os = filter (\<lambda>od. timestamp_us now - n * day_us \<le> timestamp_us (created_at od)) os"

definition pending_filter :: "order list \<Rightarrow> order list" where
  "pending_filter os = filter (\<lambda>od. status od \<in> set [''pending'', ''confirmed'', ''processing'']) os"

definition status_filter :: "string \<Rightarrow> order list \<Rightarrow> order list" where
  "status_filter st os = filter (\<lambda>od. status od = st) os"

text \<open>The loop of \<open>get_orders_by_status_count\<close>.\<close>

definition status_count :: "order list \<Rightarrow> (string \<times> nat) list" where
  "status_count os = foldl (\<lambda>sc od. py_dict_set sc (status od) (py_dict_get sc (status od) 0 + 1)) [] os"

record customer_summary =
  cs_whatsapp :: string
  cs_name :: string
  cs_count :: nat
  cs_total :: int

text \<open>The grouping loop of \<open>get_top_customers\<close>: per WhatsApp number, the name of its
  first order, the number of orders and the summed total.\<close>

definition customer_orders :: "order list \<Rightarrow> (string \<times> string \<times> nat \<times> int) list" where
  "customer_orders os =
     foldl (\<lambda>co od. case map_of co (customer_wa od) of
              Some (n, c, t) \<Rightarrow> py_dict_set co (customer_wa od) (n, Suc c, t + total od)
            | None \<Rightarrow> py_dict_set co (customer_wa od) (customer_name od, 1, total od)) [] os"

text \<open>The rows of the data frame, and \<open>df.sort_values('Total Pembelian', ascending=False)\<close>.
  pandas sorts descending by reversing, sorting ascending and reversing again, which is
  \<open>sort_desc\<close>; ties keep the order in which the numbers first appeared.\<close>

definition top_customers :: "order list \<Rightarrow> customer_summary list" where
  "top_customers os =
     (let rows = map (\<lambda>(wa, n, c, t). \<lparr>cs_whatsapp = wa, cs_name = n, cs_count = c, cs_total = t\<rparr>)
                   (customer_orders os)
      in if rows = [] then [] else sort_desc cs_total rows)"

text \<open>Each query method reads all orders first; a \<open>ValueError\<close> of that read is
  raised by the method.\<close>

definition query :: "(order list \<Rightarrow> 'a) \<Rightarrow> db \<Rightarrow> py_error + 'a" where
  "query f d = (case get_all_orders d of Inl e \<Rightarrow> Inl e | Inr os \<Rightarrow> Inr (f os))"

definition get_today_orders :: "datetime \<Rightarrow> db \<Rightarrow> py_error + order list" where
  "get_today_orders now d = query (today_filter now) d"

definition get_weekly_orders :: "datetime \<Rightarrow> db \<Rightarrow> py_error + order list" where
  "get_weekly_orders now d = query (days_filter now 7) d"

definition get_monthly_orders :: "datetime \<Rightarrow> db \<Rightarrow> py_error + order list" where
  "get_monthly_orders now d = query (days_filter now 30) d"

definition get_pending_orders :: "db \<Rightarrow> py_error + order list" where
  "get_pending_orders d = query pending_filter d"

definition get_orders_by_status :: "string \<Rightarrow> db \<Rightarrow> py_error + order list" where
  "get_orders_by_status st d = query (status_filter st) d"

definition get_orders_by_status_count :: "db \<Rightarrow> py_error + (string \<times> nat) list" where
  "get_orders_by_status_count d = query status_count d"

definition get_top_customers :: "db \<Rightarrow> py_error + customer_summary list" where
  "get_top_customers d = query top_customers d"

section \<open>Invariant and example data\<close>

text \<open>The store's invariant: rowids strictly increase along the table and none
  exceeds the \<open>AUTOINCREMENT\<close> counter.\<close>

definition db_inv :: "db \<Rightarrow> bool" where
  "db_inv d \<longleftrightarrow> sorted_wrt (<) (map row_id (db_rows d)) \<and> list_all (\<lambda>r. row_id r \<le> db_seq d) (db_rows d)"

text \<open>A row with id \<open>i\<close> whose timestamp text the reader cannot parse, with no row of
  the same id before it in the table.\<close>

definition unreadable_row_at :: "nat \<Rightarrow> db \<Rightarrow> bool" where
  "unreadable_row_at i d \<longleftrightarrow>
     (\<exists>pre r post. db_rows d = pre @ r # post \<and> list_all (\<lambda>x. row_id x \<noteq> i) pre
        \<and> row_id r = i \<and> strptime (row_created_at r) = None)"

text \<open>The specification's top-customer example: two orders from one WhatsApp number
  (30000 and 20000, the name spelled differently) and one from another (10000).\<close>

definition spec_customer_orders :: "order list" where
  "spec_customer_orders =
     [(default_order (mk_dt 2024 1 15 10 0 0))\<lparr>customer_name := ''Budi'', customer_wa := ''+62811'', total := 30000\<rparr>,
      (default_order (mk_dt 2024 1 15 11 0 0))\<lparr>customer_name := ''Budi S.'', customer_wa := ''+62811'', total := 20000\<rparr>,
      (default_order (mk_dt 2024 1 15 12 0 0))\<lparr>customer_name := ''Siti'', customer_wa := ''+62822'', total := 10000\<rparr>]"

lemmas db_eval = get_all_orders_def get_order_def init_sample_data_def sample_orders_def empty_db_def
  insert_row_def next_rowid_def order_of_row_def strptime_def num_field_def blanks1_def
  valid_datetime_def days_in_month_def is_leap_def add_order_def query_def isoformat_def

section \<open>Lemmas\<close>

lemma fold_max_init: "(a::nat) \<le> fold max xs a"
proof (induction xs arbitrary: a)
  case Nil
  then show ?case by simp
next
  case (Cons y ys)
  have "a \<le> max y a" by simp
  also have "\<dots> \<le> fold max ys (max y a)" by (rule Cons.IH)
  finally show ?case by simp
qed

lemma fold_max_ge: "x \<in> set xs \<Longrightarrow> (x::nat) \<le> fold max xs a"
proof (induction xs arbitrary: a)
  case Nil
  then show ?case by simp
next
  case (Cons y ys)
  show ?case
  proof (cases "x = y")
    case True
    then show ?thesis using fold_max_init [of "max y a" ys] by simp
  next
    case False
    with Cons show ?thesis by simp
  qed
qed

lemma row_id_lt_next_rowid: "r \<in> set (db_rows d) \<Longrightarrow> row_id r < next_rowid d"
  using fold_max_ge [of "row_id r" "map row_id (db_rows d)" 0]
  by (simp add: next_rowid_def less_Suc_eq_le)

lemma seq_lt_next_rowid: "db_seq d < next_rowid d"
  by (simp add: next_rowid_def)

lemma insert_row_rows:
  "db_rows (fst (insert_row d n wa addr its tot st c))
     = db_rows d @ [\<lparr>row_id = next_rowid d, row_customer_name = n, row_customer_wa = wa,
          row_customer_address = addr, row_items = its, row_total = tot, row_status = st,
          row_created_at = c\<rparr>]"
  by (simp add: insert_row_def Let_def)

lemma insert_row_id: "snd (insert_row d n wa addr its tot st c) = next_rowid d"
  by (simp add: insert_row_def Let_def)

lemma insert_row_seq: "db_seq (fst (insert_row d n wa addr its tot st c)) = next_rowid d"
  by (simp add: insert_row_def Let_def)

lemma db_inv_insert_row: "db_inv d \<Longrightarrow> db_inv (fst (insert_row d n wa addr its tot st c))"
  using row_id_lt_next_rowid [of _ d] seq_lt_next_rowid [of d]
  by (auto simp: db_inv_def insert_row_rows insert_row_seq sorted_wrt_append list_all_iff
      intro: order.strict_implies_order)

lemma map_row_id_update [simp]:
  "map row_id (db_rows (update_order_status i st d)) = map row_id (db_rows d)"
  by (simp add: update_order_status_def)

lemma db_inv_update: "db_inv d \<Longrightarrow> db_inv (update_order_status i st d)"
  unfolding db_inv_def map_row_id_update
  by (auto simp: update_order_status_def list_all_iff)

lemma db_inv_empty: "db_inv empty_db"
  by (simp add: db_inv_def empty_db_def)

lemma db_inv_fold_insert:
  "db_inv d \<Longrightarrow> db_inv (fold (\<lambda>(n, wa, addr, its, tot, st, c) d'. fst (insert_row d' n wa addr its tot st c)) xs d)"
  by (induction xs arbitrary: d) (auto simp: db_inv_insert_row split: prod.splits)

lemma db_inv_init_sample: "db_inv (init_sample_data d)"
  by (simp add: init_sample_data_def db_inv_fold_insert db_inv_empty)

lemma db_inv_step: "db_inv d \<Longrightarrow> db_inv (db_step d op)"
  by (cases op) (simp_all add: add_order_def db_inv_insert_row db_inv_update db_inv_init_sample)

lemma next_rowid_not_in: "\<forall>r\<in>set (db_rows d). \<not> row_id r = next_rowid d"
  using row_id_lt_next_rowid [of _ d] by fastforce

lemma find_append_new:
  "\<forall>r\<in>set xs. \<not> P r \<Longrightarrow> P x \<Longrightarrow> find P (xs @ [x]) = Some x"
  by (induction xs) auto

lemma order_of_row_isoformat:
  assumes "valid_datetime dt" "microsecond dt = 0"
  shows "order_of_row \<lparr>row_id = i, row_customer_name = n, row_customer_wa = wa,
          row_customer_address = addr, row_items = its, row_total = tot, row_status = st,
          row_created_at = isoformat dt\<rparr>
     = Inr \<lparr>order_id = Some i, customer_name = n, customer_wa = wa, customer_address = addr,
          items = its, total = tot, status = st, created_at = dt\<rparr>"
  by (simp add: order_of_row_def strptime_isoformat [OF assms])

lemma map_result_order_of_row_Inl: "map_result order_of_row xs = Inl e \<Longrightarrow> e = ValueError"
  by (induction xs) (auto simp: order_of_row_def split: option.splits sum.splits)

lemma get_all_orders_Inl: "get_all_orders d = Inl e \<Longrightarrow> e = ValueError"
  unfolding get_all_orders_def by (rule map_result_order_of_row_Inl)

lemma order_of_row_status:
  "order_of_row (r\<lparr>row_status := st\<rparr>)
     = (case order_of_row r of Inl e \<Rightarrow> Inl e | Inr od \<Rightarrow> Inr (od\<lparr>status := st\<rparr>))"
  by (simp add: order_of_row_def split: option.split)

lemma find_map_list: "find P (map f xs) = map_option f (find (P \<circ> f) xs)"
  by (induction xs) auto

lemma find_row_id: "find (\<lambda>r. row_id r = j) rs = Some r \<Longrightarrow> row_id r = j"
  by (induction rs) (auto split: if_splits)

lemma get_all_orders_bad_row:
  "r \<in> set (db_rows d) \<Longrightarrow> order_of_row r = Inl ValueError \<Longrightarrow> get_all_orders d = Inl ValueError"
proof -
  assume "r \<in> set (db_rows d)" "order_of_row r = Inl ValueError"
  then obtain e where "get_all_orders d = Inl e"
    using map_result_Inl_iff [of order_of_row "sort_desc row_created_at (db_rows d)"]
    unfolding get_all_orders_def by fastforce
  then show ?thesis using get_all_orders_Inl by blast
qed

text \<open>The row \<open>add_order\<close> appends for a datetime with microseconds does not parse.\<close>

lemma add_order_fraction_row:
  assumes "valid_datetime (created_at od)" "microsecond (created_at od) \<noteq> 0"
  shows "last (db_rows (fst (add_order od d))) \<in> set (db_rows (fst (add_order od d)))
    \<and> row_id (last (db_rows (fst (add_order od d)))) = snd (add_order od d)
    \<and> order_of_row (last (db_rows (fst (add_order od d)))) = Inl ValueError"
  using strptime_isoformat_fraction [OF assms]
  by (simp add: add_order_def insert_row_rows insert_row_id order_of_row_def)

lemma find_first_match: "list_all (\<lambda>x. \<not> P x) xs \<Longrightarrow> P y \<Longrightarrow> find P (xs @ y # ys) = Some y"
  by (induction xs) auto

lemma unreadable_row_at_add_order:
  assumes "valid_datetime (created_at od)" "microsecond (created_at od) \<noteq> 0"
  shows "unreadable_row_at (snd (add_order od d)) (fst (add_order od d))"
  unfolding unreadable_row_at_def
proof (intro exI conjI)
  show "db_rows (fst (add_order od d)) = db_rows d @ last (db_rows (fst (add_order od d))) # []"
    by (simp add: add_order_def insert_row_rows)
  show "list_all (\<lambda>x. row_id x \<noteq> snd (add_order od d)) (db_rows d)"
    using next_rowid_not_in [of d] by (simp add: add_order_def insert_row_id list_all_iff)
  show "row_id (last (db_rows (fst (add_order od d)))) = snd (add_order od d)"
    by (simp add: add_order_def insert_row_rows insert_row_id)
  show "strptime (row_created_at (last (db_rows (fst (add_order od d))))) = None"
    using strptime_isoformat_fraction [OF assms] by (simp add: add_order_def insert_row_rows)
qed

lemma unreadable_row_at_step:
  assumes "unreadable_row_at i d" "op \<noteq> InitSampleData"
  shows "unreadable_row_at i (db_step d op)"
proof -
  obtain pre r post where rows: "db_rows d = pre @ r # post" "list_all (\<lambda>x. row_id x \<noteq> i) pre"
    "row_id r = i" "strptime (row_created_at r) = None"
    using assms(1) unfolding unreadable_row_at_def by blast
  show ?thesis
  proof (cases op)
    case (AddOrder od)
    then have "db_rows (db_step d op) = pre @ r # (post @ [last (db_rows (fst (add_order od d)))])"
      using rows(1) by (simp add: add_order_def insert_row_rows)
    then show ?thesis using rows(2-4) unfolding unreadable_row_at_def by blast
  next
    case (UpdateOrderStatus j st)
    let ?f = "\<lambda>r. if row_id r = j then r\<lparr>row_status := st\<rparr> else r"
    from UpdateOrderStatus have "db_rows (db_step d op) = map ?f pre @ ?f r # map ?f post"
      "list_all (\<lambda>x. row_id x \<noteq> i) (map ?f pre)" "row_id (?f r) = i"
      "strptime (row_created_at (?f r)) = None"
      using rows by (auto simp: update_order_status_def list_all_iff)
    then show ?thesis unfolding unreadable_row_at_def by blast
  next
    case InitSampleData
    then show ?thesis using assms(2) by simp
  qed
qed

lemma unreadable_row_at_run:
  "unreadable_row_at i d \<Longrightarrow> InitSampleData \<notin> set ops \<Longrightarrow> unreadable_row_at i (db_run d ops)"
  unfolding db_run_def
proof (induction ops arbitrary: d)
  case (Cons a ops)
  then have "unreadable_row_at i (db_step d a)" using unreadable_row_at_step [of i d a] by auto
  with Cons show ?case by simp
qed simp

lemma unreadable_row_at_reads:
  assumes "unreadable_row_at i d"
  shows "get_all_orders d = Inl ValueError \<and> get_order i d = Inl ValueError"
proof -
  obtain pre r post where rows: "db_rows d = pre @ r # post" "list_all (\<lambda>x. row_id x \<noteq> i) pre"
    "row_id r = i" "strptime (row_created_at r) = None"
    using assms unfolding unreadable_row_at_def by blast
  then have bad: "order_of_row r = Inl ValueError" by (simp add: order_of_row_def)
  have "find (\<lambda>x. row_id x = i) (db_rows d) = Some r"
    using rows(1-3) by (simp add: find_first_match)
  then have "get_order i d = Inl ValueError" using bad by (simp add: get_order_def)
  moreover have "get_all_orders d = Inl ValueError"
    using get_all_orders_bad_row [of r d] bad rows(1) by simp
  ultimately show ?thesis by simp
qed

lemma today_filter_days: "valid_datetime now \<Longrightarrow> 1 \<le> n \<Longrightarrow> today_filter now (days_filter now n os) = today_filter now os"
proof -
  assume v: "valid_datetime now" and n: "1 \<le> n"
  have "date_of (created_at od) = date_of now \<Longrightarrow> timestamp_us now - n * day_us \<le> timestamp_us (created_at od)" for od
  proof -
    assume "date_of (created_at od) = date_of now"
    from same_date_within_day [OF v this] have "timestamp_us now - day_us < timestamp_us (created_at od)" .
    moreover have "n * day_us \<ge> day_us" using n day_us_pos by simp
    ultimately show ?thesis by linarith
  qed
  then show ?thesis
    unfolding today_filter_def days_filter_def by (auto intro: filter_cong)
qed

lemma days_filter_mono: "n \<le> m \<Longrightarrow> days_filter now n (days_filter now m os) = days_filter now n os"
proof -
  assume "n \<le> m"
  then have "n * day_us \<le> m * day_us" using day_us_pos by simp
  then show ?thesis
    unfolding days_filter_def by (auto intro: filter_cong)
qed

lemma status_count_acc:
  "map_of (foldl (\<lambda>sc od. py_dict_set sc (status od) (py_dict_get sc (status od) 0 + 1)) acc os) s
     = (let c = length (filter (\<lambda>od. status od = s) os) in
        case map_of acc s of None \<Rightarrow> (if c = 0 then None else Some c) | Some a \<Rightarrow> Some (a + c))"
  by (induction os arbitrary: acc) (auto simp: py_dict_get_def Let_def split: option.splits)

lemma status_count_distinct_acc:
  "distinct (map fst acc) \<Longrightarrow>
   distinct (map fst (foldl (\<lambda>sc od. py_dict_set sc (status od) (py_dict_get sc (status od) 0 + 1)) acc os))"
  by (induction os arbitrary: acc) (auto intro: distinct_py_dict_set)

lemma customer_orders_acc:
  "map_of (foldl (\<lambda>co od. case map_of co (customer_wa od) of
              Some (n, c, t) \<Rightarrow> py_dict_set co (customer_wa od) (n, Suc c, t + total od)
            | None \<Rightarrow> py_dict_set co (customer_wa od) (customer_name od, 1, total od)) acc os) wa
     = (let sel = filter (\<lambda>od. customer_wa od = wa) os in
        case map_of acc wa of
          Some (n, c, t) \<Rightarrow> Some (n, c + length sel, t + sum_list (map total sel))
        | None \<Rightarrow> (if sel = [] then None else Some (customer_name (hd sel), length sel, sum_list (map total sel))))"
  by (induction os arbitrary: acc) (auto simp: Let_def algebra_simps split: option.splits)

lemma customer_orders_distinct_acc:
  "distinct (map fst acc) \<Longrightarrow>
   distinct (map fst (foldl (\<lambda>co od. case map_of co (customer_wa od) of
              Some (n, c, t) \<Rightarrow> py_dict_set co (customer_wa od) (n, Suc c, t + total od)
            | None \<Rightarrow> py_dict_set co (customer_wa od) (customer_name od, 1, total od)) acc os))"
  by (induction os arbitrary: acc) (auto intro: distinct_py_dict_set split: option.splits)

lemma customer_orders_map_of:
  "map_of (customer_orders os) wa
     = (let sel = filter (\<lambda>od. customer_wa od = wa) os in
        if sel = [] then None else Some (customer_name (hd sel), length sel, sum_list (map total sel)))"
proof -
  have "map_of (customer_orders os) wa
     = (let sel = filter (\<lambda>od. customer_wa od = wa) os in
        case map_of [] wa of
          Some (n, c, t) \<Rightarrow> Some (n, c + length sel, t + sum_list (map total sel))
        | None \<Rightarrow> (if sel = [] then None else Some (customer_name (hd sel), length sel, sum_list (map total sel))))"
    unfolding customer_orders_def by (rule customer_orders_acc)
  then show ?thesis by (simp add: Let_def)
qed

lemma customer_orders_distinct: "distinct (map fst (customer_orders os))"
  unfolding customer_orders_def by (rule customer_orders_distinct_acc) simp

lemma set_top_customers:
  "set (top_customers os)
     = (\<lambda>(wa, n, c, t). \<lparr>cs_whatsapp = wa, cs_name = n, cs_count = c, cs_total = t\<rparr>) ` set (customer_orders os)"
  by (simp add: top_customers_def Let_def)

lemma mset_top_customers:
  "mset (top_customers os)
     = mset (map (\<lambda>(wa, n, c, t). \<lparr>cs_whatsapp = wa, cs_name = n, cs_count = c, cs_total = t\<rparr>) (customer_orders os))"
  by (simp add: top_customers_def Let_def)

section \<open>Properties of the store\<close>

text \<open>C12. Round trip of the store: an order whose \<open>created_at\<close> is a valid datetime
  without microseconds, once added, is read back by \<open>get_order\<close> with the id
  \<open>add_order\<close> returned and every other field unchanged.\<close>

theorem get_order_add_order:
  assumes "valid_datetime (created_at od)" "microsecond (created_at od) = 0"
  shows "get_order (snd (add_order od d)) (fst (add_order od d))
           = Inr (Some (od\<lparr>order_id := Some (snd (add_order od d))\<rparr>))"
proof -
  show ?thesis
    using next_rowid_not_in [of d] order_of_row_isoformat [OF assms]
    by (cases od) (simp add: get_order_def add_order_def insert_row_rows insert_row_id find_append_new)
qed

theorem get_order_add_order_witness:
  "valid_datetime (created_at ((default_order (mk_dt 2024 1 15 10 30 0))\<lparr>customer_wa := ''+628123456789''\<rparr>))
   \<and> microsecond (created_at ((default_order (mk_dt 2024 1 15 10 30 0))\<lparr>customer_wa := ''+628123456789''\<rparr>)) = 0
   \<and> get_order (snd (add_order ((default_order (mk_dt 2024 1 15 10 30 0))\<lparr>customer_wa := ''+628123456789''\<rparr>) (init_sample_data empty_db)))
         (fst (add_order ((default_order (mk_dt 2024 1 15 10 30 0))\<lparr>customer_wa := ''+628123456789''\<rparr>) (init_sample_data empty_db)))
       = Inr (Some (((default_order (mk_dt 2024 1 15 10 30 0))\<lparr>customer_wa := ''+628123456789''\<rparr>)\<lparr>order_id :=
           Some (snd (add_order ((default_order (mk_dt 2024 1 15 10 30 0))\<lparr>customer_wa := ''+628123456789''\<rparr>) (init_sample_data empty_db)))\<rparr>))"
proof -
  let ?od = "(default_order (mk_dt 2024 1 15 10 30 0))\<lparr>customer_wa := ''+628123456789''\<rparr>"
  have h1: "valid_datetime (created_at ?od)"
    by (simp add: default_order_def make_order_def mk_dt_def valid_datetime_def days_in_month_def is_leap_def)
  have h2: "microsecond (created_at ?od) = 0"
    by (simp add: default_order_def make_order_def mk_dt_def)
  show ?thesis using h1 h2 get_order_add_order [OF h1 h2, of "init_sample_data empty_db"] by blast
qed

text \<open>C13. An order whose \<open>created_at\<close> has microseconds (what \<open>datetime.now()\<close>, the
  default of \<open>Order\<close>, gives in all but one microsecond of each second) is stored with
  a fraction the reader's format does not accept. From then on, through any further
  \<open>add_order\<close> and \<open>update_order_status\<close> calls, until \<open>init_sample_data\<close> drops the
  table, every \<open>get_all_orders\<close>, and so every dashboard query built on it, raises
  \<open>ValueError\<close>, and so does \<open>get_order\<close> of the new id.\<close>

theorem add_order_fraction_breaks_reads:
  assumes "valid_datetime (created_at od)" "microsecond (created_at od) \<noteq> 0"
    and "InitSampleData \<notin> set ops"
  shows "get_all_orders (db_run (fst (add_order od d)) ops) = Inl ValueError
       \<and> get_order (snd (add_order od d)) (db_run (fst (add_order od d)) ops) = Inl ValueError"
  using unreadable_row_at_reads [OF unreadable_row_at_run [OF unreadable_row_at_add_order [OF assms(1,2)] assms(3)]] .

theorem add_order_fraction_breaks_reads_witness:
  "valid_datetime (created_at (default_order ((mk_dt 2024 1 15 10 30 0)\<lparr>microsecond := 123456\<rparr>)))
   \<and> microsecond (created_at (default_order ((mk_dt 2024 1 15 10 30 0)\<lparr>microsecond := 123456\<rparr>))) \<noteq> 0
   \<and> InitSampleData \<notin> set [UpdateOrderStatus 1 ''completed'', AddOrder (default_order (mk_dt 2024 1 16 9 0 0))]
   \<and> get_all_orders (db_run (fst (add_order (default_order ((mk_dt 2024 1 15 10 30 0)\<lparr>microsecond := 123456\<rparr>))
        (init_sample_data empty_db)))
        [UpdateOrderStatus 1 ''completed'', AddOrder (default_order (mk_dt 2024 1 16 9 0 0))]) = Inl ValueError"
proof -
  let ?od = "default_order ((mk_dt 2024 1 15 10 30 0)\<lparr>microsecond := 123456\<rparr>)"
  let ?ops = "[UpdateOrderStatus 1 ''completed'', AddOrder (default_order (mk_dt 2024 1 16 9 0 0))]"
  have h1: "valid_datetime (created_at ?od)"
    by (simp add: default_order_def make_order_def mk_dt_def valid_datetime_def days_in_month_def is_leap_def)
  have h2: "microsecond (created_at ?od) \<noteq> 0"
    by (simp add: default_order_def make_order_def mk_dt_def)
  have h3: "InitSampleData \<notin> set ?ops" by simp
  show ?thesis
    using h1 h2 h3 add_order_fraction_breaks_reads [OF h1 h2 h3, of "init_sample_data empty_db"] by blast
qed

text \<open>C14. Invariant of the store: after any sequence of \<open>add_order\<close>,
  \<open>update_order_status\<close> and \<open>init_sample_data\<close> calls from a new database, rowids
  strictly increase along the table and none exceeds the \<open>AUTOINCREMENT\<close> counter;
  in particular no two orders share an id.\<close>

theorem db_run_inv: "db_inv (db_run empty_db ops)"
proof -
  have "db_inv d \<Longrightarrow> db_inv (foldl db_step d ops)" for d
    by (induction ops arbitrary: d) (simp_all add: db_inv_step)
  then show ?thesis by (simp add: db_run_def db_inv_empty)
qed

text \<open>\<open>init_sample_data\<close> drops the table, and with it the \<open>AUTOINCREMENT\<close>
  counter: whatever ids were issued before, the next order added after a reset gets
  id 5, so ids of orders from before the reset are issued again.\<close>

theorem init_sample_data_next_id: "snd (add_order od (init_sample_data d)) = 5"
  by (simp add: add_order_def insert_row_id init_sample_data_def sample_orders_def empty_db_def
      insert_row_def next_rowid_def)

text \<open>Setting the same status twice is the same as setting it once.\<close>

theorem update_order_status_idem:
  "update_order_status i st (update_order_status i st d) = update_order_status i st d"
  by (simp add: update_order_status_def comp_def)

text \<open>C16. \<open>update_order_status i st\<close> changes only the status of order \<open>i\<close>, and
  nothing when there is no such order; every other order reads back unchanged.\<close>

theorem get_order_update:
  "get_order j (update_order_status i st d)
     = (if j = i then (case get_order j d of
                         Inr (Some od) \<Rightarrow> Inr (Some (od\<lparr>status := st\<rparr>))
                       | other \<Rightarrow> other)
        else get_order j d)"
proof -
  have "find (\<lambda>r. row_id r = j) (db_rows (update_order_status i st d))
      = map_option (\<lambda>r. if row_id r = i then r\<lparr>row_status := st\<rparr> else r)
          (find (\<lambda>r. row_id r = j) (db_rows d))"
    by (simp add: update_order_status_def find_map_list comp_def if_distrib cong: if_cong)
  then show ?thesis
    by (auto simp: get_order_def order_of_row_status dest: find_row_id
        split: option.split sum.split)
qed

text \<open>The report windows nest: for any current time, the orders of today are
  those orders of the last 7 days that are of today, and the orders of the last 7 days
  are those orders of the last 30 days that are of the last 7 days.\<close>

theorem windows_nested:
  assumes "valid_datetime now" "get_monthly_orders now d = Inr M"
  shows "get_weekly_orders now d = Inr (days_filter now 7 M)
       \<and> get_today_orders now d = Inr (today_filter now (days_filter now 7 M))"
  using assms
  by (auto simp: get_monthly_orders_def get_weekly_orders_def get_today_orders_def query_def
      days_filter_mono today_filter_days split: sum.splits)

theorem windows_nested_witness:
  "\<exists>M. valid_datetime (mk_dt 2024 1 20 12 0 0)
     \<and> get_monthly_orders (mk_dt 2024 1 20 12 0 0) (init_sample_data empty_db) = Inr M
     \<and> length M = 4
     \<and> get_weekly_orders (mk_dt 2024 1 20 12 0 0) (init_sample_data empty_db)
         = Inr (days_filter (mk_dt 2024 1 20 12 0 0) 7 M)
     \<and> get_today_orders (mk_dt 2024 1 20 12 0 0) (init_sample_data empty_db)
         = Inr (today_filter (mk_dt 2024 1 20 12 0 0) (days_filter (mk_dt 2024 1 20 12 0 0) 7 M))"
proof -
  have h1: "valid_datetime (mk_dt 2024 1 20 12 0 0)"
    by (simp add: mk_dt_def valid_datetime_def days_in_month_def is_leap_def)
  obtain M where h2: "get_monthly_orders (mk_dt 2024 1 20 12 0 0) (init_sample_data empty_db) = Inr M"
      and len: "length M = 4"
    by (simp add: get_monthly_orders_def days_filter_def db_eval ts_eval py_simps)
  show ?thesis using h1 h2 len windows_nested [OF h1 h2] by blast
qed

text \<open>"Today" is the calendar date of \<open>now\<close>, not the last 24 hours: at 00:30 an
  order placed at 23:59 the day before, 31 minutes earlier, is not an order of today,
  and it is one of the last 7 days.\<close>

theorem spec_today_calendar_date:
  "let now = mk_dt 2024 1 15 0 30 0;
       od = (default_order now)\<lparr>created_at := mk_dt 2024 1 14 23 59 0\<rparr>
   in timestamp_us now - timestamp_us (created_at od) < day_us
      \<and> today_filter now [od] = [] \<and> days_filter now 7 [od] = [od]"
  by (simp add: ts_eval today_filter_def days_filter_def default_order_def make_order_def)

text \<open>C18. The status histogram has an entry exactly for the statuses that occur, each
  once, with the number of orders \<open>get_orders_by_status\<close> returns for it; statuses
  that do not occur are absent, not zero.\<close>

theorem status_count_spec:
  "map_of (status_count os) s
     = (if s \<in> set (map status os) then Some (length (status_filter s os)) else None)
   \<and> distinct (map fst (status_count os))"
proof -
  have m: "map_of (status_count os) s
     = (let c = length (filter (\<lambda>od. status od = s) os) in
        case map_of [] s of None \<Rightarrow> (if c = 0 then None else Some c) | Some a \<Rightarrow> Some (a + c))"
    unfolding status_count_def by (rule status_count_acc)
  have "distinct (map fst (status_count os))"
    unfolding status_count_def by (rule status_count_distinct_acc) simp
  with m show ?thesis
    by (auto simp: status_filter_def filter_empty_conv Let_def)
qed

text \<open>C19. Top customers: a row per WhatsApp number that occurs, with the name of its
  first order (in the order \<open>get_all_orders\<close> returns), its number of orders and
  their summed total; the numbers are distinct and the rows are sorted by total,
  largest first.\<close>

theorem top_customers_spec:
  "(c \<in> set (top_customers os) \<longleftrightarrow>
      (let sel = filter (\<lambda>od. customer_wa od = cs_whatsapp c) os in
       sel \<noteq> [] \<and> cs_name c = customer_name (hd sel) \<and> cs_count c = length sel
       \<and> cs_total c = sum_list (map total sel)))
   \<and> distinct (map cs_whatsapp (top_customers os))
   \<and> sorted (rev (map cs_total (top_customers os)))"
proof (intro conjI)
  let ?mk = "\<lambda>(wa, n, c, t). \<lparr>cs_whatsapp = wa, cs_name = n, cs_count = c, cs_total = t\<rparr>"
  have dist: "distinct (map fst (customer_orders os))"
    by (rule customer_orders_distinct)
  have "c \<in> set (top_customers os) \<longleftrightarrow>
      (cs_whatsapp c, cs_name c, cs_count c, cs_total c) \<in> set (customer_orders os)"
    by (cases c) (force simp: set_top_customers)
  also have "\<dots> \<longleftrightarrow> map_of (customer_orders os) (cs_whatsapp c) = Some (cs_name c, cs_count c, cs_total c)"
    using dist by (simp add: map_of_eq_Some_iff)
  finally show "c \<in> set (top_customers os) \<longleftrightarrow>
      (let sel = filter (\<lambda>od. customer_wa od = cs_whatsapp c) os in
       sel \<noteq> [] \<and> cs_name c = customer_name (hd sel) \<and> cs_count c = length sel
       \<and> cs_total c = sum_list (map total sel))"
    by (auto simp: customer_orders_map_of Let_def)
  have eq: "map cs_whatsapp (map ?mk (customer_orders os)) = map fst (customer_orders os)"
    by (auto simp: split_def)
  have "distinct (map cs_whatsapp (map ?mk (customer_orders os)))"
    unfolding eq by (rule dist)
  moreover have "mset (map cs_whatsapp (top_customers os))
      = mset (map cs_whatsapp (map ?mk (customer_orders os)))"
    by (simp only: mset_map mset_top_customers)
  ultimately show "distinct (map cs_whatsapp (top_customers os))"
    using mset_eq_imp_distinct_iff by blast
  show "sorted (rev (map cs_total (top_customers os)))"
    by (simp add: top_customers_def Let_def sorted_sort_desc)
qed

text \<open>The specification's example: two orders of one number (30000 and 20000) and
  one of another (10000) give the first number first, with 2 orders and 50000.\<close>

theorem spec_top_customers_example:
  "top_customers spec_customer_orders =
     [\<lparr>cs_whatsapp = ''+62811'', cs_name = ''Budi'', cs_count = 2, cs_total = 50000\<rparr>,
      \<lparr>cs_whatsapp = ''+62822'', cs_name = ''Siti'', cs_count = 1, cs_total = 10000\<rparr>]"
  by (simp add: spec_customer_orders_def top_customers_def customer_orders_def default_order_def
      make_order_def py_simps)

text \<open>\<open>ORDER BY created_at DESC\<close> on the sample data: the rows are read back
  most recent first (12:00, 11:15, 10:30, 09:45, that is ids 3, 2, 1, 4).\<close>

theorem sample_data_most_recent_first:
  "\<exists>os. get_all_orders (init_sample_data d) = Inr os \<and> map order_id os = [Some 3, Some 2, Some 1, Some 4]
      \<and> map status os = [''confirmed'', ''processing'', ''completed'', ''pending'']"
  by (simp add: db_eval py_simps)

end
