(* ===== verification/Dashboard.thy ===== *)
theory Dashboard
  imports Complex_Main Database
begin

text \<open>
  The computations of the Streamlit dashboard, \<open>src/app.py\<close>. Each run of the script
  reads the store through the \<open>DatabaseManager\<close> queries and derives the numbers and
  tables it shows: the counts of the sidebar and the first tab, the monthly revenue and
  the average order value, the orders of the last 7 days per date, the orders tab with
  its status filter and one status selectbox per order, the daily revenue, the top five
  customers and menu items, and the orders per hour. The widgets themselves (\<open>st.*\<close>,
  plotly figures) are presentation and are not modelled; \<open>render_dashboard\<close> gathers
  everything a run computes, and raises when a read raises. The button actions change
  the store through \<open>Database.db_step\<close>.
\<close>

section \<open>Summary numbers\<close>

text \<open>\<open>completed_orders = [o for o in monthly_orders if o.status == "completed"]\<close>.\<close>

definition completed_orders :: "order list \<Rightarrow> order list" where
  "completed_orders os = filter (\<lambda>od. status od = ''completed'') os"

text \<open>\<open>revenue = sum(order.total for order in completed_orders)\<close>.\<close>

definition revenue :: "order list \<Rightarrow> int" where
  "revenue os = sum_list (map total (completed_orders os))"

text \<open>Python's true division \<open>a / b\<close> of two \<open>int\<close>s, as an exact quotient (the
  float rounding is not modelled); a zero divisor raises \<open>ZeroDivisionError\<close>.\<close>

definition py_truediv :: "int \<Rightarrow> int \<Rightarrow> py_error + rat" where
  "py_truediv a b = (if b = 0 then Inl ZeroDivisionError else Inr (of_int a / of_int b))"

text \<open>\<open>avg_order_value = revenue / len(completed_orders) if completed_orders else 0\<close>:
  the conditional expression tests the list's truth value before dividing.\<close>

definition avg_order_value :: "order list \<Rightarrow> py_error + rat" where
  "avg_order_value os =
     (let c = completed_orders os in
      if c \<noteq> [] then py_truediv (revenue os) (int (length c)) else Inr 0)"

section \<open>Charts per date\<close>

text \<open>\<open>created_at.strftime("%Y-%m-%d")\<close>: the C library writes the year without
  padding, month and day with two digits.\<close>

definition strftime_date :: "datetime \<Rightarrow> string" where
  "strftime_date dt = show_nat (year dt) @ ''-'' @ pad_nat 2 (month dt) @ ''-'' @ pad_nat 2 (day dt)"

text \<open>The orders of the last 7 days per date:
  \<open>order_counts[date] = order_counts.get(date, 0) + 1\<close>.\<close>

definition date_counts :: "order list \<Rightarrow> (string \<times> nat) list" where
  "date_counts weekly_orders =
     foldl (\<lambda>order_counts date. py_dict_set order_counts date (py_dict_get order_counts date 0 + 1)) []
       (map (\<lambda>od. strftime_date (created_at od)) weekly_orders)"

text \<open>The revenue per date of the completed orders:
  \<open>if date_str in daily_revenue: daily_revenue[date_str] += order.total\<close>.\<close>

definition daily_revenue :: "order list \<Rightarrow> (string \<times> int) list" where
  "daily_revenue os =
     foldl (\<lambda>dr od. let date_str = strftime_date (created_at od) in
              case map_of dr date_str of
                Some v \<Rightarrow> py_dict_set dr date_str (v + total od)
              | None \<Rightarrow> py_dict_set dr date_str (total od)) [] (completed_orders os)"

section \<open>The orders tab\<close>

text \<open>The status filter: \<open>Semua\<close> (all) or one status.\<close>

definition orders_tab :: "string \<Rightarrow> db \<Rightarrow> py_error + order list" where
  "orders_tab selected d =
     (if selected = ''Semua'' then get_all_orders d else get_orders_by_status selected d)"

text \<open>\<open>list.index\<close>, which raises \<open>ValueError\<close> for a value not in the list.\<close>

fun py_index :: "'a list \<Rightarrow> 'a \<Rightarrow> py_error + nat" where
  "py_index [] x = Inl ValueError"
| "py_index (y # ys) x = (if y = x then Inr 0 else (case py_index ys x of Inl e \<Rightarrow> Inl e | Inr i \<Rightarrow> Inr (Suc i)))"

text \<open>One status selectbox per order, preselected at
  \<open>["pending", ..., "cancelled"].index(order.status)\<close>; the loop stops at the first
  order whose status is not one of the five.\<close>

definition status_widgets :: "order list \<Rightarrow> py_error + nat list" where
  "status_widgets os = map_result (\<lambda>od. py_index order_statuses (status od)) os"

section \<open>Top performers and hours\<close>

text \<open>\<open>top_customers.head(5)\<close>.\<close>

definition top5_customers :: "customer_summary list \<Rightarrow> customer_summary list" where
  "top5_customers cs = take 5 cs"

text \<open>The menu loop: every fragment of \<open>order.items.split(',')\<close>, stripped and
  lower-cased, counted with \<open>if item_clean in menu_items: ... += 1 else ... = 1\<close>.\<close>

definition clean_item :: "string \<Rightarrow> string" where
  "clean_item item = py_lower (py_strip item)"

definition menu_counts :: "order list \<Rightarrow> (string \<times> nat) list" where
  "menu_counts all_orders =
     foldl (\<lambda>menu_items od.
       foldl (\<lambda>menu_items item.
         let item_clean = clean_item item in
         case map_of menu_items item_clean of
           Some c \<Rightarrow> py_dict_set menu_items item_clean (c + 1)
         | None \<Rightarrow> py_dict_set menu_items item_clean 1)
         menu_items (py_split CHR '','' (items od)))
       [] all_orders"

text \<open>\<open>menu_df.sort_values('Jumlah', ascending=False).head(5)\<close>.\<close>

definition top_menu_items :: "order list \<Rightarrow> (string \<times> nat) list" where
  "top_menu_items all_orders = take 5 (sort_desc snd (menu_counts all_orders))"

text \<open>\<open>hour_counts[hour] = order_hours.count(hour)\<close> for the 24 hours.\<close>

definition hour_counts :: "order list \<Rightarrow> (nat \<times> nat) list" where
  "hour_counts all_orders =
     (let order_hours = map (\<lambda>od. hour (created_at od)) all_orders in
      map (\<lambda>h. (h, count_list order_hours h)) [0..<24])"

text \<open>The fragments the menu loop counts, in order: the reference the loop is
  proved against.\<close>

definition menu_fragments :: "order list \<Rightarrow> string list" where
  "menu_fragments os = concat (map (\<lambda>od. map clean_item (py_split CHR '','' (items od))) os)"

section \<open>One run of the script\<close>

record dashboard_view =
  dv_today_count :: nat
  dv_pending_count :: nat
  dv_monthly_count :: nat
  dv_revenue :: int
  dv_weekly_chart :: "(string \<times> nat) list"
  dv_orders :: "order list"
  dv_status_index :: "nat list"
  dv_total_orders :: nat
  dv_avg_order_value :: rat
  dv_daily_revenue :: "(string \<times> int) list"
  dv_status_counts :: "(string \<times> nat) list"
  dv_top_customers :: "customer_summary list"
  dv_top_menu :: "(string \<times> nat) list"
  dv_hour_counts :: "(nat \<times> nat) list"

text \<open>The reads of a run in the script's order (the sidebar, then the tabs); a read
  that the script repeats returns the same result and is made once here.\<close>

definition render_dashboard :: "datetime \<Rightarrow> string \<Rightarrow> db \<Rightarrow> py_error + dashboard_view" where
  "render_dashboard now selected d =
     py_bind (get_today_orders now d) (\<lambda>today_orders.
     py_bind (get_pending_orders d) (\<lambda>pending_orders.
     py_bind (get_monthly_orders now d) (\<lambda>monthly_orders.
     py_bind (get_weekly_orders now d) (\<lambda>weekly_orders.
     py_bind (orders_tab selected d) (\<lambda>orders.
     py_bind (status_widgets orders) (\<lambda>idx.
     py_bind (get_all_orders d) (\<lambda>all_orders.
     py_bind (avg_order_value monthly_orders) (\<lambda>avg.
     py_bind (get_orders_by_status_count d) (\<lambda>status_counts.
     py_bind (get_top_customers d) (\<lambda>top_customers.
       Inr \<lparr>dv_today_count = length today_orders, dv_pending_count = length pending_orders,
            dv_monthly_count = length monthly_orders, dv_revenue = revenue monthly_orders,
            dv_weekly_chart = date_counts weekly_orders, dv_orders = orders, dv_status_index = idx,
            dv_total_orders = length all_orders, dv_avg_order_value = avg,
            dv_daily_revenue = daily_revenue monthly_orders, dv_status_counts = status_counts,
            dv_top_customers = top5_customers top_customers, dv_top_menu = top_menu_items all_orders,
            dv_hour_counts = hour_counts all_orders\<rparr>))))))))))"

section \<open>Lemmas\<close>

text \<open>The guard of line 189 is what keeps the division from raising: with it the average
  is always a value.\<close>

lemma avg_order_value_Inr:
  "avg_order_value os =
     Inr (if completed_orders os = [] then 0
          else of_int (revenue os) / of_nat (length (completed_orders os)))"
  by (simp add: avg_order_value_def py_truediv_def Let_def)

lemma foldl_concat_map: "foldl (\<lambda>acc x. foldl g acc (F x)) acc xs = foldl g acc (concat (map F xs))"
  by (induction xs arbitrary: acc) auto

lemma menu_counts_group_sum:
  "menu_counts os = group_sum clean_item (\<lambda>item. 1 :: nat) (concat (map (\<lambda>od. py_split CHR '','' (items od)) os))"
proof -
  have step: "(\<lambda>menu_items item. let item_clean = clean_item item in
         case map_of menu_items item_clean of
           Some c \<Rightarrow> py_dict_set menu_items item_clean (c + 1)
         | None \<Rightarrow> py_dict_set menu_items item_clean 1) = dict_add clean_item (\<lambda>item. 1 :: nat)"
    by (intro ext) (simp add: dict_add_def Let_def split: option.split)
  show ?thesis
    unfolding menu_counts_def step foldl_concat_map by (rule foldl_dict_add_Nil)
qed

lemma distinct_menu_counts: "distinct (map fst (menu_counts os))"
  by (simp add: menu_counts_group_sum)

lemma sorted_top_menu_items: "sorted (rev (map snd (top_menu_items os)))"
  using sorted_sort_desc [of snd "menu_counts os"]
  by (simp add: top_menu_items_def rev_map [symmetric] sorted_wrt_rev take_map [symmetric] sorted_wrt_take)

lemma py_index_Inr: "py_index xs x = Inr i \<Longrightarrow> i < length xs \<and> xs ! i = x"
  by (induction xs arbitrary: i) (auto split: if_splits sum.splits)

lemma py_index_Inl: "(\<exists>e. py_index xs x = Inl e) \<longleftrightarrow> x \<notin> set xs"
  by (induction xs) (auto split: sum.splits)

lemma status_widgets_Inl_ex: "status_widgets os = Inl e \<Longrightarrow> \<exists>od\<in>set os. \<exists>e. py_index order_statuses (status od) = Inl e"
    using map_result_Inl_iff [of "\<lambda>od. py_index order_statuses (status od)" os]
    unfolding status_widgets_def by blast

lemma status_widgets_Inl: "status_widgets os = Inl e \<Longrightarrow> \<not> list_all (\<lambda>od. status od \<in> set order_statuses) os"
proof -
  assume a: "status_widgets os = Inl e"
  obtain od where od: "od \<in> set os" "\<exists>e'. py_index order_statuses (status od) = Inl e'"
    using status_widgets_Inl_ex [OF a] by blast
  have "status od \<notin> set order_statuses" using py_index_Inl [of order_statuses "status od"] od(2) by simp
  then show ?thesis unfolding list_all_iff using od(1) by blast
qed

lemma status_widgets_Inr: "status_widgets os = Inr idx \<Longrightarrow> map (\<lambda>i. order_statuses ! i) idx = map status os"
proof -
  assume "status_widgets os = Inr idx"
  then have "list_all2 (\<lambda>od i. py_index order_statuses (status od) = Inr i) os idx"
    unfolding status_widgets_def by (simp only: map_result_Inr_iff)
  then have "list_all2 (\<lambda>od i. order_statuses ! i = status od) os idx"
    by (rule list_all2_mono) (blast dest: py_index_Inr)
  then show ?thesis
    by (induction rule: list_all2_induct) simp_all
qed

lemma daily_revenue_group_sum:
  "daily_revenue os = group_sum (\<lambda>od. strftime_date (created_at od)) total (completed_orders os)"
proof -
  have step: "(\<lambda>dr od. let date_str = strftime_date (created_at od) in
              case map_of dr date_str of
                Some v \<Rightarrow> py_dict_set dr date_str (v + total od)
              | None \<Rightarrow> py_dict_set dr date_str (total od)) = dict_add (\<lambda>od. strftime_date (created_at od)) total"
    by (intro ext) (simp add: dict_add_def Let_def)
  show ?thesis unfolding daily_revenue_def step by (rule foldl_dict_add_Nil)
qed

lemma date_counts_group_sum:
  "date_counts os = group_sum (\<lambda>od. strftime_date (created_at od)) (\<lambda>od. 1 :: nat) os"
  unfolding date_counts_def foldl_map by (rule foldl_py_count)

lemma render_dashboard_Inl: "get_all_orders d = Inl e \<Longrightarrow> render_dashboard now selected d = Inl e"
  by (simp add: render_dashboard_def get_today_orders_def query_def)

section \<open>Properties\<close>

text \<open>C20. One order stored with a fractional second (an \<open>Order\<close> created with its
  default \<open>datetime.now()\<close>) makes every later run of the dashboard raise
  \<open>ValueError\<close>: the first read of the script, \<open>get_today_orders\<close> in the sidebar,
  already fails.\<close>

theorem render_dashboard_fraction:
  assumes "valid_datetime (created_at od)" "microsecond (created_at od) \<noteq> 0"
  shows "render_dashboard now selected (fst (add_order od d)) = Inl ValueError"
proof -
  have "get_all_orders (fst (add_order od d)) = Inl ValueError"
    using add_order_fraction_row [OF assms] get_all_orders_bad_row by blast
  then show ?thesis by (rule render_dashboard_Inl)
qed

theorem render_dashboard_fraction_witness:
  "valid_datetime (created_at (default_order ((mk_dt 2024 1 15 10 30 0)\<lparr>microsecond := 123456\<rparr>)))
   \<and> microsecond (created_at (default_order ((mk_dt 2024 1 15 10 30 0)\<lparr>microsecond := 123456\<rparr>))) \<noteq> 0
   \<and> render_dashboard (mk_dt 2024 1 20 12 0 0) ''Semua''
       (fst (add_order (default_order ((mk_dt 2024 1 15 10 30 0)\<lparr>microsecond := 123456\<rparr>))
          (init_sample_data empty_db))) = Inl ValueError"
proof -
  let ?od = "default_order ((mk_dt 2024 1 15 10 30 0)\<lparr>microsecond := 123456\<rparr>)"
  have h1: "valid_datetime (created_at ?od)"
    by (simp add: default_order_def make_order_def mk_dt_def valid_datetime_def days_in_month_def is_leap_def)
  have h2: "microsecond (created_at ?od) \<noteq> 0"
    by (simp add: default_order_def make_order_def mk_dt_def)
  show ?thesis
    using h1 h2 render_dashboard_fraction [OF h1 h2, of "mk_dt 2024 1 20 12 0 0" "''Semua''" "init_sample_data empty_db"]
    by blast
qed

text \<open>C28. The popular-menu loop counts, for every cleaned fragment of the
  comma-separated item texts, the number of its occurrences over all orders, with the
  fragments in order of first occurrence: a fragment with a quantity
  (\<open>2 nasi goreng\<close>) and one without are different keys, as the specification
  records.\<close>

theorem menu_counts_spec:
  "menu_counts os = map (\<lambda>k. (k, count_list (menu_fragments os) k)) (remdups_first (menu_fragments os))"
  unfolding menu_counts_group_sum group_sum_one menu_fragments_def by (simp add: map_concat comp_def)

text \<open>C29. The top five menu items are the five highest counts: an item left out has a
  count no larger than that of any item shown.\<close>

theorem top_menu_items_top:
  assumes "(k, c) \<in> set (menu_counts os)" "(k, c) \<notin> set (top_menu_items os)"
  shows "list_all (\<lambda>(k', c'). c \<le> c') (top_menu_items os)"
proof -
  have "snd (k, c) \<le> snd y" if "y \<in> set (top_menu_items os)" for y
    using take_sort_desc_top [OF assms(1) _ that [unfolded top_menu_items_def]] assms(2)
    by (simp add: top_menu_items_def)
  then show ?thesis by (auto simp: list_all_iff)
qed

theorem top_menu_items_top_witness:
  "(''jus'', 1) \<in> set (menu_counts [(default_order (mk_dt 2024 1 15 10 30 0))\<lparr>items := ''teh, kopi, teh, nasi, mie, ayam, jus''\<rparr>])
   \<and> (''jus'', 1) \<notin> set (top_menu_items [(default_order (mk_dt 2024 1 15 10 30 0))\<lparr>items := ''teh, kopi, teh, nasi, mie, ayam, jus''\<rparr>])
   \<and> list_all (\<lambda>(k', c'). 1 \<le> c') (top_menu_items [(default_order (mk_dt 2024 1 15 10 30 0))\<lparr>items := ''teh, kopi, teh, nasi, mie, ayam, jus''\<rparr>])"
proof -
  let ?os = "[(default_order (mk_dt 2024 1 15 10 30 0))\<lparr>items := ''teh, kopi, teh, nasi, mie, ayam, jus''\<rparr>]"
  have mc: "menu_counts ?os = [(''teh'', 2), (''kopi'', 1), (''nasi'', 1), (''mie'', 1), (''ayam'', 1), (''jus'', 1)]"
    by (simp add: menu_counts_def clean_item_def py_simps)
  have h1: "(''jus'', 1) \<in> set (menu_counts ?os)" unfolding mc by simp
  have h2: "(''jus'', 1) \<notin> set (top_menu_items ?os)" unfolding top_menu_items_def mc by (simp add: py_simps)
  show ?thesis using h1 h2 top_menu_items_top [OF h1 h2] by blast
qed

text \<open>C30. For orders with valid timestamps the hour histogram has the 24 hours in
  order, and its counts add up to the number of orders.\<close>

theorem hour_counts_total:
  assumes "list_all (\<lambda>od. valid_datetime (created_at od)) os"
  shows "map fst (hour_counts os) = [0..<24] \<and> sum_list (map snd (hour_counts os)) = length os"
proof -
  have "set (map (\<lambda>od. hour (created_at od)) os) \<subseteq> set [0..<24]"
    using assms by (auto simp: list_all_iff valid_datetime_def)
  then have "sum_list (map (count_list (map (\<lambda>od. hour (created_at od)) os)) [0..<24]) = length os"
    using sum_count_list [of "[0..<24]"] by simp
  then show ?thesis by (simp add: hour_counts_def comp_def)
qed

theorem hour_counts_total_witness:
  "list_all (\<lambda>od. valid_datetime (created_at od)) [default_order (mk_dt 2024 1 15 10 30 0), default_order (mk_dt 2024 1 15 23 5 0)]
   \<and> sum_list (map snd (hour_counts [default_order (mk_dt 2024 1 15 10 30 0), default_order (mk_dt 2024 1 15 23 5 0)])) = 2"
proof -
  have h: "list_all (\<lambda>od. valid_datetime (created_at od)) [default_order (mk_dt 2024 1 15 10 30 0), default_order (mk_dt 2024 1 15 23 5 0)]"
    by (simp add: default_order_def make_order_def mk_dt_def valid_datetime_def days_in_month_def is_leap_def)
  show ?thesis using h hour_counts_total [OF h] by simp
qed

text \<open>C31. The orders tab raises \<open>ValueError\<close> exactly when some listed order has a
  status outside the five options of the selectbox; otherwise each selectbox is
  preselected at the order's own status.\<close>

theorem status_widgets_spec:
  "(case status_widgets os of
      Inl e \<Rightarrow> \<not> list_all (\<lambda>od. status od \<in> set order_statuses) os
    | Inr idx \<Rightarrow> map (\<lambda>i. order_statuses ! i) idx = map status os)"
  using status_widgets_Inl [of os] status_widgets_Inr [of os] by (simp split: sum.split)

text \<open>C32. The daily revenue chart distributes the revenue over distinct dates: its
  values add up to the revenue of the metric.\<close>

theorem daily_revenue_total:
  "sum_list (map snd (daily_revenue os)) = revenue os \<and> distinct (map fst (daily_revenue os))"
  by (simp add: daily_revenue_group_sum sum_group_sum revenue_def)

end
