(* ===== verification/Export.thy ===== *)
theory Export
  imports Dashboard
begin

text \<open>
  The CSV export of the store, \<open>DatabaseManager.export_orders_to_csv\<close>
  (\<open>src/utils/database.py\<close>): every order read by \<open>get_all_orders\<close> becomes a row of
  a data frame, written by \<open>DataFrame.to_csv(index=False)\<close> with the \<open>csv\<close> module's
  minimal quoting (a field is quoted when it contains a comma, a double quote or a line
  break, and a double quote inside it is doubled) and one line per record. The writing of
  the file is I/O; the model computes its text. A reader of CSV records and an importer of
  the columns back into orders are the reference the export is proved against: the file
  loses nothing of the orders it was written from.
\<close>

section \<open>The CSV writer\<close>

definition dquote :: char where
  "dquote = CHR 0x22"

definition csv_special :: "char \<Rightarrow> bool" where
  "csv_special c \<longleftrightarrow> c = CHR '','' \<or> c = dquote \<or> c = CHR 0x0A \<or> c = CHR 0x0D"

definition csv_escape :: "string \<Rightarrow> string" where
  "csv_escape s = concat (map (\<lambda>c. if c = dquote then [dquote, dquote] else [c]) s)"

definition csv_field :: "string \<Rightarrow> string" where
  "csv_field s = (if list_ex csv_special s then dquote # csv_escape s @ [dquote] else s)"

definition csv_line :: "string list \<Rightarrow> string" where
  "csv_line fs = py_join CHR '','' (map csv_field fs)"

text \<open>\<open>str\<close> of a Python \<open>int\<close>, and of the \<open>float\<close> the \<open>REAL\<close> column returns for a
  whole amount (\<open>55000.0\<close>).\<close>

definition show_int :: "int \<Rightarrow> string" where
  "show_int i = (if i < 0 then CHR ''-'' # show_nat (nat (- i)) else show_nat (nat i))"

definition show_float_whole :: "int \<Rightarrow> string" where
  "show_float_whole i = show_int i @ ''.0''"

section \<open>\<open>export_orders_to_csv\<close>\<close>

definition export_header :: "string list" where
  "export_header = [''ID'', ''Nama Pelanggan'', ''WhatsApp'', ''Alamat'', ''Items'', ''Total'', ''Status'', ''Tanggal'']"

text \<open>pandas writes a datetime column in one format for all its values: the date alone
  when every value is at midnight, otherwise the date and the time, with microseconds on
  every value when any value has them.\<close>

definition column_dates_only :: "order list \<Rightarrow> bool" where
  "column_dates_only os \<longleftrightarrow>
     list_all (\<lambda>od. hour (created_at od) = 0 \<and> minute (created_at od) = 0 \<and> second (created_at od) = 0
                   \<and> microsecond (created_at od) = 0) os"

definition column_show_us :: "order list \<Rightarrow> bool" where
  "column_show_us os \<longleftrightarrow> list_ex (\<lambda>od. microsecond (created_at od) \<noteq> 0) os"

definition pandas_datetime :: "bool \<Rightarrow> bool \<Rightarrow> datetime \<Rightarrow> string" where
  "pandas_datetime dates_only show_us dt =
     (if dates_only then strftime_date dt
      else strftime_date dt @ '' '' @ pad_nat 2 (hour dt) @ '':'' @ pad_nat 2 (minute dt) @ '':''
           @ pad_nat 2 (second dt) @ (if show_us then ''.'' @ pad_nat 6 (microsecond dt) else []))"

text \<open>One dict of \<open>orders_data\<close>: the id of an order read from the store is always
  present; the timestamp is written in the format of its column.\<close>

definition export_row :: "bool \<Rightarrow> bool \<Rightarrow> order \<Rightarrow> string list" where
  "export_row dates_only show_us od =
     [(case order_id od of Some i \<Rightarrow> show_nat i | None \<Rightarrow> []), customer_name od, customer_wa od,
      customer_address od, items od, show_float_whole (total od), status od,
      pandas_datetime dates_only show_us (created_at od)]"

text \<open>The file's text. With no orders the data frame has no columns, and only the
  line terminator is written.\<close>

definition export_csv :: "db \<Rightarrow> py_error + string" where
  "export_csv d =
     py_bind (get_all_orders d) (\<lambda>orders.
       Inr (if orders = [] then [CHR 0x0A]
            else concat (map (\<lambda>fs. csv_line fs @ [CHR 0x0A])
              (export_header # map (export_row (column_dates_only orders) (column_show_us orders)) orders))))"

section \<open>A CSV reader and an importer\<close>

text \<open>The reader's states: at the start of a field, inside an unquoted field, inside a
  quoted field, and just after a double quote inside a quoted field. A line break outside
  quotes ends the record; a blank line is skipped.\<close>

datatype csv_state = FieldStart | Unquoted | Quoted | QuoteInQuoted

fun csv_scan ::
  "csv_state \<Rightarrow> string \<Rightarrow> string list \<Rightarrow> string list list \<Rightarrow> string \<Rightarrow> string list list option" where
  "csv_scan st f acc recs [] =
     (if st = Quoted then None
      else if st = FieldStart \<and> acc = [] then Some recs
      else Some (recs @ [acc @ [f]]))"
| "csv_scan FieldStart f acc recs (c # cs) =
     (if c = dquote then csv_scan Quoted [] acc recs cs
      else if c = CHR '','' then csv_scan FieldStart [] (acc @ [f]) recs cs
      else if c = CHR 0x0A then
        (if acc = [] then csv_scan FieldStart [] [] recs cs
         else csv_scan FieldStart [] [] (recs @ [acc @ [f]]) cs)
      else csv_scan Unquoted (f @ [c]) acc recs cs)"
| "csv_scan Unquoted f acc recs (c # cs) =
     (if c = CHR '','' then csv_scan FieldStart [] (acc @ [f]) recs cs
      else if c = CHR 0x0A then csv_scan FieldStart [] [] (recs @ [acc @ [f]]) cs
      else csv_scan Unquoted (f @ [c]) acc recs cs)"
| "csv_scan Quoted f acc recs (c # cs) =
     (if c = dquote then csv_scan QuoteInQuoted f acc recs cs else csv_scan Quoted (f @ [c]) acc recs cs)"
| "csv_scan QuoteInQuoted f acc recs (c # cs) =
     (if c = dquote then csv_scan Quoted (f @ [dquote]) acc recs cs
      else if c = CHR '','' then csv_scan FieldStart [] (acc @ [f]) recs cs
      else if c = CHR 0x0A then csv_scan FieldStart [] [] (recs @ [acc @ [f]]) cs
      else None)"

definition csv_read_file :: "string \<Rightarrow> string list list option" where
  "csv_read_file s = csv_scan FieldStart [] [] [] s"

text \<open>The columns read back: the id, the total as the float text, and the timestamp in
  either of the column's formats without microseconds.\<close>

definition read_id :: "string \<Rightarrow> nat option" where
  "read_id s = (if s \<noteq> [] \<and> list_all is_digit s then Some (parse_nat s) else None)"

definition read_total :: "string \<Rightarrow> int option" where
  "read_total s =
     (let neg = (s \<noteq> [] \<and> hd s = CHR ''-''); ds = (if neg then tl s else s); n = takeWhile is_digit ds in
      if n \<noteq> [] \<and> drop (length n) ds = ''.0'' then Some ((if neg then -1 else 1) * int (parse_nat n)) else None)"

definition read_timestamp :: "string \<Rightarrow> datetime option" where
  "read_timestamp s =
     (let ys = takeWhile is_digit s in
      if ys = [] then None else do {
        s \<leftarrow> lit_char CHR ''-'' (drop (length ys) s);
        (mo, s) \<leftarrow> num_field 2 s; s \<leftarrow> lit_char CHR ''-'' s;
        (d, s) \<leftarrow> num_field 2 s;
        if s = [] then Some (mk_dt (parse_nat ys) mo d 0 0 0) else do {
          s \<leftarrow> lit_char CHR '' '' s;
          (h, s) \<leftarrow> num_field 2 s; s \<leftarrow> lit_char CHR '':'' s;
          (mi, s) \<leftarrow> num_field 2 s; s \<leftarrow> lit_char CHR '':'' s;
          (se, s) \<leftarrow> num_field 2 s;
          if s = [] then Some (mk_dt (parse_nat ys) mo d h mi se) else None
        }
      })"

fun import_record :: "string list \<Rightarrow> order option" where
  "import_record [i, n, wa, a, its, t, st, c] = do {
     oid \<leftarrow> read_id i; tot \<leftarrow> read_total t; dt \<leftarrow> read_timestamp c;
     Some \<lparr>order_id = Some oid, customer_name = n, customer_wa = wa, customer_address = a,
           items = its, total = tot, status = st, created_at = dt\<rparr>
   }"
| "import_record _ = None"

definition import_csv :: "string \<Rightarrow> order list option" where
  "import_csv s = do {
     recs \<leftarrow> csv_read_file s;
     (case recs of
        [] \<Rightarrow> Some []
      | hdr # rows \<Rightarrow> if hdr = export_header then those (map import_record rows) else None)
   }"

section \<open>The reader reads what the writer writes\<close>

lemma scan_unquoted:
  "list_all (\<lambda>c. c \<noteq> CHR '','' \<and> c \<noteq> CHR 0x0A) s \<Longrightarrow>
   csv_scan Unquoted g acc recs (s @ rest) = csv_scan Unquoted (g @ s) acc recs rest"
  by (induction s arbitrary: g) auto

lemma scan_quoted:
  "csv_scan Quoted g acc recs (csv_escape s @ dquote # rest) = csv_scan QuoteInQuoted (g @ s) acc recs rest"
  by (induction s arbitrary: g) (auto simp: csv_escape_def)

lemma scan_plain:
  assumes "\<not> list_ex csv_special (c # s)"
  shows "csv_scan FieldStart [] acc recs (c # s @ rest) = csv_scan Unquoted (c # s) acc recs rest"
proof -
  have "c \<noteq> dquote" "c \<noteq> CHR '',''" "c \<noteq> CHR 0x0A"
    "list_all (\<lambda>c. c \<noteq> CHR '','' \<and> c \<noteq> CHR 0x0A) s"
    using assms by (auto simp: csv_special_def list_ex_iff list_all_iff)
  then show ?thesis by (simp add: scan_unquoted)
qed

lemma scan_field_sep:
  "csv_scan FieldStart [] acc recs (csv_field s @ CHR '','' # r) = csv_scan FieldStart [] (acc @ [s]) recs r"
proof (cases "list_ex csv_special s")
  case True
  then show ?thesis
    using scan_quoted [of "[]" acc recs s "CHR '','' # r"] by (simp add: csv_field_def dquote_def)
next
  case False
  then show ?thesis
    using scan_plain [of _ _ acc recs "CHR '','' # r"] by (cases s) (auto simp: csv_field_def dquote_def)
qed

lemma scan_field_eol:
  "acc \<noteq> [] \<Longrightarrow>
   csv_scan FieldStart [] acc recs (csv_field s @ CHR 0x0A # r) = csv_scan FieldStart [] [] (recs @ [acc @ [s]]) r"
proof (cases "list_ex csv_special s")
  case True
  then show "acc \<noteq> [] \<Longrightarrow> ?thesis"
    using scan_quoted [of "[]" acc recs s "CHR 0x0A # r"] by (simp add: csv_field_def dquote_def)
next
  case False
  then show "acc \<noteq> [] \<Longrightarrow> ?thesis"
    using scan_plain [of _ _ acc recs "CHR 0x0A # r"] by (cases s) (auto simp: csv_field_def dquote_def)
qed

lemma scan_line:
  "fs \<noteq> [] \<Longrightarrow> acc \<noteq> [] \<or> tl fs \<noteq> [] \<Longrightarrow>
   csv_scan FieldStart [] acc recs (csv_line fs @ CHR 0x0A # r) = csv_scan FieldStart [] [] (recs @ [acc @ fs]) r"
proof (induction fs arbitrary: acc)
  case Nil
  then show ?case by simp
next
  case (Cons f fs)
  show ?case
  proof (cases fs)
    case Nil
    then show ?thesis using Cons.prems by (simp add: csv_line_def scan_field_eol)
  next
    case (Cons g gs)
    then have "csv_line (f # fs) @ CHR 0x0A # r = csv_field f @ CHR '','' # (csv_line fs @ CHR 0x0A # r)"
      by (simp add: csv_line_def)
    then show ?thesis using Cons.IH [of "acc @ [f]"] Cons by (simp add: scan_field_sep)
  qed
qed

lemma scan_lines:
  "list_all (\<lambda>fs. 2 \<le> length fs) rows \<Longrightarrow>
   csv_scan FieldStart [] [] recs (concat (map (\<lambda>fs. csv_line fs @ [CHR 0x0A]) rows)) = Some (recs @ rows)"
proof (induction rows arbitrary: recs)
  case Nil
  then show ?case by simp
next
  case (Cons fs rows)
  then obtain a b rest where "fs = a # b # rest"
    by (cases fs; cases "tl fs") auto
  then have "fs \<noteq> []" "tl fs \<noteq> []" by simp_all
  then show ?case using Cons scan_line [of fs "[]" recs] by simp
qed

lemma read_id_show_nat: "read_id (show_nat i) = Some i"
  by (simp add: read_id_def list_all_iff show_nat_digits parse_show_nat)

lemma takeWhile_show_nat: "\<not> is_digit c \<Longrightarrow> takeWhile is_digit (show_nat n @ c # r) = show_nat n"
  by (simp add: takeWhile_append2 show_nat_digits)

lemma read_total_show_float: "read_total (show_float_whole t) = Some t"
proof (cases "t < 0")
  case True
  then show ?thesis
    by (simp add: read_total_def show_float_whole_def show_int_def takeWhile_show_nat is_digit_def parse_show_nat)
next
  case False
  obtain c cs where sn: "show_nat (nat t) = c # cs" by (cases "show_nat (nat t)") auto
  then have "c \<noteq> CHR ''-''" using show_nat_digits [of c "nat t"] by (auto simp: is_digit_def)
  with False sn show ?thesis
    using takeWhile_show_nat [of "CHR ''.''" "nat t" "''0''"]
    by (simp add: read_total_def show_float_whole_def show_int_def is_digit_def parse_show_nat [of "nat t", unfolded sn])
qed

lemma num_field_pad_Nil: "n < 10 ^ w \<Longrightarrow> 0 < w \<Longrightarrow> num_field w (pad_nat w n) = Some (n, [])"
  using num_field_pad [of n w "[]"] by simp

lemma read_timestamp_pandas:
  assumes "valid_datetime dt" "microsecond dt = 0"
    and "dates_only \<Longrightarrow> hour dt = 0 \<and> minute dt = 0 \<and> second dt = 0"
  shows "read_timestamp (pandas_datetime dates_only False dt) = Some dt"
proof -
  note b = valid_datetime_widths [OF assms(1)]
  have eta: "mk_dt (year dt) (month dt) (day dt) (hour dt) (minute dt) (second dt) = dt"
    using assms(2) by (cases dt) (simp add: mk_dt_def)
  have tw: "takeWhile is_digit (strftime_date dt @ r) = show_nat (year dt)" for r
    by (simp add: strftime_date_def takeWhile_show_nat is_digit_def)
  have dr: "drop (length (show_nat (year dt))) (strftime_date dt @ r)
      = CHR ''-'' # pad_nat 2 (month dt) @ CHR ''-'' # pad_nat 2 (day dt) @ r" for r
    by (simp add: strftime_date_def)
  show ?thesis
  proof (cases dates_only)
    case True
    then show ?thesis
      using assms(3) tw [of "[]"] dr [of "[]"] eta
      by (simp add: read_timestamp_def pandas_datetime_def num_field_pad [OF b(2)] num_field_pad_Nil [OF b(3)]
          parse_show_nat)
  next
    case False
    let ?r = "'' '' @ pad_nat 2 (hour dt) @ '':'' @ pad_nat 2 (minute dt) @ '':'' @ pad_nat 2 (second dt)"
    have "pandas_datetime dates_only False dt = strftime_date dt @ ?r"
      using False by (simp add: pandas_datetime_def)
    then show ?thesis
      using tw [of ?r] dr [of ?r] eta
      by (simp add: read_timestamp_def num_field_pad [OF b(2)] num_field_pad [OF b(3)] num_field_pad [OF b(4)]
          num_field_pad [OF b(5)] num_field_pad_Nil [OF b(6)] parse_show_nat)
  qed
qed

lemma import_export_row:
  assumes "order_id od = Some i" "valid_datetime (created_at od)" "microsecond (created_at od) = 0"
    and "dates_only \<Longrightarrow> hour (created_at od) = 0 \<and> minute (created_at od) = 0 \<and> second (created_at od) = 0"
  shows "import_record (export_row dates_only False od) = Some od"
  using assms read_timestamp_pandas [OF assms(2,3,4)]
  by (cases od) (simp add: export_row_def read_id_show_nat read_total_show_float)

lemma those_map_Some [simp]: "those (map Some xs) = Some xs"
  by (induction xs) auto

lemma get_all_orders_wf:
  "get_all_orders d = Inr os \<Longrightarrow>
   list_all (\<lambda>od. order_id od \<noteq> None \<and> valid_datetime (created_at od) \<and> microsecond (created_at od) = 0) os"
  unfolding get_all_orders_def list_all_iff
  by (fastforce dest: map_result_Inr_image strptime_Some simp: order_of_row_def split: option.splits)

section \<open>Properties\<close>

text \<open>C8. The export loses nothing: the file \<open>export_orders_to_csv\<close> writes, read back
  as CSV records and imported column by column, gives exactly the orders
  \<open>get_all_orders\<close> read, in the same order. Fields with commas (the item lists),
  quotes or line breaks survive the quoting, the total survives as float text, and the
  timestamp survives in both of pandas' formats of the column (the date alone when every
  order is at midnight); an empty store gives a file with no records.\<close>

theorem export_import_roundtrip:
  assumes "get_all_orders d = Inr os"
  shows "\<exists>t. export_csv d = Inr t \<and> import_csv t = Some os"
proof (cases "os = []")
  case True
  then show ?thesis using assms by (simp add: export_csv_def import_csv_def csv_read_file_def dquote_def)
next
  case False
  let ?rows = "map (export_row (column_dates_only os) (column_show_us os)) os"
  have wf: "list_all (\<lambda>od. order_id od \<noteq> None \<and> valid_datetime (created_at od) \<and> microsecond (created_at od) = 0) os"
    using get_all_orders_wf [OF assms] .
  then have us: "column_show_us os = False" by (auto simp: column_show_us_def list_ex_iff list_all_iff)
  have len: "list_all (\<lambda>fs. 2 \<le> length fs) (export_header # ?rows)"
    by (simp add: export_header_def export_row_def list_all_iff)
  have one: "import_record (export_row (column_dates_only os) False od) = Some od" if "od \<in> set os" for od
  proof -
    from that wf obtain i where "order_id od = Some i" "valid_datetime (created_at od)" "microsecond (created_at od) = 0"
      by (auto simp: list_all_iff)
    moreover have "column_dates_only os \<Longrightarrow> hour (created_at od) = 0 \<and> minute (created_at od) = 0 \<and> second (created_at od) = 0"
      using that by (auto simp: column_dates_only_def list_all_iff)
    ultimately show ?thesis by (rule import_export_row)
  qed
  have imp: "map (import_record \<circ> export_row (column_dates_only os) (column_show_us os)) os = map Some os"
    unfolding us by (rule map_cong) (simp_all add: one)
  then have th: "those (map (import_record \<circ> export_row (column_dates_only os) (column_show_us os)) os) = Some os"
    by (simp only: those_map_Some)
  show ?thesis
    using False assms scan_lines [OF len, of "[]"] by (simp add: export_csv_def import_csv_def csv_read_file_def th)
qed

theorem export_import_roundtrip_witness:
  "\<exists>os. get_all_orders (init_sample_data empty_db) = Inr os \<and> length os = 4
      \<and> (\<exists>t. export_csv (init_sample_data empty_db) = Inr t \<and> import_csv t = Some os)"
proof -
  obtain os where os: "get_all_orders (init_sample_data empty_db) = Inr os"
      "map order_id os = [Some 3, Some 2, Some 1, Some 4]"
    using sample_data_most_recent_first [of empty_db] by auto
  from arg_cong [OF os(2), of length] have "length os = 4" by simp
  then show ?thesis using os(1) export_import_roundtrip [OF os(1)] by blast
qed

end
