(* ===== verification/AppSession.thy ===== *)
theory AppSession
  imports Dashboard Export MessageProcessor
begin

text \<open>
  A session of the dashboard, \<open>src/app.py\<close>: the buttons that change the store
  ("Perbarui Status" of an order with the status chosen in its selectbox, "Initialize
  Sample Data", the two export buttons), the store the app starts from, and the text the
  script shows besides the numbers of \<open>Dashboard\<close>: the title and details of an order
  in the orders tab, the rows of the raw data table, and the replies of the message tab.
  It also holds the run that follows a click: the handler runs only when the run gets
  as far as its button, and the \<open>st.rerun()\<close> of the handlers that change the store
  makes the runs a loop in the option monad (\<open>app_run\<close>).
  The theory shows that the store such a session produces is well-typed (every status one
  of the five options, every timestamp readable), that on a well-typed store every
  run of the script and every export succeeds, and that a status update is shown on the
  page the click settles on.
\<close>

section \<open>Button actions\<close>

text \<open>The actions of a run. A status update passes the selectbox's choice, an index
  into the five options; the export writes a file and leaves the store as it is.\<close>

datatype dash_action = BtnUpdateStatus nat nat | BtnInitSample | BtnExport

fun dash_action_ok :: "dash_action \<Rightarrow> bool" where
  "dash_action_ok (BtnUpdateStatus i k) = (k < length order_statuses)"
| "dash_action_ok BtnInitSample = True"
| "dash_action_ok BtnExport = True"

fun dash_step :: "db \<Rightarrow> dash_action \<Rightarrow> db" where
  "dash_step d (BtnUpdateStatus i k) = update_order_status i (order_statuses ! k) d"
| "dash_step d BtnInitSample = init_sample_data d"
| "dash_step d BtnExport = d"

text \<open>The stores a session reaches: \<open>DatabaseManager()\<close> creates the table in a new
  database file, then any sequence of button actions.\<close>

inductive dash_reach :: "db \<Rightarrow> bool" where
  fresh: "dash_reach empty_db"
| click: "dash_reach d \<Longrightarrow> dash_action_ok a \<Longrightarrow> dash_reach (dash_step d a)"

text \<open>A well-typed row: its status is one of the selectbox's options and its timestamp
  text is one \<open>get_all_orders\<close> can parse.\<close>

definition row_ok :: "row \<Rightarrow> bool" where
  "row_ok r \<longleftrightarrow> row_status r \<in> set order_statuses \<and> strptime (row_created_at r) \<noteq> None"

definition store_ok :: "db \<Rightarrow> bool" where
  "store_ok d \<longleftrightarrow> list_all row_ok (db_rows d)"

section \<open>The rerun loop\<close>

text \<open>A run of the script after a click. Streamlit executes \<open>app.py\<close> from the top
  with the clicked button's \<open>st.button\<close> returning \<open>True\<close>, so the handler runs
  only when the run gets as far as the button: the reads above it must not raise, and the
  button must be on the page again. Above the buttons are the sidebar's two reads
  (lines 56-57), the three of the first tab (67, 72, 83), the orders of the second tab
  (105/107), and the status selectbox of every order listed before the button; the tab 4
  buttons come after the whole orders loop, as the message tab reads nothing.\<close>

definition reads_before_orders :: "datetime \<Rightarrow> string \<Rightarrow> db \<Rightarrow> py_error + order list" where
  "reads_before_orders now selected d =
     py_bind (get_today_orders now d) (\<lambda>_. py_bind (get_pending_orders d) (\<lambda>_.
     py_bind (get_today_orders now d) (\<lambda>_. py_bind (get_monthly_orders now d) (\<lambda>_.
     py_bind (get_weekly_orders now d) (\<lambda>_. orders_tab selected d)))))"

text \<open>Whether the run reaches the "Perbarui Status" button of order \<open>i\<close>: the orders
  loop draws the expanders in order, each with its selectbox (\<open>list.index\<close>), up to
  the one of order \<open>i\<close>; when order \<open>i\<close> is not listed, the loop runs to its end and
  no such button is drawn.\<close>

definition update_button_reached :: "datetime \<Rightarrow> string \<Rightarrow> nat \<Rightarrow> db \<Rightarrow> py_error + bool" where
  "update_button_reached now selected i d =
     py_bind (reads_before_orders now selected d) (\<lambda>orders.
       let before = takeWhile (\<lambda>od. order_id od \<noteq> Some i) orders in
       if length before < length orders
       then py_bind (status_widgets (take (Suc (length before)) orders)) (\<lambda>_. Inr True)
       else py_bind (status_widgets orders) (\<lambda>_. Inr False))"

definition tab4_buttons_reached :: "datetime \<Rightarrow> string \<Rightarrow> db \<Rightarrow> py_error + unit" where
  "tab4_buttons_reached now selected d =
     py_bind (reads_before_orders now selected d) (\<lambda>orders. py_bind (status_widgets orders) (\<lambda>_. Inr ()))"

text \<open>The handlers of "Perbarui Status" and "Initialize Sample Data" change the store and
  call \<open>st.rerun()\<close>, which abandons the run and starts the script again, now with no
  button pressed; the page the user sees is the one of that last run. The export button's
  handler writes the file and the run goes on below it. A run that stops at an exception
  shows it, with the store unchanged. The loop of reruns is a \<open>partial_function\<close> in
  the option monad, a run that never settled being \<open>None\<close>. The result is the page (or
  the exception the run stops at) together with the store the run leaves.\<close>

partial_function (option) app_run ::
  "datetime \<Rightarrow> string \<Rightarrow> dash_action option \<Rightarrow> db \<Rightarrow> ((py_error + dashboard_view) \<times> db) option"
where
  "app_run now selected click d =
     (case click of
        None \<Rightarrow> Some (render_dashboard now selected d, d)
      | Some (BtnUpdateStatus i k) \<Rightarrow>
          (case update_button_reached now selected i d of
             Inl e \<Rightarrow> Some (Inl e, d)
           | Inr shown \<Rightarrow>
               if shown then app_run now selected None (dash_step d (BtnUpdateStatus i k))
               else Some (render_dashboard now selected d, d))
      | Some BtnInitSample \<Rightarrow>
          (case tab4_buttons_reached now selected d of
             Inl e \<Rightarrow> Some (Inl e, d)
           | Inr _ \<Rightarrow> app_run now selected None (dash_step d BtnInitSample))
      | Some BtnExport \<Rightarrow>
          (case tab4_buttons_reached now selected d of
             Inl e \<Rightarrow> Some (Inl e, d)
           | Inr _ \<Rightarrow> Some (py_bind (export_csv d) (\<lambda>t. render_dashboard now selected d), d)))"

section \<open>The orders tab's text\<close>

text \<open>\<open>strftime('%d/%m/%Y %H:%M')\<close> and \<open>strftime('%Y-%m-%d %H:%M')\<close>.\<close>

definition strftime_dmy_hm :: "datetime \<Rightarrow> string" where
  "strftime_dmy_hm dt =
     pad_nat 2 (day dt) @ ''/'' @ pad_nat 2 (month dt) @ ''/'' @ show_nat (year dt) @ '' ''
     @ pad_nat 2 (hour dt) @ '':'' @ pad_nat 2 (minute dt)"

definition strftime_ymd_hm :: "datetime \<Rightarrow> string" where
  "strftime_ymd_hm dt = strftime_date dt @ '' '' @ pad_nat 2 (hour dt) @ '':'' @ pad_nat 2 (minute dt)"

text \<open>\<open>f"{order.total:,.0f}"\<close> of a whole amount.\<close>

definition fmt_rp :: "int \<Rightarrow> string" where
  "fmt_rp t = (if t < 0 then CHR ''-'' # fmt_comma (nat (- t)) else fmt_comma (nat t))"

text \<open>The expander's title \<open>f"Pesanan #{order.id} - {order.customer_name} - {order.status}"\<close>.\<close>

definition order_title :: "order \<Rightarrow> string" where
  "order_title od =
     ''Pesanan #'' @ (case order_id od of Some i \<Rightarrow> show_nat i | None \<Rightarrow> ''None'') @ '' - ''
     @ customer_name od @ '' - '' @ status od"

text \<open>The lines \<open>st.write\<close> shows in the two columns of the expander.\<close>

definition order_details :: "order \<Rightarrow> string list" where
  "order_details od =
     [''**Pelanggan:** '' @ customer_name od, ''**WhatsApp:** '' @ customer_wa od,
      ''**Alamat:** '' @ customer_address od, ''**Tanggal:** '' @ strftime_dmy_hm (created_at od),
      ''**Items:** '' @ items od, ''**Total:** Rp '' @ fmt_rp (total od), ''**Status:** '' @ status od]"

text \<open>A row of the raw data table of the analytics tab.\<close>

record table_row =
  tr_id :: "nat option"
  tr_pelanggan :: string
  tr_whatsapp :: string
  tr_items :: string
  tr_total :: int
  tr_status :: string
  tr_tanggal :: string

definition orders_table_row :: "order \<Rightarrow> table_row" where
  "orders_table_row od =
     \<lparr>tr_id = order_id od, tr_pelanggan = customer_name od, tr_whatsapp = customer_wa od,
      tr_items = items od, tr_total = total od, tr_status = status od,
      tr_tanggal = strftime_ymd_hm (created_at od)\<rparr>"

section \<open>The message tab\<close>

text \<open>The demo messages (sender, body, timestamp) and the reply of its
  "Proses Pesan" button, \<open>message_processor.process_message(msg['body'], msg['from'])\<close>.\<close>

definition sample_messages :: "(string \<times> string \<times> string) list" where
  "sample_messages =
     [(''+628123456789'', ''Halo, saya ingin memesan nasi goreng'', ''2023-10-15 10:30:15''),
      (''+628987654321'', ''Apakah masih buka? Saya mau pesan ayam bakar'', ''2023-10-15 10:25:42''),
      (''+628112233445'', ''Pesanan saya kapan sampai?'', ''2023-10-15 09:45:18'')]"

definition process_sample :: "message_processor \<Rightarrow> string \<times> string \<times> string \<Rightarrow> string" where
  "process_sample mp msg = (case msg of (sender, body, timestamp) \<Rightarrow> process_message mp body sender)"

section \<open>Lemmas\<close>

lemma store_ok_empty: "store_ok empty_db"
  by (simp add: store_ok_def empty_db_def)

lemma store_ok_update: "store_ok d \<Longrightarrow> st \<in> set order_statuses \<Longrightarrow> store_ok (update_order_status i st d)"
  by (auto simp: store_ok_def row_ok_def update_order_status_def list_all_iff)

lemma store_ok_init_sample: "store_ok (init_sample_data d)"
  by (simp add: store_ok_def row_ok_def init_sample_data_def sample_orders_def insert_row_def Let_def
      next_rowid_def empty_db_def order_statuses_def strptime_def num_field_def blanks1_def
      valid_datetime_def days_in_month_def is_leap_def py_simps)

lemma store_ok_dash_step: "store_ok d \<Longrightarrow> dash_action_ok a \<Longrightarrow> store_ok (dash_step d a)"
  by (cases a) (auto intro: store_ok_update store_ok_init_sample)

lemma order_of_row_ok: "row_ok r \<Longrightarrow> \<exists>od. order_of_row r = Inr od \<and> status od \<in> set order_statuses"
  by (auto simp: row_ok_def order_of_row_def split: option.split)

lemma get_all_orders_ok:
  "store_ok d \<Longrightarrow> \<exists>os. get_all_orders d = Inr os \<and> list_all (\<lambda>od. status od \<in> set order_statuses) os"
  unfolding get_all_orders_def
  by (rule map_result_Inr_all) (auto simp: store_ok_def list_all_iff dest: order_of_row_ok)

lemma orders_tab_ok:
  assumes "get_all_orders d = Inr os" "list_all (\<lambda>od. status od \<in> set order_statuses) os"
  shows "\<exists>os'. orders_tab selected d = Inr os' \<and> list_all (\<lambda>od. status od \<in> set order_statuses) os'"
  using assms by (auto simp: orders_tab_def get_orders_by_status_def query_def status_filter_def list_all_iff)

lemma status_widgets_ok:
  "list_all (\<lambda>od. status od \<in> set order_statuses) os \<Longrightarrow> \<exists>idx. status_widgets os = Inr idx"
  using status_widgets_Inl [of os] by (cases "status_widgets os") auto

lemma app_run_None [simp]: "app_run now selected None d = Some (render_dashboard now selected d, d)"
  by (simp add: app_run.simps)

lemma render_dashboard_ok:
  assumes "store_ok d"
  shows "\<exists>v. render_dashboard now selected d = Inr v \<and> orders_tab selected d = Inr (dv_orders v)"
proof -
  obtain os where os: "get_all_orders d = Inr os" "list_all (\<lambda>od. status od \<in> set order_statuses) os"
    using get_all_orders_ok [OF assms] by blast
  obtain os' where os': "orders_tab selected d = Inr os'" "list_all (\<lambda>od. status od \<in> set order_statuses) os'"
    using orders_tab_ok [OF os] by blast
  obtain idx where idx: "status_widgets os' = Inr idx"
    using status_widgets_ok [OF os'(2)] by blast
  show ?thesis
    using os(1) os'(1) idx
    by (simp add: render_dashboard_def get_today_orders_def get_pending_orders_def get_monthly_orders_def
        get_weekly_orders_def get_orders_by_status_count_def get_top_customers_def query_def avg_order_value_Inr)
qed

lemma get_all_orders_shows_row:
  assumes "get_all_orders d = Inr os" "r \<in> set (db_rows d)"
  shows "list_ex (\<lambda>od. order_id od = Some (row_id r) \<and> status od = row_status r) os"
proof -
  obtain od where od: "od \<in> set os" "order_of_row r = Inr od"
    using map_result_Inr_mem [of order_of_row "sort_desc row_created_at (db_rows d)" os r] assms
    by (auto simp: get_all_orders_def)
  from od(2) have "order_id od = Some (row_id r) \<and> status od = row_status r"
    by (auto simp: order_of_row_def split: option.splits)
  with od(1) show ?thesis by (auto simp: list_ex_iff)
qed

lemma update_order_status_row:
  "r \<in> set (db_rows d) \<Longrightarrow> row_id r = i \<Longrightarrow> r\<lparr>row_status := st\<rparr> \<in> set (db_rows (update_order_status i st d))"
  by (force simp: update_order_status_def)

lemma app_run_update_reached:
  "update_button_reached now selected i d = Inr True \<Longrightarrow>
   app_run now selected (Some (BtnUpdateStatus i k)) d =
     Some (render_dashboard now selected (dash_step d (BtnUpdateStatus i k)), dash_step d (BtnUpdateStatus i k))"
  by (subst app_run.simps) simp

lemma update_button_reached_ok:
  assumes "store_ok d" "i \<in> row_id ` set (db_rows d)"
  shows "update_button_reached now ''Semua'' i d = Inr True"
proof -
  obtain os where os: "get_all_orders d = Inr os" "list_all (\<lambda>od. status od \<in> set order_statuses) os"
    using get_all_orders_ok [OF assms(1)] by blast
  obtain r where r: "r \<in> set (db_rows d)" "row_id r = i" using assms(2) by blast
  have "list_ex (\<lambda>od. order_id od = Some i \<and> status od = row_status r) os"
    using get_all_orders_shows_row [OF os(1) r(1)] r(2) by simp
  then have lt: "length (takeWhile (\<lambda>od. order_id od \<noteq> Some i) os) < length os"
    by (auto simp: list_ex_iff length_takeWhile_less_iff)
  obtain idx where "status_widgets (take (Suc (length (takeWhile (\<lambda>od. order_id od \<noteq> Some i) os))) os) = Inr idx"
    using status_widgets_ok [of "take _ os"] os(2) by (meson in_set_takeD list_all_iff)
  with os(1) lt show ?thesis
    by (simp add: update_button_reached_def reads_before_orders_def orders_tab_def get_today_orders_def
        get_pending_orders_def get_monthly_orders_def get_weekly_orders_def query_def)
qed

lemma sample_replies:
  "map (process_sample new_message_processor) sample_messages =
     [generate_greeting_response ''+628123456789'', quote_text [(''ayam bakar'', 1, 35000)], not_understood_reply]"
  by (simp add: sample_messages_def process_sample_def mp_eval py_simps)

section \<open>Properties\<close>

text \<open>C15. Typing invariant of a session: in every store the dashboard's own buttons
  produce from a new database, every status is one of the five options of the status
  selectbox and every timestamp text is one \<open>get_all_orders\<close> parses.\<close>

theorem dash_reach_store_ok: "dash_reach d \<Longrightarrow> store_ok d"
  by (induction rule: dash_reach.induct) (auto intro: store_ok_empty store_ok_dash_step)

theorem dash_reach_store_ok_witness:
  "dash_reach (dash_step (dash_step empty_db BtnInitSample) (BtnUpdateStatus 2 3))
   \<and> store_ok (dash_step (dash_step empty_db BtnInitSample) (BtnUpdateStatus 2 3))"
proof -
  have h: "dash_reach (dash_step (dash_step empty_db BtnInitSample) (BtnUpdateStatus 2 3))"
    by (intro dash_reach.click dash_reach.fresh) (simp_all add: order_statuses_def)
  show ?thesis using h dash_reach_store_ok [OF h] by blast
qed

text \<open>C3. Progress: on a well-typed store every run of the dashboard script completes
  without an exception, whatever the status filter, and so does the CSV export.\<close>

theorem store_ok_renders:
  assumes "store_ok d"
  shows "(\<exists>v. render_dashboard now selected d = Inr v) \<and> (\<exists>t. export_csv d = Inr t)"
proof -
  obtain os where "get_all_orders d = Inr os"
    using get_all_orders_ok [OF assms] by blast
  then show ?thesis
    using render_dashboard_ok [OF assms, of now selected] by (auto simp: export_csv_def)
qed

theorem store_ok_renders_witness:
  "store_ok (init_sample_data empty_db)
   \<and> (\<exists>v. render_dashboard (mk_dt 2024 1 20 12 0 0) ''Semua'' (init_sample_data empty_db) = Inr v)
   \<and> (\<exists>t. export_csv (init_sample_data empty_db) = Inr t)"
  using store_ok_init_sample [of empty_db] store_ok_renders [OF store_ok_init_sample [of empty_db]] by blast

text \<open>C25. Liveness of a status update: on a well-typed store, clicking "Perbarui Status"
  for an order in the store with one of the five statuses settles on a page whose orders
  tab (filter "Semua") lists that order with the new status.\<close>

theorem update_click_shown:
  assumes "store_ok d" "k < length order_statuses" "i \<in> row_id ` set (db_rows d)"
  shows "\<exists>v. app_run now ''Semua'' (Some (BtnUpdateStatus i k)) d
               = Some (Inr v, update_order_status i (order_statuses ! k) d)
             \<and> list_ex (\<lambda>od. order_id od = Some i \<and> status od = order_statuses ! k) (dv_orders v)"
proof -
  let ?d' = "update_order_status i (order_statuses ! k) d"
  have ok: "store_ok ?d'" using assms(1,2) by (simp add: store_ok_update)
  obtain v where v: "render_dashboard now ''Semua'' ?d' = Inr v" "get_all_orders ?d' = Inr (dv_orders v)"
    using render_dashboard_ok [OF ok, of now "''Semua''"] by (auto simp: orders_tab_def)
  obtain r where r: "r \<in> set (db_rows d)" "row_id r = i" using assms(3) by blast
  have "list_ex (\<lambda>od. order_id od = Some i \<and> status od = order_statuses ! k) (dv_orders v)"
    using get_all_orders_shows_row [OF v(2) update_order_status_row [OF r]] r(2) by simp
  then show ?thesis
    using v(1) app_run_update_reached [OF update_button_reached_ok [OF assms(1,3)], of now k] by simp
qed

theorem update_click_shown_witness:
  "\<exists>v. app_run (mk_dt 2024 1 20 12 0 0) ''Semua'' (Some (BtnUpdateStatus 2 3)) (init_sample_data empty_db)
       = Some (Inr v, update_order_status 2 (order_statuses ! 3) (init_sample_data empty_db))
     \<and> list_ex (\<lambda>od. order_id od = Some 2 \<and> status od = order_statuses ! 3) (dv_orders v)"
proof -
  have i: "(2::nat) \<in> row_id ` set (db_rows (init_sample_data empty_db))"
    by (simp add: init_sample_data_def sample_orders_def insert_row_def Let_def next_rowid_def empty_db_def)
  show ?thesis
    using update_click_shown [OF store_ok_init_sample _ i, of 3 "mk_dt 2024 1 20 12 0 0"]
    by (simp add: order_statuses_def)
qed

end
