(* ===== verification/Analytics.thy ===== *)
theory Analytics
  imports AppSession
begin

text \<open>
  The analytics tab of \<open>src/app.py\<close> (tab 4, lines 180-409) as the page it shows: each
  section is either a chart of the data handed to plotly or the \<open>st.info\<close> notice its
  \<open>else\<close> branch shows, and the three detail tables. The reads of the tab are made
  again, in the script's order, so a read that raises stops the tab there. The theory
  shows that each section shows its notice exactly when it has nothing to show, and that the "no menu data" notice can never be
  shown: splitting an order's items always yields a fragment, so a non-empty order list
  always has a menu entry (the empty fragment included). The export option buttons close
  the tab: the "monthly report" writes every order, not the month's.
\<close>

section \<open>Sections of the tab\<close>

text \<open>A section shows a chart (\<open>st.plotly_chart\<close> or \<open>st.dataframe\<close>) of the data it
  was given, or the notice of its \<open>else\<close> branch.\<close>

datatype 'a panel = Chart 'a | Notice string

text \<open>Revenue trend: \<open>if daily_revenue:\<close> plot the dates against the values.\<close>

definition revenue_panel :: "order list \<Rightarrow> (string list \<times> int list) panel" where
  "revenue_panel monthly_orders =
     (let dr = daily_revenue monthly_orders in
      if dr \<noteq> [] then Chart (map fst dr, map snd dr)
      else Notice ''Belum ada data pendapatan untuk ditampilkan'')"

text \<open>Status distribution, shown as a pie and as a bar chart under the same test.\<close>

definition status_panel :: "(string \<times> nat) list \<Rightarrow> (string \<times> nat) list panel" where
  "status_panel status_counts =
     (if status_counts \<noteq> [] then Chart status_counts else Notice ''Belum ada data status pesanan'')"

text \<open>Top customers: \<open>if not top_customers.empty:\<close> the first five.\<close>

definition customers_panel :: "customer_summary list \<Rightarrow> customer_summary list panel" where
  "customers_panel tc = (if tc \<noteq> [] then Chart (top5_customers tc) else Notice ''Belum ada data pelanggan'')"

text \<open>Popular menu: \<open>if all_orders:\<close> count the fragments, then \<open>if menu_items:\<close> the
  top five.\<close>

definition menu_panel :: "order list \<Rightarrow> (string \<times> nat) list panel" where
  "menu_panel all_orders =
     (if all_orders \<noteq> []
      then (if menu_counts all_orders \<noteq> [] then Chart (top_menu_items all_orders)
            else Notice ''Belum ada data menu'')
      else Notice ''Belum ada data pesanan untuk analisis menu'')"

text \<open>Order times: \<open>if all_orders:\<close> the 24-hour histogram.\<close>

definition hour_panel :: "order list \<Rightarrow> (nat \<times> nat) list panel" where
  "hour_panel all_orders =
     (if all_orders \<noteq> [] then Chart (hour_counts all_orders) else Notice ''Belum ada data untuk analisis waktu'')"

text \<open>The detail tabs: the status counts, the full top-customer table, and the raw data.\<close>

definition detail_status_panel :: "(string \<times> nat) list \<Rightarrow> (string \<times> nat) list panel" where
  "detail_status_panel status_counts =
     (if status_counts \<noteq> [] then Chart status_counts else Notice ''Belum ada data pesanan'')"

definition detail_customers_panel :: "customer_summary list \<Rightarrow> customer_summary list panel" where
  "detail_customers_panel tc = (if tc \<noteq> [] then Chart tc else Notice ''Belum ada data pelanggan'')"

definition raw_data_panel :: "order list \<Rightarrow> table_row list panel" where
  "raw_data_panel all_orders =
     (if all_orders \<noteq> [] then Chart (map orders_table_row all_orders) else Notice ''Belum ada data pesanan'')"

section \<open>The tab\<close>

record analytics_page =
  ap_total_orders :: nat
  ap_today_count :: nat
  ap_revenue :: int
  ap_avg_order_value :: rat
  ap_revenue_trend :: "(string list \<times> int list) panel"
  ap_status_pie :: "(string \<times> nat) list panel"
  ap_status_bar :: "(string \<times> nat) list panel"
  ap_customers :: "customer_summary list panel"
  ap_menu :: "(string \<times> nat) list panel"
  ap_hours :: "(nat \<times> nat) list panel"
  ap_detail_status :: "(string \<times> nat) list panel"
  ap_detail_customers :: "customer_summary list panel"
  ap_raw_data :: "table_row list panel"

text \<open>The tab in the script's order of reads: the summary's three reads and the average
  of line 189 (a division that raises on a zero divisor, guarded by the conditional), the
  status counts and top customers of the charts, and the second reads of both in the
  detail tabs.\<close>

definition analytics_tab :: "datetime \<Rightarrow> db \<Rightarrow> py_error + analytics_page" where
  "analytics_tab now d =
     py_bind (get_all_orders d) (\<lambda>all_orders.
     py_bind (get_today_orders now d) (\<lambda>today_orders.
     py_bind (get_monthly_orders now d) (\<lambda>monthly_orders.
     py_bind (avg_order_value monthly_orders) (\<lambda>avg.
     py_bind (get_orders_by_status_count d) (\<lambda>status_counts.
     py_bind (get_top_customers d) (\<lambda>top_customers.
     py_bind (get_orders_by_status_count d) (\<lambda>status_counts2.
     py_bind (get_top_customers d) (\<lambda>top_customers2.
       Inr \<lparr>ap_total_orders = length all_orders, ap_today_count = length today_orders,
            ap_revenue = revenue monthly_orders, ap_avg_order_value = avg,
            ap_revenue_trend = revenue_panel monthly_orders,
            ap_status_pie = status_panel status_counts, ap_status_bar = status_panel status_counts,
            ap_customers = customers_panel top_customers, ap_menu = menu_panel all_orders,
            ap_hours = hour_panel all_orders, ap_detail_status = detail_status_panel status_counts2,
            ap_detail_customers = detail_customers_panel top_customers2,
            ap_raw_data = raw_data_panel all_orders\<rparr>))))))))"

section \<open>Export options\<close>

text \<open>The three buttons under "Opsi Ekspor Data": the monthly report calls
  \<open>export_orders_to_csv\<close>, which writes every order; the other two only show a notice.
  The result is the text of the file written, if any, and the message shown.\<close>

datatype export_option = ExportMonthlyReport | ExportCustomerData | ExportAnalytics

definition export_option_click :: "export_option \<Rightarrow> db \<Rightarrow> py_error + string option \<times> string" where
  "export_option_click opt d =
     (case opt of
        ExportMonthlyReport \<Rightarrow> py_bind (export_csv d) (\<lambda>text. Inr (Some text, ''Laporan bulanan berhasil diekspor!''))
      | ExportCustomerData \<Rightarrow> Inr (None, ''Fitur ekspor data pelanggan akan segera tersedia'')
      | ExportAnalytics \<Rightarrow> Inr (None, ''Fitur ekspor analytics akan segera tersedia''))"

section \<open>Lemmas\<close>

lemma menu_counts_not_Nil: "all_orders \<noteq> [] \<Longrightarrow> menu_counts all_orders \<noteq> []"
  by (cases all_orders) (simp_all add: menu_counts_group_sum)

lemma menu_counts_blank_item: "items od = [] \<Longrightarrow> menu_counts [od] = [([], 1)]"
  by (simp add: menu_counts_group_sum group_sum_def remdups_first_def clean_item_def py_simps)

lemma status_count_Nil_iff: "status_count os = [] \<longleftrightarrow> os = []"
proof
  assume e: "status_count os = []"
  show "os = []"
  proof (rule ccontr)
    assume "os \<noteq> []"
    then obtain od where "od \<in> set os" by (cases os) auto
    then have "map_of (status_count os) (status od) \<noteq> None"
      using status_count_acc [of "[]" os "status od"]
      by (auto simp: status_count_def Let_def filter_empty_conv)
    with e show False by simp
  qed
qed (simp add: status_count_def)

lemma top_customers_Nil_iff: "top_customers os = [] \<longleftrightarrow> os = []"
proof
  assume e: "top_customers os = []"
  show "os = []"
  proof (rule ccontr)
    assume "os \<noteq> []"
    then obtain od where "od \<in> set os" by (cases os) auto
    then have "map_of (customer_orders os) (customer_wa od) \<noteq> None"
      by (auto simp: customer_orders_map_of Let_def filter_empty_conv)
    then have "customer_orders os \<noteq> []" by auto
    with e show False by (simp add: top_customers_def Let_def)
  qed
qed (simp add: top_customers_def customer_orders_def)

lemma daily_revenue_Nil_iff: "daily_revenue os = [] \<longleftrightarrow> completed_orders os = []"
  by (simp add: daily_revenue_group_sum)

text \<open>Every read of the tab is a query of the orders \<open>get_all_orders\<close> returns, so
  the tab is a function of them once that read succeeds.\<close>

lemma analytics_tab_Inr:
  assumes "get_all_orders d = Inr os"
  shows "analytics_tab now d =
    Inr \<lparr>ap_total_orders = length os, ap_today_count = length (today_filter now os),
         ap_revenue = revenue (days_filter now 30 os),
         ap_avg_order_value = projr (avg_order_value (days_filter now 30 os)),
         ap_revenue_trend = revenue_panel (days_filter now 30 os),
         ap_status_pie = status_panel (status_count os), ap_status_bar = status_panel (status_count os),
         ap_customers = customers_panel (top_customers os), ap_menu = menu_panel os,
         ap_hours = hour_panel os, ap_detail_status = detail_status_panel (status_count os),
         ap_detail_customers = detail_customers_panel (top_customers os),
         ap_raw_data = raw_data_panel os\<rparr>"
  using assms
  by (simp add: analytics_tab_def get_today_orders_def get_monthly_orders_def get_orders_by_status_count_def
      get_top_customers_def query_def avg_order_value_Inr)

text \<open>The monthly report is not monthly: on the sample data, on 1 March 2024 no order
  is within the last 30 days, yet the report's file holds every order, not the empty
  file of an empty selection.\<close>

lemma monthly_report_not_monthly:
  "get_monthly_orders (mk_dt 2024 3 1 0 0 0) (init_sample_data empty_db) = Inr []
   \<and> (\<exists>t. export_option_click ExportMonthlyReport (init_sample_data empty_db)
          = Inr (Some t, ''Laporan bulanan berhasil diekspor!'') \<and> t \<noteq> [CHR 0x0A])"
proof -
  obtain os where os: "get_all_orders (init_sample_data empty_db) = Inr os" "length os = 4"
    "days_filter (mk_dt 2024 3 1 0 0 0) 30 os = []"
    by (simp add: db_eval days_filter_def timestamp_us_def toordinal_def day_us_def time_of_day_us_def mk_dt_def
        days_before_year_def days_before_month_def days_in_month_def is_leap_def py_simps)
  then show ?thesis
    by (auto simp: get_monthly_orders_def query_def export_option_click_def export_csv_def csv_line_def
        export_header_def csv_field_def csv_special_def dquote_def)
qed

section \<open>Properties\<close>

text \<open>C11. The notice "Belum ada data menu" of the popular-menu section is never shown:
  with no orders the section shows the other notice, and with orders \<open>split(',')\<close>
  yields at least one fragment, so the menu dictionary is never empty.\<close>

theorem menu_panel_no_menu_notice: "menu_panel all_orders \<noteq> Notice ''Belum ada data menu''"
  by (simp add: menu_panel_def menu_counts_not_Nil)

text \<open>C17. Whenever the store's rows can be read, the analytics tab completes (the
  average's guard keeps the division from raising when no order of the month is
  completed) and each section shows its notice exactly when it has nothing to show: the
  revenue trend when no order of the last 30 days is completed, every other section and
  detail table when there are no orders at all.\<close>

theorem analytics_tab_sections:
  assumes "get_all_orders d = Inr os"
  shows "\<exists>p. analytics_tab now d = Inr p
     \<and> (ap_revenue_trend p = Notice ''Belum ada data pendapatan untuk ditampilkan''
          \<longleftrightarrow> completed_orders (days_filter now 30 os) = [])
     \<and> (ap_status_pie p = Notice ''Belum ada data status pesanan'' \<longleftrightarrow> os = [])
     \<and> (ap_status_bar p = Notice ''Belum ada data status pesanan'' \<longleftrightarrow> os = [])
     \<and> (ap_customers p = Notice ''Belum ada data pelanggan'' \<longleftrightarrow> os = [])
     \<and> (ap_menu p = Notice ''Belum ada data pesanan untuk analisis menu'' \<longleftrightarrow> os = [])
     \<and> (ap_hours p = Notice ''Belum ada data untuk analisis waktu'' \<longleftrightarrow> os = [])
     \<and> (ap_detail_status p = Notice ''Belum ada data pesanan'' \<longleftrightarrow> os = [])
     \<and> (ap_detail_customers p = Notice ''Belum ada data pelanggan'' \<longleftrightarrow> os = [])
     \<and> (ap_raw_data p = Notice ''Belum ada data pesanan'' \<longleftrightarrow> os = [])"
  using analytics_tab_Inr [OF assms, of now]
  by (simp add: revenue_panel_def status_panel_def customers_panel_def menu_panel_def hour_panel_def
      detail_status_panel_def detail_customers_panel_def raw_data_panel_def Let_def
      daily_revenue_Nil_iff status_count_Nil_iff top_customers_Nil_iff top5_customers_def)

theorem analytics_tab_sections_witness:
  "get_all_orders empty_db = Inr []
   \<and> (\<exists>p. analytics_tab (mk_dt 2024 1 20 12 0 0) empty_db = Inr p
     \<and> (ap_revenue_trend p = Notice ''Belum ada data pendapatan untuk ditampilkan''
          \<longleftrightarrow> completed_orders (days_filter (mk_dt 2024 1 20 12 0 0) 30 []) = [])
     \<and> (ap_status_pie p = Notice ''Belum ada data status pesanan'' \<longleftrightarrow> [] = ([] :: order list))
     \<and> (ap_status_bar p = Notice ''Belum ada data status pesanan'' \<longleftrightarrow> [] = ([] :: order list))
     \<and> (ap_customers p = Notice ''Belum ada data pelanggan'' \<longleftrightarrow> [] = ([] :: order list))
     \<and> (ap_menu p = Notice ''Belum ada data pesanan untuk analisis menu'' \<longleftrightarrow> [] = ([] :: order list))
     \<and> (ap_hours p = Notice ''Belum ada data untuk analisis waktu'' \<longleftrightarrow> [] = ([] :: order list))
     \<and> (ap_detail_status p = Notice ''Belum ada data pesanan'' \<longleftrightarrow> [] = ([] :: order list))
     \<and> (ap_detail_customers p = Notice ''Belum ada data pelanggan'' \<longleftrightarrow> [] = ([] :: order list))
     \<and> (ap_raw_data p = Notice ''Belum ada data pesanan'' \<longleftrightarrow> [] = ([] :: order list)))"
proof -
  have h: "get_all_orders empty_db = Inr []" by (simp add: get_all_orders_def empty_db_def)
  show ?thesis using h analytics_tab_sections [OF h, of "mk_dt 2024 1 20 12 0 0"] by blast
qed

end
