(* ===== verification/Spec2Isabelle.thy ===== *)
theory Spec2Isabelle
  imports Prelude MessageProcessor Automation Gateway Dashboard Export AppSession Analytics
begin

text \<open>
  \<^bold>\<open>A verification library for the WhatsApp order bot.\<close>

  The program (\<open>src/\<close>) is a Streamlit dashboard (\<open>app.py\<close>) over a SQLite table of
  orders (\<open>utils/database.py\<close>, records of \<open>models/order_model.py\<close>), a keyword and
  regular-expression reply engine (\<open>utils/message_processor.py\<close>), a second,
  rule-table responder (\<open>utils/automation.py\<close>) and a Twilio/Flask gateway
  (\<open>utils/whatsapp_integration.py\<close>). The gateway is meant to pass inbound
  WhatsApp text to the engine and send its reply back; the dashboard reads the store on
  every run and writes status changes and the sample data back.

  \<^bold>\<open>Theories and what they model.\<close>
  \<^item> \<open>Prelude\<close>: the Python built-ins the sources use, on ASCII text: \<open>str.lower\<close>,
    \<open>in\<close>, \<open>int()\<close>/\<open>str()\<close> of digit strings, \<open>f"{n:,}"\<close>, \<open>split\<close>/\<open>strip\<close>,
    dict assignment and \<open>get\<close> on insertion-ordered association lists, pandas'
    descending sort (\<open>sort_desc\<close>, stable), loops that stop at the first exception
    (\<open>map_result\<close>, \<open>py_bind\<close>), and the accumulating-dict loop with its reference
    \<open>group_sum\<close>. Errors are \<open>py_error + 'a\<close>.
  \<^item> \<open>MessageProcessor\<close>: \<open>MessageProcessor\<close> (its keyword lists and menu as a record,
    \<open>process_message\<close>, \<open>_process_order\<close> with the extraction and rendering loops,
    the regex \<open>(\d+)\s*item\<close> as a backtracking matcher \<open>qty_match_at\<close>/\<open>qty_search\<close>).
  \<^item> \<open>Timestamp\<close>, \<open>Order\<close>: \<open>datetime\<close> as a record with the constructor's range
    checks, \<open>toordinal\<close> and the microsecond time line, the sqlite3 adapter's text
    (\<open>isoformat\<close>) and \<open>strptime('%Y-%m-%d %H:%M:%S')\<close>; the \<open>Order\<close> record.
  \<^item> \<open>Database\<close>: the table as rows in rowid order with the AUTOINCREMENT counter
    (\<open>db\<close>); \<open>add_order\<close>, \<open>update_order_status\<close>, \<open>init_sample_data\<close> as state
    transformers and \<open>db_step\<close> over them; the reads \<open>get_all_orders\<close> (ORDER BY
    created_at DESC, then \<open>strptime\<close> per row) and \<open>get_order\<close>; every reporting query
    as a filter or aggregate of \<open>get_all_orders\<close>.
  \<^item> \<open>Automation\<close>: \<open>AutomationRules\<close>; \<open>re.search\<close> of an alternation of literals.
  \<^item> \<open>Gateway\<close>: \<open>WhatsAppIntegration\<close> as a record; every method with explicit state
    passing, exceptions as \<open>Inl\<close> with the state the raise leaves; Twilio's answers as
    arguments chosen by the environment; the object as the step relation \<open>gw_step\<close>.
  \<^item> \<open>Dashboard\<close>: what one run of \<open>app.py\<close> computes (\<open>render_dashboard\<close>): counts,
    revenue and average, per-date charts, the orders tab with its status selectboxes
    (\<open>list.index\<close>), top customers and menu items, the hour histogram.
  \<^item> \<open>Export\<close>: \<open>export_orders_to_csv\<close> as the text of the file it writes
    (\<open>DataFrame.to_csv\<close> with minimal quoting, the datetime column in pandas' format),
    and a CSV record reader with a column importer as its reference.
  \<^item> \<open>AppSession\<close>: the dashboard's buttons as actions of the step relation
    \<open>dash_reach\<close> from a new database, the typing invariant of the store they produce
    (\<open>store_ok\<close>), the text of the orders tab and data table, and the demo messages;
    the run that follows a click, which reaches a button only when the reads above it
    succeed (\<open>update_button_reached\<close>, \<open>tab4_buttons_reached\<close>), with the
    \<open>st.rerun()\<close> of the update and sample-data handlers (lines 134-138, 169-173), as
    the loop \<open>app_run\<close>.
  \<^item> \<open>Analytics\<close>: the analytics tab (tab 4) as the page it shows, \<open>analytics_tab\<close>:
    its reads in the script's order and each section as the data its chart or table is
    given or the notice of its \<open>else\<close> branch (\<open>panel\<close>); the export option
    buttons (\<open>export_option_click\<close>).
  \<^item> This theory: how the app wires the parts together (\<open>app_gateway\<close>, the only use
    \<open>app.py\<close> makes of the gateway) and the properties across parts.

  \<^bold>\<open>What the lemmas show.\<close> The engine: greeting priority, the priced quotation and its
  equality with a loop-free reference, the regex matcher sound, complete and exact, the
  default quantity, the unreachable status branch (\<open>pesan\<close> inside \<open>pesanan\<close>), the
  comma-format round trip. The store: the id invariant over every sequence of operations,
  add/get round trip, the update frame and idempotence, the windows nested and
  "today" by calendar date, the histogram and top-customer characterisations, the reset
  reissuing ids, and the \<open>ValueError\<close> every read raises once an order with microseconds
  is stored, through every later add and update until the table is reset (the unreadable
  row is an invariant of those operations). The responder: the leftmost/first-alternative
  search, its refinement to substring tests, the order rule shadowing delivery questions. The gateway: the
  reachable-state invariant (rule induction over \<open>gw_step\<close>), the reply round trip of a
  webhook, the error paths. The dashboard: each accumulating loop equals \<open>group_sum\<close>,
  the top five are the largest, the histogram counts every order, the orders tab raises
  exactly on unknown statuses, and the whole run fails after one fractional timestamp.
  The session: the dashboard's own buttons keep the store well-typed (preservation, by rule
  induction over \<open>dash_reach\<close>), and on a well-typed store every run and every export
  completes (progress: no \<open>ValueError\<close>, and the guard of line 189 rules out
  \<open>ZeroDivisionError\<close>). A status update of a stored order is shown on the page the
  click settles on (liveness). The analytics tab: each section shows its notice exactly
  when it has nothing to show, the "no menu data" notice is unreachable, and the "monthly
  report" exports every order. The export: the file, read back and imported, gives exactly
  the orders it was written from.

  \<^bold>\<open>Choices.\<close> Text is a list of 8-bit characters and the built-ins are modelled on
  ASCII (the emoji of the thanks reply as its UTF-8 bytes). Totals are whole rupiah,
  \<open>int\<close> (the REAL column holds them exactly below \<open>2^53\<close>); Python's true division is
  an exact rational that raises \<open>ZeroDivisionError\<close> on a zero divisor, so the guards
  before a division are part of the model. \<open>datetime.now()\<close> is a parameter. Every loop over data is a
  structural \<open>fun\<close>, a \<open>foldl\<close>, or a \<open>function\<close> with a measure
  (\<open>py_replace\<close>), so no fuel is used. The one loop with no bound in the code, the
  Streamlit rerun, is a \<open>partial_function (option)\<close> (\<open>app_run\<close>): a run that never
  settled would be \<open>None\<close>; the liveness lemma proves that the update click settles.

  \<^bold>\<open>Not modelled.\<close> Streamlit widgets and plotly figures (presentation: only the
  values they show are modelled); the writing of the export file (its text is modelled;
  the empty store's file is taken to be a single line break; years before 1677, outside
  pandas' datetime range, are written like the others); logging; the Flask server thread and HTTP transport; the Twilio client's
  network behaviour (its outcomes are parameters); \<open>validate_credentials\<close>' account
  fetch beyond its outcome; float rounding; \<open>str.lower\<close>/\<open>strip\<close> on non-ASCII text;
  SQLite connections and transactions (each method is one atomic state change);
  \<open>time.sleep(1)\<close> before a rerun and the success messages (no effect on the state);
  a click as a single event per run (Streamlit delivers one button per rerun).
\<close>

section \<open>How \<open>app.py\<close> uses the gateway\<close>

text \<open>\<open>app.py\<close> creates one \<open>WhatsAppIntegration\<close> and, from the sidebar's
  "Simpan Konfigurasi" button, calls \<open>set_credentials\<close> with the three text inputs
  and no webhook URL, any number of times; it never sets a callback, sets up a webhook or
  starts the server.\<close>

inductive app_gateway :: "whatsapp_integration \<Rightarrow> bool" where
  init: "app_gateway new_whatsapp_integration"
| save_config: "app_gateway w \<Longrightarrow> app_gateway (snd (set_credentials sid token number None w))"

section \<open>Properties across components\<close>

lemma app_gateway_fields: "app_gateway w \<Longrightarrow> flask_app w = None \<and> message_callback w = None \<and> sent w = []"
  by (induction rule: app_gateway.induct)
    (auto simp: new_whatsapp_integration_def set_credentials_def Let_def split: sum.split)

text \<open>With the engine as the gateway's callback, a WhatsApp message from
  \<open>whatsapp:n\<close> is answered with exactly the engine's reply to its stripped text, sent
  back to \<open>whatsapp:n\<close>: the reply is never empty, so the gateway always sends it.\<close>

theorem engine_reply_via_gateway:
  assumes "message_callback w = Some (process_message mp)" "client w = Some c"
    and "py_dict_get req ''From'' [] = ''whatsapp:'' @ n" "\<not> py_in ''whatsapp:'' n"
    and "api c (''whatsapp:'' @ py_str_opt (whatsapp_number w)) (''whatsapp:'' @ n)
           (process_message mp (py_strip (py_dict_get req ''Body'' [])) n) = Inr sid"
  shows "handle_webhook api req w
           = (200, w\<lparr>sent := sent w @ [(''whatsapp:'' @ py_str_opt (whatsapp_number w), ''whatsapp:'' @ n,
                                          process_message mp (py_strip (py_dict_get req ''Body'' [])) n)]\<rparr>)"
  using assms send_message_ok [of w c api n] sender_of_whatsapp [OF assms(4)] whatsapp_address_plain [OF assms(4)]
    process_message_not_Nil [of mp "py_strip (py_dict_get req ''Body'' [])" n]
  by (simp add: handle_webhook_def Let_def)

theorem engine_reply_via_gateway_witness:
  "message_callback (set_message_callback (process_message new_message_processor) demo_gateway)
     = Some (process_message new_message_processor)
   \<and> client (set_message_callback (process_message new_message_processor) demo_gateway) = Some (TwilioClient ''AC1'' ''tok'')
   \<and> py_dict_get [(''Body'', ''Halo''), (''From'', ''whatsapp:+628123'')] ''From'' [] = ''whatsapp:'' @ ''+628123''
   \<and> \<not> py_in ''whatsapp:'' ''+628123''
   \<and> (\<lambda>c f t b. Inr ''SM1'') (TwilioClient ''AC1'' ''tok'') (''whatsapp:'' @ ''+14155238886'') (''whatsapp:'' @ ''+628123'')
       (process_message new_message_processor (py_strip (py_dict_get [(''Body'', ''Halo''), (''From'', ''whatsapp:+628123'')] ''Body'' [])) ''+628123'')
       = (Inr ''SM1'' :: gw_error + string)
   \<and> sent (snd (handle_webhook (\<lambda>c f t b. Inr ''SM1'') [(''Body'', ''Halo''), (''From'', ''whatsapp:+628123'')]
        (set_message_callback (process_message new_message_processor) demo_gateway)))
       = [(''whatsapp:+14155238886'', ''whatsapp:+628123'', generate_greeting_response ''+628123'')]"
proof -
  let ?w = "set_message_callback (process_message new_message_processor) demo_gateway"
  let ?req = "[(''Body'', ''Halo''), (''From'', ''whatsapp:+628123'')]"
  have h1: "message_callback ?w = Some (process_message new_message_processor)"
    by (simp add: set_message_callback_def)
  have h2: "client ?w = Some (TwilioClient ''AC1'' ''tok'')"
    by (simp add: demo_gateway_def set_message_callback_def set_credentials_def twilio_client_new_def)
  have h3: "py_dict_get ?req ''From'' [] = ''whatsapp:'' @ ''+628123''" by (simp add: py_simps)
  have h4: "\<not> py_in ''whatsapp:'' ''+628123''" by simp
  have n: "whatsapp_number ?w = Some ''+14155238886''" "sent ?w = []"
    by (simp_all add: demo_gateway_def set_message_callback_def set_credentials_def twilio_client_new_def
        new_whatsapp_integration_def)
  have h5: "(\<lambda>c f t b. Inr ''SM1'') (TwilioClient ''AC1'' ''tok'') (''whatsapp:'' @ py_str_opt (whatsapp_number ?w))
       (''whatsapp:'' @ ''+628123'')
       (process_message new_message_processor (py_strip (py_dict_get ?req ''Body'' [])) ''+628123'')
       = (Inr ''SM1'' :: gw_error + string)"
    by simp
  have r: "process_message new_message_processor (py_strip (py_dict_get ?req ''Body'' [])) ''+628123''
      = generate_greeting_response ''+628123''"
    by (simp add: mp_eval py_simps)
  show ?thesis
    using h1 h2 h3 h4 h5 engine_reply_via_gateway [OF h1 h2 h3 h4 h5] by (simp add: n r)
qed

text \<open>C33. As \<open>app.py\<close> wires it, the gateway never starts its server and never has a
  callback, so the engine is never called on inbound text and nothing is ever sent: even a
  webhook request reaching the handler is acknowledged with 200 and no reply.\<close>

theorem app_gateway_silent:
  assumes "app_gateway w"
  shows "flask_app w = None \<and> message_callback w = None \<and> sent w = [] \<and> handle_webhook api req w = (200, w)"
  using app_gateway_fields [OF assms] by (simp add: handle_webhook_def Let_def)

theorem app_gateway_silent_witness:
  "app_gateway (snd (set_credentials ''AC1'' ''tok'' ''+14155238886'' None new_whatsapp_integration))
   \<and> handle_webhook (\<lambda>c f t b. Inr ''SM1'') [(''Body'', ''Halo''), (''From'', ''whatsapp:+628123'')]
       (snd (set_credentials ''AC1'' ''tok'' ''+14155238886'' None new_whatsapp_integration))
     = (200, snd (set_credentials ''AC1'' ''tok'' ''+14155238886'' None new_whatsapp_integration))"
proof -
  have h: "app_gateway (snd (set_credentials ''AC1'' ''tok'' ''+14155238886'' None new_whatsapp_integration))"
    by (rule app_gateway.save_config) (rule app_gateway.init)
  show ?thesis using h app_gateway_silent [OF h] by blast
qed

end
